theory Spec2Isabelle
  imports Complex_Main
begin

section \<open>JSON values\<close>

text \<open>
  The \<open>jsonb\<close> columns and the JSON bodies exchanged with the endpoints.  A JavaScript
  number is modelled by a real number.
\<close>

datatype json =
    JNull
  | JBool bool
  | JNum real
  | JStr string
  | JArr "json list"
  | JObj "(string \<times> json) list"

section \<open>The table \<open>bilibili_video_analyses\<close> and its upsert function\<close>

text \<open>
  The analysis columns of a row.  A nullable column has an option type (\<open>None\<close> is SQL
  \<open>NULL\<close>); the columns declared \<open>NOT NULL\<close> (\<open>title\<close>, \<open>duration\<close>,
  \<open>transcript\<close>, the two timestamps) and the primary key \<open>id\<close> have no \<open>NULL\<close>.
  A uuid and a timestamp are natural numbers.
\<close>

record analysis_columns =
  row_id :: nat
  title :: string
  author :: "string option"
  duration :: int
  thumbnail_url :: "string option"
  transcript :: json
  topics :: "json option"
  summary :: "json option"
  suggested_questions :: "json option"
  model_used :: "string option"
  created_at :: nat
  updated_at :: nat

text \<open>One row of \<open>public.bilibili_video_analyses\<close>: the columns above and the two ids.\<close>

record analysis_row = analysis_columns +
  bvid :: "string option"
  aid :: "string option"

text \<open>
  The database: the table, the state of \<open>uuid_generate_v4\<close> (the next fresh uuid), and
  the names of the functions that exist (\<open>pg_proc\<close>).
\<close>

record database =
  bilibili_video_analyses :: "analysis_row list"
  next_uuid :: nat
  pg_proc :: "string list"

text \<open>The database after \<open>CREATE TABLE\<close>: no row, no function.\<close>

definition empty_database :: database where
  "empty_database = \<lparr>bilibili_video_analyses = [], next_uuid = 0, pg_proc = []\<rparr>"

text \<open>The parameters of \<open>upsert_bilibili_video_analysis\<close>; each may be \<open>NULL\<close>.\<close>

record upsert_args =
  p_bvid :: "string option"
  p_aid :: "string option"
  p_title :: "string option"
  p_author :: "string option"
  p_duration :: "int option"
  p_thumbnail_url :: "string option"
  p_transcript :: "json option"
  p_topics :: "json option"
  p_summary :: "json option"
  p_suggested_questions :: "json option"
  p_model_used :: "string option"

text \<open>
  The errors of PostgreSQL that the statements below can raise: \<open>RAISE EXCEPTION\<close>
  (P0001), 23502, 23514, 23505, \<open>invalid_function_definition\<close> (42P13),
  \<open>undefined_function\<close> (42883) and \<open>numeric_value_out_of_range\<close> (22003).
\<close>

datatype sql_error =
    raise_exception string
  | not_null_violation string
  | check_violation string
  | unique_violation string
  | invalid_function_definition string
  | undefined_function string
  | numeric_value_out_of_range string

text \<open>The values of the type \<open>integer\<close> (four bytes).\<close>

definition int4 :: "int \<Rightarrow> bool" where
  "int4 n = (- 2147483648 \<le> n \<and> n \<le> 2147483647)"

text \<open>
  The parameter list of \<open>CREATE OR REPLACE FUNCTION public.upsert_bilibili_video_analysis\<close>
  as the migration declares it: each name with whether it has a \<open>DEFAULT\<close>.
\<close>

definition upsert_parameters :: "(string \<times> bool) list" where
  "upsert_parameters =
     [(''p_bvid'', True), (''p_aid'', True), (''p_title'', False), (''p_author'', False),
      (''p_duration'', False), (''p_thumbnail_url'', False), (''p_transcript'', False),
      (''p_topics'', False), (''p_summary'', False), (''p_suggested_questions'', False),
      (''p_model_used'', False)]"

text \<open>
  PostgreSQL accepts a parameter list only if every input parameter that follows one with
  a default has a default too; otherwise \<open>CREATE FUNCTION\<close> fails and creates nothing.
\<close>

fun defaults_are_trailing :: "(string \<times> bool) list \<Rightarrow> bool" where
  "defaults_are_trailing [] = True"
| "defaults_are_trailing ((name, has_default) # ps) =
     (if has_default then list_all snd ps else defaults_are_trailing ps)"

definition create_function ::
    "string \<Rightarrow> (string \<times> bool) list \<Rightarrow> database \<Rightarrow> sql_error + database" where
  "create_function name ps db =
     (if defaults_are_trailing ps then Inr (db\<lparr>pg_proc := name # pg_proc db\<rparr>)
      else Inl (invalid_function_definition name))"

text \<open>
  The database after the migration: the table is created, then the statement that creates
  the upsert function is run; a statement that fails leaves the database as it was.
\<close>

definition migrated_database :: database where
  "migrated_database =
     (case create_function ''upsert_bilibili_video_analysis'' upsert_parameters empty_database of
        Inl e \<Rightarrow> empty_database
      | Inr db \<Rightarrow> db)"

text \<open>
  \<open>CONSTRAINT bilibili_video_analyses_bvid_aid_check CHECK (...)\<close>, the three
  disjuncts in the order of the migration.
\<close>

definition bilibili_video_analyses_bvid_aid_check :: "string option \<Rightarrow> string option \<Rightarrow> bool" where
  "bilibili_video_analyses_bvid_aid_check b a =
     ((b \<noteq> None \<and> a = None) \<or>
      (b = None \<and> a \<noteq> None) \<or>
      (b \<noteq> None \<and> a \<noteq> None))"

definition COALESCE :: "'a option \<Rightarrow> 'a option \<Rightarrow> 'a option" where
  "COALESCE x y = (case x of Some v \<Rightarrow> Some v | None \<Rightarrow> y)"

text \<open>
  The \<open>DO UPDATE SET\<close> clause: \<open>r\<close> is the stored row
  (\<open>bilibili_video_analyses.*\<close>), the arguments stand for \<open>EXCLUDED.*\<close>.
\<close>

definition do_update_set :: "nat \<Rightarrow> upsert_args \<Rightarrow> analysis_row \<Rightarrow> analysis_row" where
  "do_update_set now a r =
     r\<lparr>topics := COALESCE (p_topics a) (topics r),
       summary := COALESCE (p_summary a) (summary r),
       suggested_questions := COALESCE (p_suggested_questions a) (suggested_questions r),
       updated_at := now\<rparr>"

text \<open>
  \<open>ON CONFLICT (bvid)\<close>: the unique index on \<open>bvid\<close> treats \<open>NULL\<close>s as distinct, so
  a proposed row whose \<open>bvid\<close> is \<open>NULL\<close> conflicts with nothing.
\<close>

definition conflicts :: "string option \<Rightarrow> analysis_row \<Rightarrow> bool" where
  "conflicts b r = (b \<noteq> None \<and> bvid r = b)"

text \<open>
  A call of \<open>upsert_bilibili_video_analysis\<close> at time \<open>now\<close>.  The call fails when the
  database has no function of that name, and when \<open>p_duration\<close> is not an \<open>integer\<close>.
  The body raises when both ids are \<open>NULL\<close>; the row proposed for insertion is checked
  against the \<open>NOT NULL\<close> columns and the check constraint before the conflict is looked
  for; a conflicting row is updated in place and its id returned, otherwise the proposed
  row is appended under a fresh uuid.  An error leaves the table as it was.
\<close>

definition upsert_bilibili_video_analysis ::
    "database \<Rightarrow> nat \<Rightarrow> upsert_args \<Rightarrow> sql_error + (nat \<times> database)" where
  "upsert_bilibili_video_analysis db now a =
     (if ''upsert_bilibili_video_analysis'' \<notin> set (pg_proc db)
        then Inl (undefined_function ''upsert_bilibili_video_analysis'')
      else if (case p_duration a of Some d \<Rightarrow> \<not> int4 d | None \<Rightarrow> False)
        then Inl (numeric_value_out_of_range ''integer'')
      else if p_bvid a = None \<and> p_aid a = None
        then Inl (raise_exception ''Either bvid or aid must be provided'')
      else case p_title a of
        None \<Rightarrow> Inl (not_null_violation ''title'')
      | Some v_title \<Rightarrow>
      (case p_duration a of
        None \<Rightarrow> Inl (not_null_violation ''duration'')
      | Some v_duration \<Rightarrow>
      (case p_transcript a of
        None \<Rightarrow> Inl (not_null_violation ''transcript'')
      | Some v_transcript \<Rightarrow>
      if \<not> bilibili_video_analyses_bvid_aid_check (p_bvid a) (p_aid a)
        then Inl (check_violation ''bilibili_video_analyses_bvid_aid_check'')
      else (case find (conflicts (p_bvid a)) (bilibili_video_analyses db) of
        Some old \<Rightarrow>
          Inr (row_id old,
               db\<lparr>bilibili_video_analyses :=
                    map (\<lambda>r. if conflicts (p_bvid a) r then do_update_set now a r else r)
                        (bilibili_video_analyses db)\<rparr>)
      | None \<Rightarrow>
          Inr (next_uuid db,
               db\<lparr>bilibili_video_analyses := bilibili_video_analyses db @
                      [\<lparr>row_id = next_uuid db,
                        title = v_title, author = p_author a, duration = v_duration,
                        thumbnail_url = p_thumbnail_url a, transcript = v_transcript,
                        topics = p_topics a, summary = p_summary a,
                        suggested_questions = p_suggested_questions a,
                        model_used = p_model_used a,
                        created_at = now, updated_at = now,
                        bvid = p_bvid a, aid = p_aid a\<rparr>],
                  next_uuid := Suc (next_uuid db)\<rparr>)))))"

text \<open>
  A direct \<open>INSERT\<close> of a row into the table, as the row-level-security policies allow
  an authenticated client.  The id is the column default \<open>uuid_generate_v4()\<close>; the
  duration has to be an \<open>integer\<close>; the check constraint and the unique index on
  \<open>bvid\<close> decide whether the row is accepted.
\<close>

definition insert_row :: "database \<Rightarrow> analysis_row \<Rightarrow> sql_error + database" where
  "insert_row db r =
     (if \<not> int4 (duration r)
        then Inl (numeric_value_out_of_range ''integer'')
      else if \<not> bilibili_video_analyses_bvid_aid_check (bvid r) (aid r)
        then Inl (check_violation ''bilibili_video_analyses_bvid_aid_check'')
      else if find (conflicts (bvid r)) (bilibili_video_analyses db) \<noteq> None
        then Inl (unique_violation ''bilibili_video_analyses_bvid_key'')
      else Inr (db\<lparr>bilibili_video_analyses :=
                    bilibili_video_analyses db @ [r\<lparr>row_id := next_uuid db\<rparr>],
                  next_uuid := Suc (next_uuid db)\<rparr>))"

datatype statement = Upsert nat upsert_args | Insert analysis_row

text \<open>A statement that raises is rolled back: the table keeps its rows.\<close>

definition execute :: "database \<Rightarrow> statement \<Rightarrow> database" where
  "execute db st =
     (case st of
        Upsert now a \<Rightarrow>
          (case upsert_bilibili_video_analysis db now a of Inl e \<Rightarrow> db | Inr (v, db') \<Rightarrow> db')
      | Insert r \<Rightarrow>
          (case insert_row db r of Inl e \<Rightarrow> db | Inr db' \<Rightarrow> db'))"

definition execute_all :: "database \<Rightarrow> statement list \<Rightarrow> database" where
  "execute_all db sts = foldl execute db sts"

text \<open>Arguments of a first save of a BV video, used in the examples below.\<close>

definition example_args :: upsert_args where
  "example_args =
     \<lparr>p_bvid = Some ''BV1xx411c7mD'', p_aid = None, p_title = Some ''Old title'',
      p_author = Some ''Old author'', p_duration = Some 60, p_thumbnail_url = None,
      p_transcript = Some (JArr []), p_topics = Some (JArr [JStr ''t1'']),
      p_summary = None, p_suggested_questions = None, p_model_used = None\<rparr>"

text \<open>
  A later partial update of the same video: no topics, a summary, and new metadata.
\<close>

definition example_update :: upsert_args where
  "example_update =
     example_args\<lparr>p_title := Some ''New title'', p_author := Some ''New author'',
       p_topics := None, p_summary := Some (JStr ''X'')\<rparr>"

text \<open>The row of that first save, for a direct \<open>INSERT\<close>.\<close>

definition example_row :: analysis_row where
  "example_row =
     \<lparr>row_id = 0, title = ''Old title'', author = Some ''Old author'', duration = 60,
      thumbnail_url = None, transcript = JArr [], topics = Some (JArr [JStr ''t1'']),
      summary = None, suggested_questions = None, model_used = None,
      created_at = 1, updated_at = 1, bvid = Some ''BV1xx411c7mD'', aid = None\<rparr>"

section \<open>URL parsing: \<open>extractVideoId\<close> and \<open>detectPlatform\<close>\<close>

subsection \<open>JavaScript regular expressions\<close>

text \<open>
  A string is a list of 8-bit characters (the code units below 256).  Under the flag
  \<open>i\<close> two characters are compared after canonicalisation, which maps \<open>a\<close>..\<open>z\<close>
  to \<open>A\<close>..\<open>Z\<close> and never maps a character outside ASCII to an ASCII one; on the
  literals and classes of the patterns below that is all that matters.
\<close>

fun upper_of :: "(char \<times> char) list \<Rightarrow> char \<Rightarrow> char" where
  "upper_of [] c = c"
| "upper_of ((l, u) # ps) c = (if c = l then u else upper_of ps c)"

definition Canonicalize :: "bool \<Rightarrow> char \<Rightarrow> char" where
  "Canonicalize ignoreCase c =
     (if ignoreCase
      then upper_of (zip ''abcdefghijklmnopqrstuvwxyz'' ''ABCDEFGHIJKLMNOPQRSTUVWXYZ'') c
      else c)"

text \<open>
  The regular expressions are the fragment the two source files use: literals, character
  classes, sequence, alternation, an optional group, the greedy quantifiers \<open>*\<close>,
  \<open>+\<close> and \<open>{n}\<close> on a character class, and the capture group.
\<close>

datatype regex =
    Lit string
  | Class "char \<Rightarrow> bool"
  | Seq regex regex
  | Alt regex regex
  | Opt regex
  | Star "char \<Rightarrow> bool"
  | Plus "char \<Rightarrow> bool"
  | Rep nat "char \<Rightarrow> bool"
  | Group regex

text \<open>
  \<open>lit_match i l s\<close> matches the literal \<open>l\<close> at the front of \<open>s\<close> and returns the
  rest of \<open>s\<close>.
\<close>

fun lit_match :: "bool \<Rightarrow> string \<Rightarrow> string \<Rightarrow> string option" where
  "lit_match i [] s = Some s"
| "lit_match i (x # xs) [] = None"
| "lit_match i (x # xs) (y # ys) =
     (if Canonicalize i y = Canonicalize i x then lit_match i xs ys else None)"

text \<open>
  A character matches a class under \<open>i\<close> when some member of the class has its
  canonical form; such a member is the character, its upper case or its lower case.
\<close>

definition to_lower :: "char \<Rightarrow> char" where
  "to_lower c = upper_of (zip ''ABCDEFGHIJKLMNOPQRSTUVWXYZ'' ''abcdefghijklmnopqrstuvwxyz'') c"

definition class_match :: "bool \<Rightarrow> (char \<Rightarrow> bool) \<Rightarrow> char \<Rightarrow> bool" where
  "class_match i p c = (if i then p c \<or> p (Canonicalize True c) \<or> p (to_lower c) else p c)"

text \<open>
  Greedy repetition with backtracking: \<open>star p s k\<close> takes as many characters of class
  \<open>p\<close> as it can and gives back one at a time until the continuation \<open>k\<close> succeeds.
\<close>

fun star :: "(char \<Rightarrow> bool) \<Rightarrow> string \<Rightarrow> (string \<Rightarrow> 'r option) \<Rightarrow> 'r option" where
  "star p [] k = k []"
| "star p (x # xs) k =
     (if p x then (case star p xs k of Some r \<Rightarrow> Some r | None \<Rightarrow> k (x # xs))
      else k (x # xs))"

fun rep :: "nat \<Rightarrow> (char \<Rightarrow> bool) \<Rightarrow> string \<Rightarrow> string option" where
  "rep 0 p s = Some s"
| "rep (Suc n) p [] = None"
| "rep (Suc n) p (x # xs) = (if p x then rep n p xs else None)"

text \<open>
  The backtracking matcher in continuation-passing style: \<open>backtrack i r s c k\<close> matches \<open>r\<close>
  at the front of \<open>s\<close> with the capture \<open>c\<close> so far, trying the alternatives in the
  order of the ECMAScript semantics, and calls \<open>k\<close> on the rest and the capture; the
  first success is the result.
\<close>

fun backtrack :: "bool \<Rightarrow> regex \<Rightarrow> string \<Rightarrow> string option \<Rightarrow>
    (string \<Rightarrow> string option \<Rightarrow> 'r option) \<Rightarrow> 'r option" where
  "backtrack i (Lit l) s c k = (case lit_match i l s of None \<Rightarrow> None | Some s' \<Rightarrow> k s' c)"
| "backtrack i (Class p) s c k =
     (case s of [] \<Rightarrow> None | x # xs \<Rightarrow> if class_match i p x then k xs c else None)"
| "backtrack i (Seq a b) s c k = backtrack i a s c (\<lambda>s' c'. backtrack i b s' c' k)"
| "backtrack i (Alt a b) s c k = (case backtrack i a s c k of Some r \<Rightarrow> Some r | None \<Rightarrow> backtrack i b s c k)"
| "backtrack i (Opt a) s c k = (case backtrack i a s c k of Some r \<Rightarrow> Some r | None \<Rightarrow> k s c)"
| "backtrack i (Star p) s c k = star (class_match i p) s (\<lambda>s'. k s' c)"
| "backtrack i (Plus p) s c k =
     (case s of [] \<Rightarrow> None
      | x # xs \<Rightarrow> if class_match i p x then star (class_match i p) xs (\<lambda>s'. k s' c) else None)"
| "backtrack i (Rep n p) s c k = (case rep n (class_match i p) s of None \<Rightarrow> None | Some s' \<Rightarrow> k s' c)"
| "backtrack i (Group a) s c k = backtrack i a s c (\<lambda>s' c'. k s' (Some (take (length s - length s') s)))"

text \<open>
  \<open>String.prototype.match\<close> with a non-global regular expression: the leftmost
  position at which the expression matches.  The result is \<open>None\<close> for \<open>null\<close>, and
  otherwise holds \<open>match[1]\<close>, the text of the capture group.
\<close>

definition match_at :: "bool \<Rightarrow> regex \<Rightarrow> string \<Rightarrow> string option option" where
  "match_at i r s = backtrack i r s None (\<lambda>s' c. Some c)"

fun js_match :: "bool \<Rightarrow> regex \<Rightarrow> string \<Rightarrow> string option option" where
  "js_match i r [] = match_at i r []"
| "js_match i r (x # xs) =
     (case match_at i r (x # xs) of Some c \<Rightarrow> Some c | None \<Rightarrow> js_match i r xs)"

subsection \<open>The patterns\<close>

text \<open>The classes \<open>\\s\<close>, \<open>.\<close>, \<open>[^\\/]\<close>, \<open>[?&]\<close>, \<open>[^"&?\\/\\s]\<close>, \<open>\\d\<close> and
  \<open>[a-zA-Z0-9]\<close>.\<close>

definition white_space :: "char \<Rightarrow> bool" where
  "white_space c = (c \<in> {CHR 0x09, CHR 0x0A, CHR 0x0B, CHR 0x0C, CHR 0x0D, CHR 0x20, CHR 0xA0})"

definition dot :: "char \<Rightarrow> bool" where
  "dot c = (c \<noteq> CHR 0x0A \<and> c \<noteq> CHR 0x0D)"

definition not_slash :: "char \<Rightarrow> bool" where
  "not_slash c = (c \<noteq> CHR ''/'')"

definition query_sep :: "char \<Rightarrow> bool" where
  "query_sep c = (c = CHR ''?'' \<or> c = CHR ''&'')"

definition id_char :: "char \<Rightarrow> bool" where
  "id_char c = (c \<noteq> CHR 0x22 \<and> c \<noteq> CHR ''&'' \<and> c \<noteq> CHR ''?'' \<and> c \<noteq> CHR ''/'' \<and> \<not> white_space c)"

definition digit :: "char \<Rightarrow> bool" where
  "digit c = (c \<in> set ''0123456789'')"

definition alnum :: "char \<Rightarrow> bool" where
  "alnum c = (c \<in> set ''abcdefghijklmnopqrstuvwxyzABCDEFGHIJKLMNOPQRSTUVWXYZ0123456789'')"

text \<open>
  \<^verbatim>\<open>/(?:youtube\.com\/(?:[^\/]+\/.+\/|(?:v|e(?:mbed)?)\/|.*[?&]v=)|youtu\.be\/)([^"&?\/\s]{11})/\<close>
\<close>

definition youtubeRegex :: regex where
  "youtubeRegex =
     Seq (Alt (Seq (Lit ''youtube.com/'')
                   (Alt (Seq (Plus not_slash) (Seq (Lit ''/'') (Seq (Plus dot) (Lit ''/''))))
                   (Alt (Seq (Alt (Lit ''v'') (Seq (Lit ''e'') (Opt (Lit ''mbed'')))) (Lit ''/''))
                        (Seq (Star dot) (Seq (Class query_sep) (Lit ''v=''))))))
              (Lit ''youtu.be/''))
         (Group (Rep 11 id_char))"

text \<open>
  The four Bilibili patterns, all with the flag \<open>i\<close>, named after their comments:
  \<^verbatim>\<open>/bilibili\.com\/video\/(BV[a-zA-Z0-9]+)/i\<close>,
  \<^verbatim>\<open>/bilibili\.com\/video\/av(\d+)/i\<close>,
  \<^verbatim>\<open>/b23\.tv\/(BV[a-zA-Z0-9]+)/i\<close> and
  \<^verbatim>\<open>/m\.bilibili\.com\/video\/(BV[a-zA-Z0-9]+)/i\<close>.
\<close>

definition bv_format :: regex where
  "bv_format = Seq (Lit ''bilibili.com/video/'') (Group (Seq (Lit ''BV'') (Plus alnum)))"

definition av_format :: regex where
  "av_format = Seq (Lit ''bilibili.com/video/av'') (Group (Plus digit))"

definition short_url :: regex where
  "short_url = Seq (Lit ''b23.tv/'') (Group (Seq (Lit ''BV'') (Plus alnum)))"

definition mobile_url :: regex where
  "mobile_url = Seq (Lit ''m.bilibili.com/video/'') (Group (Seq (Lit ''BV'') (Plus alnum)))"

definition bilibiliPatterns :: "regex list" where
  "bilibiliPatterns = [bv_format, av_format, short_url, mobile_url]"

text \<open>The loop \<open>for (const pattern of patterns)\<close>: the first pattern that matches.\<close>

fun first_match :: "regex list \<Rightarrow> string \<Rightarrow> string option" where
  "first_match [] url = None"
| "first_match (pattern # patterns) url =
     (case js_match True pattern url of Some c \<Rightarrow> c | None \<Rightarrow> first_match patterns url)"

text \<open>\<open>extractVideoId\<close> of \<open>lib/utils.ts\<close>: YouTube first, then Bilibili.\<close>

definition extractVideoId :: "string \<Rightarrow> string option" where
  "extractVideoId url =
     (case js_match False youtubeRegex url of
        Some c \<Rightarrow> c
      | None \<Rightarrow> first_match bilibiliPatterns url)"

text \<open>\<open>extractBilibiliVideoId\<close> of \<open>lib/bilibili-client.ts\<close>.\<close>

definition extractBilibiliVideoId :: "string \<Rightarrow> string option" where
  "extractBilibiliVideoId url = first_match bilibiliPatterns url"


text \<open>
  \<open>occurs i l s\<close>: the literal \<open>l\<close> occurs somewhere in \<open>s\<close> (compared under the
  flag \<open>i\<close>).  Without the flag this is \<open>s.includes(l)\<close>.
\<close>

fun occurs :: "bool \<Rightarrow> string \<Rightarrow> string \<Rightarrow> bool" where
  "occurs i l [] = (lit_match i l [] \<noteq> None)"
| "occurs i l (x # xs) = (lit_match i l (x # xs) \<noteq> None \<or> occurs i l xs)"

definition js_includes :: "string \<Rightarrow> string \<Rightarrow> bool" where
  "js_includes s sub = occurs False sub s"

datatype platform = youtube | bilibili

definition detectPlatform :: "string \<Rightarrow> platform option" where
  "detectPlatform url =
     (if js_includes url ''youtube.com'' \<or> js_includes url ''youtu.be'' then Some youtube
      else if js_includes url ''bilibili.com'' \<or> js_includes url ''b23.tv'' then Some bilibili
      else None)"

text \<open>
  Neither of the two host texts of the YouTube pattern occurs in the URL, so that
  \<open>url.match(youtubeRegex)\<close> is null and the Bilibili patterns are tried.
\<close>

abbreviation no_youtube_text :: "string \<Rightarrow> bool" where
  "no_youtube_text url \<equiv>
     \<not> occurs False ''youtube.com/'' url \<and> \<not> occurs False ''youtu.be/'' url"

section \<open>The Bilibili client (\<open>lib/bilibili-client.ts\<close>)\<close>

text \<open>
  What \<open>fetch\<close> followed by \<open>response.json()\<close> gives: the request is aborted by the
  10 second timer, it fails otherwise, or a response arrives with its \<open>ok\<close> flag and
  its body (\<open>None\<close> when the body is not JSON and \<open>json()\<close> throws).
\<close>

datatype 'a http_result =
    Http_aborted
  | Http_failed
  | Http_response bool "'a option"

text \<open>The envelope \<open>{code, message, data}\<close> of the Bilibili API.\<close>

record 'a api_result =
  api_code :: int
  api_message :: string
  api_data :: 'a

record BilibiliVideoInfo =
  info_bvid :: string
  info_title :: string
  info_desc :: string
  info_pic :: string
  info_duration :: real
  owner_name :: string
  pages :: "nat list"

record BilibiliSubtitle =
  subtitle_id :: nat
  lan :: string
  lan_doc :: string
  subtitle_url :: string

text \<open>One entry \<open>{from, to, content, location}\<close> of \<open>BilibiliSubtitleData.body\<close>.\<close>

record BilibiliSubtitleItem =
  item_from :: real
  item_to :: real
  item_content :: string
  item_location :: real

text \<open>
  The requests of the client.  The id goes into \<open>bvid=\<close> when it starts with \<open>BV\<close> and
  into \<open>aid=\<close> otherwise; the player request carries the \<open>cid\<close>.
\<close>

datatype bilibili_request =
    View_bvid string
  | View_aid string
  | Player_bvid string nat
  | Player_aid string nat
  | Subtitle_file string

text \<open>The three endpoints as the outside world answers them.\<close>

record bilibili_api =
  view_api :: "bilibili_request \<Rightarrow> BilibiliVideoInfo api_result http_result"
  player_api :: "bilibili_request \<Rightarrow> BilibiliSubtitle list option api_result http_result"
  subtitle_api :: "bilibili_request \<Rightarrow> BilibiliSubtitleItem list http_result"

text \<open>What the client functions throw; the handlers only log the message.\<close>

datatype client_error = Request_timeout | Request_failed

definition startsWith :: "string \<Rightarrow> string \<Rightarrow> bool" where
  "startsWith s p = (take (length p) s = p)"

definition getBilibiliVideoInfo :: "bilibili_api \<Rightarrow> string \<Rightarrow> client_error + BilibiliVideoInfo" where
  "getBilibiliVideoInfo api videoId =
     (let isBv = startsWith videoId ''BV'';
          apiUrl = (if isBv then View_bvid videoId else View_aid videoId)
      in case view_api api apiUrl of
           Http_aborted \<Rightarrow> Inl Request_timeout
         | Http_failed \<Rightarrow> Inl Request_failed
         | Http_response ok body \<Rightarrow>
             if \<not> ok then Inl Request_failed
             else (case body of
                     None \<Rightarrow> Inl Request_failed
                   | Some result \<Rightarrow>
                       if api_code result \<noteq> 0 then Inl Request_failed
                       else Inr (api_data result)))"

definition getBilibiliSubtitles ::
    "bilibili_api \<Rightarrow> string \<Rightarrow> nat \<Rightarrow> client_error + BilibiliSubtitle list" where
  "getBilibiliSubtitles api videoId cid =
     (let isBv = startsWith videoId ''BV'';
          apiUrl = (if isBv then Player_bvid videoId cid else Player_aid videoId cid)
      in case player_api api apiUrl of
           Http_aborted \<Rightarrow> Inl Request_timeout
         | Http_failed \<Rightarrow> Inl Request_failed
         | Http_response ok body \<Rightarrow>
             if \<not> ok then Inl Request_failed
             else (case body of
                     None \<Rightarrow> Inl Request_failed
                   | Some result \<Rightarrow>
                       if api_code result \<noteq> 0 then Inl Request_failed
                       else Inr (case api_data result of None \<Rightarrow> [] | Some subtitles \<Rightarrow> subtitles)))"

definition fetchSubtitleContent ::
    "bilibili_api \<Rightarrow> string \<Rightarrow> client_error + BilibiliSubtitleItem list" where
  "fetchSubtitleContent api subtitleUrl =
     (let fullUrl = (if startsWith subtitleUrl ''http'' then subtitleUrl
                     else ''https:'' @ subtitleUrl)
      in case subtitle_api api (Subtitle_file fullUrl) of
           Http_aborted \<Rightarrow> Inl Request_timeout
         | Http_failed \<Rightarrow> Inl Request_failed
         | Http_response ok body \<Rightarrow>
             if \<not> ok then Inl Request_failed
             else (case body of None \<Rightarrow> Inl Request_failed | Some content \<Rightarrow> Inr content))"

text \<open>A transcript segment \<open>{text, start, duration}\<close>, times in seconds.\<close>

record TranscriptSegment =
  seg_text :: string
  seg_start :: real
  seg_duration :: real

definition convertSubtitlesToTranscript :: "BilibiliSubtitleItem list \<Rightarrow> TranscriptSegment list" where
  "convertSubtitlesToTranscript body =
     map (\<lambda>item. \<lparr>seg_text = item_content item,
                  seg_start = item_from item,
                  seg_duration = item_to item - item_from item\<rparr>) body"

text \<open>The two Chinese characters of the literal in \<open>lan_doc.includes(...)\<close>, in UTF-8.\<close>

definition zhongwen :: string where
  "zhongwen = [CHR 0xE4, CHR 0xB8, CHR 0xAD, CHR 0xE6, CHR 0x96, CHR 0x87]"

definition getPreferredSubtitle :: "BilibiliSubtitle list \<Rightarrow> BilibiliSubtitle option" where
  "getPreferredSubtitle subtitles =
     (let chineseSubs = filter (\<lambda>sub. lan sub = ''zh-CN'' \<or> lan sub = ''zh-Hans'' \<or>
                                   js_includes (lan_doc sub) zhongwen) subtitles
      in if length chineseSubs > 0 then Some (hd chineseSubs)
         else if length subtitles > 0 then Some (hd subtitles) else None)"

section \<open>The endpoint \<open>/api/transcript\<close>\<close>

text \<open>
  An element of \<open>transcriptSegments\<close> as the final \<open>map\<close> of the handler reads it: the
  fields \<open>text\<close>, \<open>content\<close>, \<open>offset\<close>, \<open>start\<close> and \<open>duration\<close>, each
  possibly \<open>undefined\<close>.  A segment made by \<open>convertSubtitlesToTranscript\<close> has
  \<open>text\<close>, \<open>start\<close> and \<open>duration\<close>.
\<close>

record raw_segment =
  raw_text :: "string option"
  raw_content :: "string option"
  raw_offset :: "real option"
  raw_start :: "real option"
  raw_duration :: "real option"

definition as_raw :: "TranscriptSegment \<Rightarrow> raw_segment" where
  "as_raw g = \<lparr>raw_text = Some (seg_text g), raw_content = None, raw_offset = None,
              raw_start = Some (seg_start g), raw_duration = Some (seg_duration g)\<rparr>"

text \<open>\<open>a || b\<close> on strings and on numbers: the empty string and \<open>0\<close> are falsy.\<close>

definition or_string :: "string option \<Rightarrow> string option \<Rightarrow> string option" where
  "or_string a b = (case a of Some s \<Rightarrow> if s \<noteq> [] then Some s else b | None \<Rightarrow> b)"

definition or_zero :: "real option \<Rightarrow> real" where
  "or_zero a = (case a of Some x \<Rightarrow> x | None \<Rightarrow> 0)"

text \<open>
  The body of \<open>transcriptSegments.map((item, idx) => ...)\<close>: \<open>offset\<close> and
  \<open>duration\<close> are divided by 1000.
\<close>

definition transform_segment :: "raw_segment \<Rightarrow> TranscriptSegment" where
  "transform_segment item =
     \<lparr>seg_text = (case or_string (or_string (raw_text item) (raw_content item)) (Some [])
                    of Some s \<Rightarrow> s | None \<Rightarrow> []),
      seg_start = or_zero (case raw_offset item of
                             Some offset \<Rightarrow> Some (offset / 1000)
                           | None \<Rightarrow> raw_start item),
      seg_duration = or_zero (Some (case raw_duration item of
                                      Some d \<Rightarrow> d / 1000
                                    | None \<Rightarrow> 0))\<rparr>"

text \<open>
  The error texts of the three endpoints, by what they say; \<open>Error_json status e\<close>
  below is \<open>NextResponse.json({error: ...}, {status})\<close>.
\<close>

datatype endpoint_error =
    URL_required
  | Unsupported_platform
  | Invalid_URL platform
  | No_video_info
  | No_subtitles
  | Bilibili_subtitles_failed
  | Youtube_branch_error
  | No_transcript_available
  | Transcript_failed
  | Cache_check_failed
  | Video_info_failed

datatype transcript_response =
    Error_json nat endpoint_error
  | Transcript_json string "TranscriptSegment list" platform

text \<open>
  The YouTube branch of the handler (the Supadata request and the language heuristics) is
  not translated; what it can do is a parameter: answer at once, throw into the outer
  \<open>catch\<close>, or leave its segments in \<open>transcriptSegments\<close>.
\<close>

datatype youtube_branch =
    Youtube_returns transcript_response
  | Youtube_throws
  | Youtube_segments "raw_segment list"

text \<open>
  The handler of \<open>/api/transcript\<close>.  \<open>url\<close> is the field of the request body,
  \<open>None\<close> when it is missing.
\<close>

definition transcript_handler ::
    "bilibili_api \<Rightarrow> (string \<Rightarrow> youtube_branch) \<Rightarrow> string option \<Rightarrow> transcript_response" where
  "transcript_handler api youtube_api request_url =
     (case request_url of
        None \<Rightarrow> Error_json 400 URL_required
      | Some url \<Rightarrow>
     if url = [] then Error_json 400 URL_required
     else (case detectPlatform url of
        None \<Rightarrow> Error_json 400 Unsupported_platform
      | Some platform \<Rightarrow>
     (case extractVideoId url of
        None \<Rightarrow> Error_json 400 (Invalid_URL platform)
      | Some videoId \<Rightarrow>
     (let finish = (\<lambda>transcriptSegments.
            if transcriptSegments = [] then Error_json 404 No_transcript_available
            else Transcript_json videoId (map transform_segment transcriptSegments) platform)
      in if platform = bilibili then
           (case getBilibiliVideoInfo api videoId of
              Inl e \<Rightarrow> Error_json 500 Bilibili_subtitles_failed
            | Inr videoInfo \<Rightarrow>
           (case pages videoInfo of
              [] \<Rightarrow> Error_json 404 No_video_info
            | cid # rest \<Rightarrow>
           if cid = 0 then Error_json 404 No_video_info
           else (case getBilibiliSubtitles api videoId cid of
              Inl e \<Rightarrow> Error_json 500 Bilibili_subtitles_failed
            | Inr subtitles \<Rightarrow>
           (case getPreferredSubtitle subtitles of
              None \<Rightarrow> Error_json 404 No_subtitles
            | Some preferredSubtitle \<Rightarrow>
           (case fetchSubtitleContent api (subtitle_url preferredSubtitle) of
              Inl e \<Rightarrow> Error_json 500 Bilibili_subtitles_failed
            | Inr subtitleContent \<Rightarrow>
                finish (map as_raw (convertSubtitlesToTranscript subtitleContent)))))))
         else
           (case youtube_api videoId of
              Youtube_returns r \<Rightarrow> r
            | Youtube_throws \<Rightarrow> Error_json 500 Transcript_failed
            | Youtube_segments transcriptSegments \<Rightarrow> finish transcriptSegments)))))"

text \<open>
  A Bilibili video with one page and one Chinese subtitle track whose body has a single
  entry from second 1 to second 3.
\<close>

definition example_bilibili_api :: bilibili_api where
  "example_bilibili_api =
     \<lparr>view_api = (\<lambda>r. Http_response True (Some
          \<lparr>api_code = 0, api_message = ''0'',
           api_data = \<lparr>info_bvid = ''BV1xx411c7mD'', info_title = ''A video'', info_desc = [],
                       info_pic = ''//i0.hdslb.com/a.jpg'', info_duration = 60,
                       owner_name = ''An author'', pages = [7]\<rparr>\<rparr>)),
      player_api = (\<lambda>r. Http_response True (Some
          \<lparr>api_code = 0, api_message = ''0'',
           api_data = Some [\<lparr>subtitle_id = 1, lan = ''zh-CN'', lan_doc = ''zh'',
                              subtitle_url = ''//aisubtitle.hdslb.com/s.json''\<rparr>]\<rparr>)),
      subtitle_api = (\<lambda>r. Http_response True (Some
          [\<lparr>item_from = 1, item_to = 3, item_content = ''hello'', item_location = 2\<rparr>]))\<rparr>"

section \<open>The endpoint \<open>/api/check-video-cache\<close>\<close>

text \<open>
  Modelled from the spec: the YouTube table \<open>video_analyses\<close> and the table
  \<open>user_videos\<close>, whose declarations are not among the sources.  A YouTube row has the
  analysis columns and its \<open>youtube_id\<close>; a \<open>user_videos\<close> row links a user to a
  video, unique on the pair.
\<close>

record video_analyses_row = analysis_columns +
  youtube_id :: string

record user_videos_row =
  user_id :: string
  video_id :: nat
  accessed_at :: nat

text \<open>What the Supabase client of the handler sees: the tables and the signed-in user.\<close>

record supabase =
  bilibili_db :: database
  video_analyses :: "video_analyses_row list"
  user_videos :: "user_videos_row list"
  auth_user :: "string option"

text \<open>
  The calls a handler makes to the outside, in order.  A provider request is a call of a
  YouTube or Bilibili API.
\<close>

datatype io_event =
    Supabase_auth_getUser
  | Supabase_select string
  | Supabase_upsert string
  | Provider_request string

text \<open>
  \<open>.single()\<close>: the one row of the result; with no row or several rows the answer is an
  error and \<open>data\<close> is \<open>null\<close>.
\<close>

definition single :: "'a list \<Rightarrow> 'a option" where
  "single rows = (case rows of [r] \<Rightarrow> Some r | _ \<Rightarrow> None)"

text \<open>Truthiness of a JavaScript value read from a \<open>jsonb\<close> column.\<close>

fun truthy :: "json option \<Rightarrow> bool" where
  "truthy None = False"
| "truthy (Some JNull) = False"
| "truthy (Some (JBool b)) = b"
| "truthy (Some (JNum n)) = (n \<noteq> 0)"
| "truthy (Some (JStr s)) = (s \<noteq> [])"
| "truthy (Some (JArr xs)) = True"
| "truthy (Some (JObj kvs)) = True"

text \<open>The upsert into \<open>user_videos\<close> with \<open>onConflict: 'user_id,video_id'\<close>.\<close>

definition upsert_user_video :: "user_videos_row \<Rightarrow> user_videos_row list \<Rightarrow> user_videos_row list" where
  "upsert_user_video uv rows =
     (if \<exists>r \<in> set rows. user_id r = user_id uv \<and> video_id r = video_id uv
      then map (\<lambda>r. if user_id r = user_id uv \<and> video_id r = video_id uv
                     then r\<lparr>accessed_at := accessed_at uv\<rparr> else r) rows
      else rows @ [uv])"

text \<open>The body \<open>{cached: true, ...}\<close>.\<close>

record cached_payload =
  c_videoId :: string
  c_platform :: platform
  c_topics :: "json option"
  c_transcript :: json
  c_title :: string
  c_author :: "string option"
  c_duration :: int
  c_thumbnail :: "string option"
  c_summary :: "json option"
  c_suggestedQuestions :: "json option"
  c_cacheDate :: nat

datatype cache_response =
    Cache_error nat endpoint_error
  | Cached_true cached_payload
  | Cached_false string platform

text \<open>
  The handler of \<open>/api/check-video-cache\<close> at time \<open>now\<close>: the response, the tables
  afterwards and the calls made.
\<close>

definition check_video_cache_handler ::
    "supabase \<Rightarrow> nat \<Rightarrow> string option \<Rightarrow> cache_response \<times> supabase \<times> io_event list" where
  "check_video_cache_handler sb now request_url =
     (case request_url of
        None \<Rightarrow> (Cache_error 400 URL_required, sb, [])
      | Some url \<Rightarrow>
     if url = [] then (Cache_error 400 URL_required, sb, [])
     else (case detectPlatform url of
        None \<Rightarrow> (Cache_error 400 Unsupported_platform, sb, [])
      | Some platform \<Rightarrow>
     (case extractVideoId url of
        None \<Rightarrow> (Cache_error 400 (Invalid_URL platform), sb, [])
      | Some videoId \<Rightarrow>
     (let user = auth_user sb;
          cachedVideo =
            (if platform = youtube
             then map_option analysis_columns.truncate
                    (single (filter (\<lambda>r. youtube_id r = videoId) (video_analyses sb)))
             else map_option analysis_columns.truncate
                    (single (filter (\<lambda>r. bvid r = Some videoId \<or> aid r = Some videoId)
                               (bilibili_video_analyses (bilibili_db sb)))));
          videoTable = (if platform = youtube then ''video_analyses''
                        else ''bilibili_video_analyses'');
          calls = [Supabase_auth_getUser, Supabase_select videoTable]
      in case cachedVideo of
           None \<Rightarrow> (Cached_false videoId platform, sb, calls)
         | Some cached \<Rightarrow>
             if truthy (topics cached) then
               (Cached_true
                  \<lparr>c_videoId = videoId, c_platform = platform, c_topics = topics cached,
                   c_transcript = transcript cached, c_title = title cached,
                   c_author = author cached, c_duration = duration cached,
                   c_thumbnail = thumbnail_url cached, c_summary = summary cached,
                   c_suggestedQuestions = suggested_questions cached,
                   c_cacheDate = created_at cached\<rparr>,
                (case user of
                   None \<Rightarrow> sb
                 | Some u \<Rightarrow>
                     sb\<lparr>user_videos :=
                          upsert_user_video
                            \<lparr>user_id = u, video_id = row_id cached, accessed_at = now\<rparr>
                            (user_videos sb)\<rparr>),
                (case user of
                   None \<Rightarrow> calls
                 | Some u \<Rightarrow> calls @ [Supabase_upsert ''user_videos'']))
             else (Cached_false videoId platform, sb, calls)))))"

text \<open>
  An av video saved twice by a direct \<open>INSERT\<close>, both times with topics: the first
  save and a later one of the same analysis.
\<close>

definition example_av_row :: analysis_row where
  "example_av_row = example_row\<lparr>bvid := None, aid := Some ''170001''\<rparr>"

definition example_av_supabase :: supabase where
  "example_av_supabase =
     \<lparr>bilibili_db = execute_all migrated_database
        [Insert example_av_row, Insert (example_av_row\<lparr>created_at := 2, updated_at := 2\<rparr>)],
      video_analyses = [], user_videos = [], auth_user = None\<rparr>"

section \<open>The endpoint \<open>/api/video-info\<close>\<close>





text \<open>The fields the handler reads from the Supadata and the oEmbed answers.\<close>

record supadata_video =
  sd_title :: "string option"
  sd_channel_name :: "string option"
  sd_author :: "string option"
  sd_thumbnail :: "string option"
  sd_duration :: "real option"
  sd_description :: "string option"
  sd_tags :: "string list option"
  sd_keywords :: "string list option"

record oembed_data =
  oe_title :: "string option"
  oe_author_name :: "string option"
  oe_thumbnail_url :: "string option"

text \<open>
  The YouTube side of the endpoint: the configured key and what the two requests give
  for a video id.
\<close>

record youtube_api =
  SUPADATA_API_KEY :: "string option"
  supadata_video_api :: "string \<Rightarrow> supadata_video http_result"
  oembed_api :: "string \<Rightarrow> oembed_data http_result"








section \<open>The analyze page (\<open>app/analyze/[videoId]/page.tsx\<close>)\<close>

subsection \<open>Texts\<close>

text \<open>
  The texts of the page are Chinese; here each is the list of its UTF-8 bytes, under the
  name of its constant where the source has one:
  \<^item> \<open>GUEST_LIMIT_MESSAGE\<close>: daily free analyses used up, sign in to continue;
  \<^item> \<open>AUTH_LIMIT_MESSAGE\<close>: five videos a day, come back tomorrow;
  \<^item> \<open>DEFAULT_CLIENT_ERROR\<close>: an error occurred, try again;
  \<^item> \<open>UNSUPPORTED_LANGUAGE_MESSAGE\<close>: the replacement text of normalizeErrorMessage;
  \<^item> \<open>INVALID_URL_MESSAGE\<close>: thrown for a URL without id or platform;
  \<^item> \<open>TRANSCRIPT_TIMEOUT_MESSAGE\<close>: the transcript request was aborted;
  \<^item> \<open>TRANSCRIPT_NETWORK_MESSAGE\<close>: the transcript request failed;
  \<^item> \<open>TRANSCRIPT_JSON_TIMEOUT_MESSAGE\<close>: reading the transcript body was aborted;
  \<^item> \<open>TRANSCRIPT_JSON_MESSAGE\<close>: reading the transcript body failed;
  \<^item> \<open>TOPICS_ABORTED_MESSAGE\<close>: the topic request was aborted;
  \<^item> \<open>TOPICS_NETWORK_MESSAGE\<close>: the topic request failed;
  \<^item> \<open>SUMMARY_TIMEOUT_MESSAGE\<close>: the summary request was aborted;
  \<^item> \<open>SUMMARY_FAILED_MESSAGE\<close>: the summary request failed;
  \<^item> \<open>THEMES_FAILED_MESSAGE\<close>: fallback of the theme request of the hit path;
  \<^item> \<open>SUMMARY_FAILED_SHORT_MESSAGE\<close>: fallback of the summary request of the hit path;
  \<^item> \<open>THEME_TOPICS_FAILED_MESSAGE\<close>: fallback of a theme-selection request;
  \<^item> \<open>NO_THEME_TOPICS_MESSAGE\<close>: no highlights for this theme;
\<close>

definition GUEST_LIMIT_MESSAGE :: string where
  "GUEST_LIMIT_MESSAGE =
     [CHR 0xE6, CHR 0x82, CHR 0xA8, CHR 0xE5, CHR 0xB7, CHR 0xB2, CHR 0xE7, CHR 0x94,
      CHR 0xA8, CHR 0xE5, CHR 0xAE, CHR 0x8C, CHR 0xE4, CHR 0xBB, CHR 0x8A, CHR 0xE6,
      CHR 0x97, CHR 0xA5, CHR 0xE5, CHR 0x85, CHR 0x8D, CHR 0xE8, CHR 0xB4, CHR 0xB9,
      CHR 0xE5, CHR 0x88, CHR 0x86, CHR 0xE6, CHR 0x9E, CHR 0x90, CHR 0xE6, CHR 0xAC,
      CHR 0xA1, CHR 0xE6, CHR 0x95, CHR 0xB0, CHR 0xE3, CHR 0x80, CHR 0x82, CHR 0xE8,
      CHR 0xAF, CHR 0xB7, CHR 0xE7, CHR 0x99, CHR 0xBB, CHR 0xE5, CHR 0xBD, CHR 0x95,
      CHR 0xE4, CHR 0xBB, CHR 0xA5, CHR 0xE7, CHR 0xBB, CHR 0xA7, CHR 0xE7, CHR 0xBB,
      CHR 0xAD, CHR 0xE4, CHR 0xBD, CHR 0xBF, CHR 0xE7, CHR 0x94, CHR 0xA8, CHR 0xE3,
      CHR 0x80, CHR 0x82]"

definition AUTH_LIMIT_MESSAGE :: string where
  "AUTH_LIMIT_MESSAGE =
     [CHR 0xE6, CHR 0x82, CHR 0xA8, CHR 0xE6, CHR 0xAF, CHR 0x8F, CHR 0xE5, CHR 0xA4,
      CHR 0xA9, CHR 0xE5, CHR 0x8F, CHR 0xAF, CHR 0xE4, CHR 0xBB, CHR 0xA5, CHR 0xE5,
      CHR 0x88, CHR 0x86, CHR 0xE6, CHR 0x9E, CHR 0x90, CHR 0x35, CHR 0xE4, CHR 0xB8,
      CHR 0xAA, CHR 0xE8, CHR 0xA7, CHR 0x86, CHR 0xE9, CHR 0xA2, CHR 0x91, CHR 0xE3,
      CHR 0x80, CHR 0x82, CHR 0xE8, CHR 0xAF, CHR 0xB7, CHR 0xE6, CHR 0x98, CHR 0x8E,
      CHR 0xE5, CHR 0xA4, CHR 0xA9, CHR 0xE5, CHR 0x86, CHR 0x8D, CHR 0xE6, CHR 0x9D,
      CHR 0xA5, CHR 0xE3, CHR 0x80, CHR 0x82]"

definition DEFAULT_CLIENT_ERROR :: string where
  "DEFAULT_CLIENT_ERROR =
     [CHR 0xE5, CHR 0x87, CHR 0xBA, CHR 0xE7, CHR 0x8E, CHR 0xB0, CHR 0xE9, CHR 0x94,
      CHR 0x99, CHR 0xE8, CHR 0xAF, CHR 0xAF, CHR 0xEF, CHR 0xBC, CHR 0x8C, CHR 0xE8,
      CHR 0xAF, CHR 0xB7, CHR 0xE9, CHR 0x87, CHR 0x8D, CHR 0xE8, CHR 0xAF, CHR 0x95,
      CHR 0xE3, CHR 0x80, CHR 0x82]"

definition UNSUPPORTED_LANGUAGE_MESSAGE :: string where
  "UNSUPPORTED_LANGUAGE_MESSAGE =
     [CHR 0xE7, CHR 0x9B, CHR 0xAE, CHR 0xE5, CHR 0x89, CHR 0x8D, CHR 0xE4, CHR 0xBB,
      CHR 0x85, CHR 0xE6, CHR 0x94, CHR 0xAF, CHR 0xE6, CHR 0x8C, CHR 0x81, CHR 0xE5,
      CHR 0xB8, CHR 0xA6, CHR 0xE6, CHR 0x9C, CHR 0x89, CHR 0xE4, CHR 0xB8, CHR 0xAD,
      CHR 0xE6, CHR 0x96, CHR 0x87, CHR 0xE5, CHR 0xAD, CHR 0x97, CHR 0xE5, CHR 0xB9,
      CHR 0x95, CHR 0xE7, CHR 0x9A, CHR 0x84, CHR 0xE8, CHR 0xA7, CHR 0x86, CHR 0xE9,
      CHR 0xA2, CHR 0x91, CHR 0xE3, CHR 0x80, CHR 0x82, CHR 0xE8, CHR 0xAF, CHR 0xB7,
      CHR 0xE9, CHR 0x80, CHR 0x89, CHR 0xE6, CHR 0x8B, CHR 0xA9, CHR 0xE5, CHR 0x90,
      CHR 0xAF, CHR 0xE7, CHR 0x94, CHR 0xA8, CHR 0xE4, CHR 0xBA, CHR 0x86, CHR 0xE4,
      CHR 0xB8, CHR 0xAD, CHR 0xE6, CHR 0x96, CHR 0x87, CHR 0xE5, CHR 0xAD, CHR 0x97,
      CHR 0xE5, CHR 0xB9, CHR 0x95, CHR 0xE7, CHR 0x9A, CHR 0x84, CHR 0xE8, CHR 0xA7,
      CHR 0x86, CHR 0xE9, CHR 0xA2, CHR 0x91, CHR 0xE3, CHR 0x80, CHR 0x82]"

definition INVALID_URL_MESSAGE :: string where
  "INVALID_URL_MESSAGE =
     [CHR 0xE6, CHR 0x97, CHR 0xA0, CHR 0xE6, CHR 0x95, CHR 0x88, CHR 0xE7, CHR 0x9A,
      CHR 0x84, CHR 0xE8, CHR 0xA7, CHR 0x86, CHR 0xE9, CHR 0xA2, CHR 0x91, CHR 0x55,
      CHR 0x52, CHR 0x4C, CHR 0xE3, CHR 0x80, CHR 0x82, CHR 0xE8, CHR 0xAF, CHR 0xB7,
      CHR 0xE6, CHR 0x8F, CHR 0x90, CHR 0xE4, CHR 0xBE, CHR 0x9B, CHR 0x59, CHR 0x6F,
      CHR 0x75, CHR 0x54, CHR 0x75, CHR 0x62, CHR 0x65, CHR 0xE6, CHR 0x88, CHR 0x96,
      CHR 0x42, CHR 0x69, CHR 0x6C, CHR 0x69, CHR 0x62, CHR 0x69, CHR 0x6C, CHR 0x69,
      CHR 0xE9, CHR 0x93, CHR 0xBE, CHR 0xE6, CHR 0x8E, CHR 0xA5, CHR 0xE3, CHR 0x80,
      CHR 0x82]"

definition TRANSCRIPT_TIMEOUT_MESSAGE :: string where
  "TRANSCRIPT_TIMEOUT_MESSAGE =
     [CHR 0xE5, CHR 0xAD, CHR 0x97, CHR 0xE5, CHR 0xB9, CHR 0x95, CHR 0xE8, CHR 0xAF,
      CHR 0xB7, CHR 0xE6, CHR 0xB1, CHR 0x82, CHR 0xE8, CHR 0xB6, CHR 0x85, CHR 0xE6,
      CHR 0x97, CHR 0xB6, CHR 0xEF, CHR 0xBC, CHR 0x8C, CHR 0xE8, CHR 0xAF, CHR 0xB7,
      CHR 0xE9, CHR 0x87, CHR 0x8D, CHR 0xE8, CHR 0xAF, CHR 0x95, CHR 0xE3, CHR 0x80,
      CHR 0x82]"

definition TRANSCRIPT_NETWORK_MESSAGE :: string where
  "TRANSCRIPT_NETWORK_MESSAGE =
     [CHR 0xE7, CHR 0xBD, CHR 0x91, CHR 0xE7, CHR 0xBB, CHR 0x9C, CHR 0xE9, CHR 0x94,
      CHR 0x99, CHR 0xE8, CHR 0xAF, CHR 0xAF, CHR 0xEF, CHR 0xBC, CHR 0x9A, CHR 0xE6,
      CHR 0x97, CHR 0xA0, CHR 0xE6, CHR 0xB3, CHR 0x95, CHR 0xE8, CHR 0x8E, CHR 0xB7,
      CHR 0xE5, CHR 0x8F, CHR 0x96, CHR 0xE5, CHR 0xAD, CHR 0x97, CHR 0xE5, CHR 0xB9,
      CHR 0x95, CHR 0xE3, CHR 0x80, CHR 0x82, CHR 0xE8, CHR 0xAF, CHR 0xB7, CHR 0xE7,
      CHR 0xA1, CHR 0xAE, CHR 0xE4, CHR 0xBF, CHR 0x9D, CHR 0xE6, CHR 0x9C, CHR 0x8D,
      CHR 0xE5, CHR 0x8A, CHR 0xA1, CHR 0xE5, CHR 0x99, CHR 0xA8, CHR 0xE6, CHR 0xAD,
      CHR 0xA3, CHR 0xE5, CHR 0x9C, CHR 0xA8, CHR 0xE8, CHR 0xBF, CHR 0x90, CHR 0xE8,
      CHR 0xA1, CHR 0x8C, CHR 0xE3, CHR 0x80, CHR 0x82]"

definition TRANSCRIPT_JSON_TIMEOUT_MESSAGE :: string where
  "TRANSCRIPT_JSON_TIMEOUT_MESSAGE =
     [CHR 0xE5, CHR 0xAD, CHR 0x97, CHR 0xE5, CHR 0xB9, CHR 0x95, CHR 0xE5, CHR 0xA4,
      CHR 0x84, CHR 0xE7, CHR 0x90, CHR 0x86, CHR 0xE8, CHR 0xB6, CHR 0x85, CHR 0xE6,
      CHR 0x97, CHR 0xB6, CHR 0xE3, CHR 0x80, CHR 0x82, CHR 0xE8, CHR 0xA7, CHR 0x86,
      CHR 0xE9, CHR 0xA2, CHR 0x91, CHR 0xE5, CHR 0x8F, CHR 0xAF, CHR 0xE8, CHR 0x83,
      CHR 0xBD, CHR 0xE8, CHR 0xBF, CHR 0x87, CHR 0xE9, CHR 0x95, CHR 0xBF, CHR 0xEF,
      CHR 0xBC, CHR 0x8C, CHR 0xE8, CHR 0xAF, CHR 0xB7, CHR 0xE9, CHR 0x87, CHR 0x8D,
      CHR 0xE8, CHR 0xAF, CHR 0x95, CHR 0xE3, CHR 0x80, CHR 0x82]"

definition TRANSCRIPT_JSON_MESSAGE :: string where
  "TRANSCRIPT_JSON_MESSAGE =
     [CHR 0xE5, CHR 0xA4, CHR 0x84, CHR 0xE7, CHR 0x90, CHR 0x86, CHR 0xE5, CHR 0xAD,
      CHR 0x97, CHR 0xE5, CHR 0xB9, CHR 0x95, CHR 0xE6, CHR 0x95, CHR 0xB0, CHR 0xE6,
      CHR 0x8D, CHR 0xAE, CHR 0xE5, CHR 0xA4, CHR 0xB1, CHR 0xE8, CHR 0xB4, CHR 0xA5,
      CHR 0xEF, CHR 0xBC, CHR 0x8C, CHR 0xE8, CHR 0xAF, CHR 0xB7, CHR 0xE9, CHR 0x87,
      CHR 0x8D, CHR 0xE8, CHR 0xAF, CHR 0x95, CHR 0xE3, CHR 0x80, CHR 0x82]"

definition TOPICS_ABORTED_MESSAGE :: string where
  "TOPICS_ABORTED_MESSAGE =
     [CHR 0xE4, CHR 0xB8, CHR 0xBB, CHR 0xE9, CHR 0xA2, CHR 0x98, CHR 0xE7, CHR 0x94,
      CHR 0x9F, CHR 0xE6, CHR 0x88, CHR 0x90, CHR 0xE8, CHR 0xA2, CHR 0xAB, CHR 0xE5,
      CHR 0x8F, CHR 0x96, CHR 0xE6, CHR 0xB6, CHR 0x88, CHR 0xE6, CHR 0x88, CHR 0x96,
      CHR 0xE4, CHR 0xB8, CHR 0xAD, CHR 0xE6, CHR 0x96, CHR 0xAD, CHR 0xEF, CHR 0xBC,
      CHR 0x8C, CHR 0xE8, CHR 0xAF, CHR 0xB7, CHR 0xE9, CHR 0x87, CHR 0x8D, CHR 0xE8,
      CHR 0xAF, CHR 0x95, CHR 0xE3, CHR 0x80, CHR 0x82]"

definition TOPICS_NETWORK_MESSAGE :: string where
  "TOPICS_NETWORK_MESSAGE =
     [CHR 0xE7, CHR 0xBD, CHR 0x91, CHR 0xE7, CHR 0xBB, CHR 0x9C, CHR 0xE9, CHR 0x94,
      CHR 0x99, CHR 0xE8, CHR 0xAF, CHR 0xAF, CHR 0xEF, CHR 0xBC, CHR 0x9A, CHR 0xE6,
      CHR 0x97, CHR 0xA0, CHR 0xE6, CHR 0xB3, CHR 0x95, CHR 0xE7, CHR 0x94, CHR 0x9F,
      CHR 0xE6, CHR 0x88, CHR 0x90, CHR 0xE4, CHR 0xB8, CHR 0xBB, CHR 0xE9, CHR 0xA2,
      CHR 0x98, CHR 0xE3, CHR 0x80, CHR 0x82, CHR 0xE8, CHR 0xAF, CHR 0xB7, CHR 0xE6,
      CHR 0xA3, CHR 0x80, CHR 0xE6, CHR 0x9F, CHR 0xA5, CHR 0xE6, CHR 0x82, CHR 0xA8,
      CHR 0xE7, CHR 0x9A, CHR 0x84, CHR 0xE8, CHR 0xBF, CHR 0x9E, CHR 0xE6, CHR 0x8E,
      CHR 0xA5, CHR 0xE3, CHR 0x80, CHR 0x82]"

definition SUMMARY_TIMEOUT_MESSAGE :: string where
  "SUMMARY_TIMEOUT_MESSAGE =
     [CHR 0xE6, CHR 0x80, CHR 0xBB, CHR 0xE7, CHR 0xBB, CHR 0x93, CHR 0xE7, CHR 0x94,
      CHR 0x9F, CHR 0xE6, CHR 0x88, CHR 0x90, CHR 0xE8, CHR 0xB6, CHR 0x85, CHR 0xE6,
      CHR 0x97, CHR 0xB6, CHR 0xE3, CHR 0x80, CHR 0x82, CHR 0xE8, CHR 0xA7, CHR 0x86,
      CHR 0xE9, CHR 0xA2, CHR 0x91, CHR 0xE5, CHR 0x8F, CHR 0xAF, CHR 0xE8, CHR 0x83,
      CHR 0xBD, CHR 0xE8, CHR 0xBF, CHR 0x87, CHR 0xE9, CHR 0x95, CHR 0xBF, CHR 0xE3,
      CHR 0x80, CHR 0x82]"

definition SUMMARY_FAILED_MESSAGE :: string where
  "SUMMARY_FAILED_MESSAGE =
     [CHR 0xE7, CHR 0x94, CHR 0x9F, CHR 0xE6, CHR 0x88, CHR 0x90, CHR 0xE6, CHR 0x80,
      CHR 0xBB, CHR 0xE7, CHR 0xBB, CHR 0x93, CHR 0xE5, CHR 0xA4, CHR 0xB1, CHR 0xE8,
      CHR 0xB4, CHR 0xA5, CHR 0xEF, CHR 0xBC, CHR 0x8C, CHR 0xE8, CHR 0xAF, CHR 0xB7,
      CHR 0xE9, CHR 0x87, CHR 0x8D, CHR 0xE8, CHR 0xAF, CHR 0x95, CHR 0xE3, CHR 0x80,
      CHR 0x82]"

definition THEMES_FAILED_MESSAGE :: string where
  "THEMES_FAILED_MESSAGE =
     [CHR 0xE7, CHR 0x94, CHR 0x9F, CHR 0xE6, CHR 0x88, CHR 0x90, CHR 0xE4, CHR 0xB8,
      CHR 0xBB, CHR 0xE9, CHR 0xA2, CHR 0x98, CHR 0xE5, CHR 0xA4, CHR 0xB1, CHR 0xE8,
      CHR 0xB4, CHR 0xA5]"

definition SUMMARY_FAILED_SHORT_MESSAGE :: string where
  "SUMMARY_FAILED_SHORT_MESSAGE =
     [CHR 0xE7, CHR 0x94, CHR 0x9F, CHR 0xE6, CHR 0x88, CHR 0x90, CHR 0xE6, CHR 0x80,
      CHR 0xBB, CHR 0xE7, CHR 0xBB, CHR 0x93, CHR 0xE5, CHR 0xA4, CHR 0xB1, CHR 0xE8,
      CHR 0xB4, CHR 0xA5]"



subsection \<open>Strings and JSON values in JavaScript\<close>

text \<open>
  The texts of the page are UTF-8 byte sequences.  \<open>trim\<close> removes the white space and
  the line terminators of ECMAScript at both ends: U+0009 to U+000D, U+0020, U+00A0,
  U+1680, U+2000 to U+200A, U+2028, U+2029, U+202F, U+205F, U+3000 and U+FEFF, here in
  their UTF-8 encodings.  \<open>toLowerCase\<close> lowers the ASCII letters; on the UTF-8 bytes of
  a text the two phrases \<open>normalizeErrorMessage\<close> looks for are found exactly when they
  are in the text.
\<close>

definition white_space_sequences :: "string list" where
  "white_space_sequences =
     [[CHR 0x09], [CHR 0x0A], [CHR 0x0B], [CHR 0x0C], [CHR 0x0D], [CHR 0x20],
      [CHR 0xC2, CHR 0xA0], [CHR 0xE1, CHR 0x9A, CHR 0x80],
      [CHR 0xE2, CHR 0x80, CHR 0x80], [CHR 0xE2, CHR 0x80, CHR 0x81],
      [CHR 0xE2, CHR 0x80, CHR 0x82], [CHR 0xE2, CHR 0x80, CHR 0x83],
      [CHR 0xE2, CHR 0x80, CHR 0x84], [CHR 0xE2, CHR 0x80, CHR 0x85],
      [CHR 0xE2, CHR 0x80, CHR 0x86], [CHR 0xE2, CHR 0x80, CHR 0x87],
      [CHR 0xE2, CHR 0x80, CHR 0x88], [CHR 0xE2, CHR 0x80, CHR 0x89],
      [CHR 0xE2, CHR 0x80, CHR 0x8A], [CHR 0xE2, CHR 0x80, CHR 0xA8],
      [CHR 0xE2, CHR 0x80, CHR 0xA9], [CHR 0xE2, CHR 0x80, CHR 0xAF],
      [CHR 0xE2, CHR 0x81, CHR 0x9F], [CHR 0xE3, CHR 0x80, CHR 0x80],
      [CHR 0xEF, CHR 0xBB, CHR 0xBF]]"

text \<open>
  \<open>strip ws s\<close> removes from the front of \<open>s\<close> every leading sequence that is one of
  \<open>ws\<close>.
\<close>

function strip :: "string list \<Rightarrow> string \<Rightarrow> string" where
  "strip ws s =
     (case find (\<lambda>w. w \<noteq> [] \<and> take (length w) s = w) ws of
        Some w \<Rightarrow> strip ws (drop (length w) s)
      | None \<Rightarrow> s)"
  by pat_completeness auto
termination
proof (relation "measure (\<lambda>(ws, s). length s)")
  show "wf (measure (\<lambda>(ws, s). length s))" by simp
next
  fix ws :: "string list" and s w :: string
  assume "find (\<lambda>w. w \<noteq> [] \<and> take (length w) s = w) ws = Some w"
  then have "w \<noteq> []" and "take (length w) s = w"
    by (auto simp: find_Some_iff)
  then have "s \<noteq> []" by auto
  with \<open>w \<noteq> []\<close> show "((ws, drop (length w) s), (ws, s)) \<in> measure (\<lambda>(ws, s). length s)"
    by simp
qed

definition trimStart :: "string \<Rightarrow> string" where
  "trimStart s = strip white_space_sequences s"

definition trimEnd :: "string \<Rightarrow> string" where
  "trimEnd s = rev (strip (map rev white_space_sequences) (rev s))"

definition trim :: "string \<Rightarrow> string" where
  "trim s = trimEnd (trimStart s)"

definition toLowerCase :: "string \<Rightarrow> string" where
  "toLowerCase s = map to_lower s"

text \<open>\<open>obj.key\<close> on a value of type \<open>any\<close>; \<open>None\<close> is \<open>undefined\<close>.\<close>

fun field :: "json \<Rightarrow> string \<Rightarrow> json option" where
  "field (JObj kvs) key = map_of kvs key"
| "field j key = None"

definition string_field :: "json \<Rightarrow> string \<Rightarrow> string option" where
  "string_field j key = (case field j key of Some (JStr s) \<Rightarrow> Some s | _ \<Rightarrow> None)"

definition array_field :: "json \<Rightarrow> string \<Rightarrow> json list" where
  "array_field j key = (case field j key of Some (JArr xs) \<Rightarrow> xs | _ \<Rightarrow> [])"

definition normalizeErrorMessage :: "string option \<Rightarrow> string \<Rightarrow> string" where
  "normalizeErrorMessage message fallback =
     (let trimmed = (case message of Some m \<Rightarrow> trim m | None \<Rightarrow> []);
          baseMessage = (if length trimmed > 0 then trimmed else fallback);
          normalizedSource = toLowerCase (trimmed @ '' '' @ baseMessage)
      in if js_includes normalizedSource ''user aborted request'' \<or>
            js_includes normalizedSource ''unsupported transcript language''
         then UNSUPPORTED_LANGUAGE_MESSAGE
         else baseMessage)"

definition buildApiErrorMessage :: "json \<Rightarrow> string \<Rightarrow> string" where
  "buildApiErrorMessage errorData fallback =
     (case errorData of
        JObj kvs \<Rightarrow>
          (let errorText = (case string_field errorData ''error'' of
                              Some e \<Rightarrow> if length (trim e) > 0 then trim e else []
                            | None \<Rightarrow> []);
               detailsText = (case string_field errorData ''details'' of
                                Some d \<Rightarrow> if length (trim d) > 0 then trim d else []
                              | None \<Rightarrow> [])
           in if errorText \<noteq> [] \<and> detailsText \<noteq> []
                then normalizeErrorMessage (Some (errorText @ '': '' @ detailsText)) fallback
              else if detailsText \<noteq> [] then normalizeErrorMessage (Some detailsText) fallback
              else if errorText \<noteq> [] then normalizeErrorMessage (Some errorText) fallback
              else normalizeErrorMessage None fallback)
      | _ \<Rightarrow> normalizeErrorMessage None fallback)"

subsection \<open>Requests and their outcomes\<close>

text \<open>A rejection reason or a thrown error: its \<open>name\<close> and its \<open>message\<close>.\<close>

record js_error =
  err_name :: string
  err_message :: string

definition Error :: "string \<Rightarrow> js_error" where
  "Error msg = \<lparr>err_name = ''Error'', err_message = msg\<rparr>"

definition AbortError :: js_error where
  "AbortError = \<lparr>err_name = ''AbortError'', err_message = ''The operation was aborted.''\<rparr>"

text \<open>Reading a property of \<open>null\<close> throws a \<open>TypeError\<close>.\<close>

definition TypeError :: "string \<Rightarrow> js_error" where
  "TypeError key =
     \<lparr>err_name = ''TypeError'',
      err_message = ''Cannot read properties of null (reading '' @ [CHR 0x27] @ key @ [CHR 0x27] @ '')''\<rparr>"

text \<open>Reading a property of \<open>undefined\<close> throws one with another message.\<close>

definition TypeError_undefined :: "string \<Rightarrow> js_error" where
  "TypeError_undefined key =
     \<lparr>err_name = ''TypeError'',
      err_message = ''Cannot read properties of undefined (reading '' @ [CHR 0x27] @ key @ [CHR 0x27] @ '')''\<rparr>"

text \<open>
  A response: \<open>ok\<close>, \<open>status\<close>, and what \<open>json()\<close> gives, a rejection or the
  parsed body.  A \<open>fetch\<close> rejects or resolves to a response.
\<close>

record response =
  ok :: bool
  status :: nat
  json_body :: "js_error + json"

datatype fetched = Rejects js_error | Resolves response

text \<open>
  \<open>await response.json().catch(() => ({ error: "Unknown error" }))\<close>.
\<close>

definition errorData_of :: "response \<Rightarrow> json" where
  "errorData_of r =
     (case json_body r of Inl e \<Rightarrow> JObj [(''error'', JStr ''Unknown error'')] | Inr j \<Rightarrow> j)"

text \<open>
  The answers of the server to one run of \<open>processVideo\<close>, one per request the run may
  make.  The summary request runs beside the topic request: \<open>takeaways_settled_first\<close>
  says whether it has settled by the time the topic request settles; if it is still in
  flight then and is aborted, it rejects with an \<open>AbortError\<close>.
\<close>

record network =
  cache_fetch :: fetched
  limit_fetch :: fetched
  transcript_fetch :: fetched
  videoInfo_fetch :: fetched
  topics_fetch :: fetched
  takeaways_fetch :: fetched
  takeaways_settled_first :: bool

text \<open>The requests of the page with the parts of their bodies that the page computes.\<close>

datatype request =
    Check_video_cache string
  | Check_limit
  | Transcript string
  | Video_info string
  | Quick_preview "json list" "json option"
  | Video_analysis string "json option" "json list" bool
  | Generate_summary string "json option" "json list"
  | Save_analysis string json "json list" "json list" "json option"
  | Suggested_questions "json list" "json list"
  | Update_video_analysis string "json option"
  | Theme_analysis string "json option" "json list" string "string list" string

text \<open>What the page does to the outside, in the order it does it.\<close>

datatype client_event =
    Fetch request
  | Abort string
  | Abort_cleanup
  | Session_setItem string string
  | Router_push string
  | Toast_error string

datatype PageState = IDLE | ANALYZING_NEW | LOADING_CACHED

datatype LoadingStage = fetching | understanding | generating | processing

text \<open>
  Modelled from the spec: \<open>normalizeTranscript\<close> and \<open>hydrateTopicsWithTranscript\<close>
  of \<open>lib/topic-utils\<close>, which are not among the sources; they are parameters of the
  model.
\<close>

record topic_utils =
  normalizeTranscript :: "json option \<Rightarrow> json list"
  hydrateTopicsWithTranscript :: "json list \<Rightarrow> json list \<Rightarrow> json list"

text \<open>
  The state of the page that \<open>processVideo\<close> reads and writes: the React state, the ref
  \<open>hasRedirectedForLimit\<close>, the session storage, the signed-in user and the route
  parameter, together with the events so far.  The state of the player, of the theme
  selector and of the timers is left out; \<open>processVideo\<close> only resets it.
\<close>

record page =
  pageState :: PageState
  loadingStage :: "LoadingStage option"
  error :: string
  isRateLimitError :: bool
  videoId :: "string option"
  platform :: platform
  videoInfo :: "json option"
  page_transcript :: "json list"
  page_topics :: "json list"
  baseTopics :: "json list"
  themes :: "json list"
  selectedTopic :: "json option"
  takeawaysContent :: "json option"
  takeawaysError :: string
  showChatTab :: bool
  isGeneratingTakeaways :: bool
  cachedSuggestedQuestions :: "json option"
  authLimitReached :: bool
  rateLimitInfo_remaining :: "real option"
  hasRedirectedForLimit :: bool
  sessionStorage :: "string \<rightharpoonup> string"
  user :: "string option"
  routeVideoId :: "string option"
  events :: "client_event list"

definition emit :: "client_event \<Rightarrow> page \<Rightarrow> page" where
  "emit e s = s\<lparr>events := events s @ [e]\<rparr>"

subsection \<open>The limit check\<close>

text \<open>
  The callbacks of a render read the React state of that render: below, \<open>c\<close> is the
  page as it was when the callbacks were made (the captured state) and \<open>s\<close> is the
  page as it is now; refs and the session storage are read from \<open>s\<close>.
\<close>

definition setItem :: "string \<Rightarrow> string \<Rightarrow> page \<Rightarrow> page" where
  "setItem key v s =
     emit (Session_setItem key v) (s\<lparr>sessionStorage := (sessionStorage s)(key \<mapsto> v)\<rparr>)"

definition storeCurrentVideoForAuth :: "page \<Rightarrow> string option \<Rightarrow> page \<Rightarrow> page" where
  "storeCurrentVideoForAuth c ident s =
     (let targetVideoId = (case ident of Some v \<Rightarrow> Some v | None \<Rightarrow> videoId c)
      in case targetVideoId of
           None \<Rightarrow> s
         | Some t \<Rightarrow> if t \<noteq> [] \<and> user c = None then setItem ''pendingVideoId'' t s else s)"

definition redirectToAuthForLimit ::
    "page \<Rightarrow> string option \<Rightarrow> string option \<Rightarrow> page \<Rightarrow> page" where
  "redirectToAuthForLimit c message pendingVideoId s =
     (if hasRedirectedForLimit s then s
      else
        let s1 = s\<lparr>hasRedirectedForLimit := True\<rparr>;
            trimmedMessage =
              (case message of
                 Some t \<Rightarrow> if length (trim t) > 0 then trim t else GUEST_LIMIT_MESSAGE
               | None \<Rightarrow> GUEST_LIMIT_MESSAGE);
            targetVideoId =
              (case pendingVideoId of
                 Some v \<Rightarrow> Some v
               | None \<Rightarrow> (case videoId c of Some v \<Rightarrow> Some v | None \<Rightarrow> routeVideoId c));
            s2 = (case targetVideoId of
                    None \<Rightarrow> s1
                  | Some t \<Rightarrow> if t \<noteq> [] then storeCurrentVideoForAuth c (Some t) s1 else s1);
            s3 = (if trimmedMessage \<noteq> [] then setItem ''limitRedirectMessage'' trimmedMessage s2
                  else s2)
        in emit (Router_push ''/?auth=limit'') s3)"

text \<open>
  \<open>checkRateLimit\<close>: the request to \<open>/api/check-limit\<close>, the two state updates, and
  the data returned (\<open>None\<close> for \<open>null\<close> after an error).
\<close>

definition remaining_of :: "json \<Rightarrow> real option option" where
  "remaining_of data =
     (case field data ''remaining'' of
        None \<Rightarrow> None
      | Some (JNum n) \<Rightarrow> Some (Some n)
      | Some JNull \<Rightarrow> Some None
      | Some other \<Rightarrow> Some (Some (- 1)))"

definition checkRateLimit :: "network \<Rightarrow> page \<Rightarrow> page \<times> json option" where
  "checkRateLimit net s =
     (let s1 = emit (Fetch Check_limit) s
      in case limit_fetch net of
           Rejects e \<Rightarrow> (s1\<lparr>authLimitReached := False\<rparr>, None)
         | Resolves r \<Rightarrow>
             (case json_body r of
                Inl e \<Rightarrow> (s1\<lparr>authLimitReached := False\<rparr>, None)
              | Inr data \<Rightarrow>
                  (let s2 = s1\<lparr>authLimitReached :=
                              (truthy (field data ''isAuthenticated'') \<and>
                               field data ''canGenerate'' = Some (JBool False))\<rparr>;
                       s3 = (case remaining_of data of
                               None \<Rightarrow> s2
                             | Some remainingValue \<Rightarrow>
                                 s2\<lparr>rateLimitInfo_remaining := remainingValue\<rparr>)
                   in (s3, Some data))))"

text \<open>
  \<open>checkGenerationLimit\<close>; \<open>remainingOverride\<close> is \<open>None\<close> when the argument is
  left out, and otherwise a number or \<open>null\<close>.
\<close>

definition checkGenerationLimit ::
    "page \<Rightarrow> string option \<Rightarrow> real option option \<Rightarrow> page \<Rightarrow> page \<times> bool" where
  "checkGenerationLimit c pendingVideoId remainingOverride s =
     (if user c \<noteq> None then
        (if authLimitReached c then
           (emit (Toast_error AUTH_LIMIT_MESSAGE)
              (s\<lparr>isRateLimitError := True, error := AUTH_LIMIT_MESSAGE\<rparr>), False)
         else (s, True))
      else
        let effectiveRemaining =
              (case remainingOverride of
                 Some x \<Rightarrow> x
               | None \<Rightarrow> rateLimitInfo_remaining c)
        in case effectiveRemaining of
             Some n \<Rightarrow>
               if n \<noteq> - 1 \<and> n \<le> 0
               then (redirectToAuthForLimit c None pendingVideoId s, False)
               else (s, True)
           | None \<Rightarrow> (s, True))"

subsection \<open>\<open>processVideo\<close>\<close>

text \<open>
  How a part of \<open>processVideo\<close> ends: it goes on with a value, the function returns,
  or an error is thrown into the \<open>catch\<close> of \<open>processVideo\<close>.
\<close>

datatype 'a step = Next 'a | Return | Throw js_error

text \<open>The validation of the URL and the resets that open \<open>processVideo\<close>.\<close>

definition start_analysis :: "page \<Rightarrow> string \<Rightarrow> page \<Rightarrow> page \<times> (string \<times> platform) step" where
  "start_analysis c url s =
     (case (extractVideoId url, detectPlatform url) of
        (Some extractedVideoId, Some detectedPlatform) \<Rightarrow>
          if extractedVideoId = [] then (s, Throw (Error INVALID_URL_MESSAGE))
          else
            let s1 = emit Abort_cleanup s;
                s2 = s1\<lparr>error := [], isRateLimitError := False, page_topics := [],
                        baseTopics := [], page_transcript := [], themes := [],
                        selectedTopic := None, videoInfo := None,
                        takeawaysContent := None, takeawaysError := [],
                        showChatTab := False, cachedSuggestedQuestions := None\<rparr>;
                s3 = storeCurrentVideoForAuth c (Some extractedVideoId) s2;
                s4 = s3\<lparr>videoId := Some extractedVideoId, platform := detectedPlatform\<rparr>
            in (s4, Next (extractedVideoId, detectedPlatform))
      | _ \<Rightarrow> (s, Throw (Error INVALID_URL_MESSAGE)))"

text \<open>
  The loop that collects the keys of the topics reads \<open>topic.quote?.timestamp\<close>: a topic
  that is \<open>null\<close> throws a \<open>TypeError\<close>.  (The keys go to \<open>usedTopicKeys\<close>, which
  the page record leaves out.)
\<close>

definition null_topic_error :: "json list \<Rightarrow> js_error option" where
  "null_topic_error generatedTopics =
     (if JNull \<in> set generatedTopics then Some (TypeError ''quote'') else None)"

text \<open>
  The hit path: the view state is filled from the cached data, and the themes and (if
  the record has none) the summary are requested in the background.
\<close>

definition load_cached ::
    "topic_utils \<Rightarrow> page \<Rightarrow> string \<Rightarrow> json \<Rightarrow> page \<Rightarrow> page \<times> unit step" where
  "load_cached lib c extractedVideoId cacheData s =
     (let s1 = s\<lparr>pageState := LOADING_CACHED\<rparr>;
          sanitizedTranscript = normalizeTranscript lib (field cacheData ''transcript'');
          hydratedTopics =
            hydrateTopicsWithTranscript lib (array_field cacheData ''topics'') sanitizedTranscript;
          cachedVideoInfo = (case field cacheData ''videoInfo'' of
                               Some JNull \<Rightarrow> None
                             | other \<Rightarrow> other);
          s2 = s1\<lparr>page_transcript := sanitizedTranscript,
                  videoInfo := (if truthy cachedVideoInfo then cachedVideoInfo else None),
                  page_topics := hydratedTopics, baseTopics := hydratedTopics\<rparr>
      in case null_topic_error hydratedTopics of
           Some e \<Rightarrow> (s2, Throw e)
         | None \<Rightarrow>
     (let s2' = s2\<lparr>selectedTopic := (case hydratedTopics of [] \<Rightarrow> None | t # ts \<Rightarrow> Some t)\<rparr>;
          s3 = (if truthy (field cacheData ''summary'')
                then s2'\<lparr>takeawaysContent := field cacheData ''summary'', showChatTab := True,
                        isGeneratingTakeaways := False\<rparr>
                else s2');
          s4 = (if truthy (field cacheData ''suggestedQuestions'')
                then s3\<lparr>cachedSuggestedQuestions := field cacheData ''suggestedQuestions''\<rparr>
                else s3);
          s5 = storeCurrentVideoForAuth c (Some extractedVideoId) s4;
          s6 = s5\<lparr>pageState := IDLE, loadingStage := None\<rparr>;
          s7 = emit (Fetch (Video_analysis extractedVideoId (field cacheData ''videoInfo'')
                       sanitizedTranscript True)) s6
      in if \<not> truthy (field cacheData ''summary'')
         then (emit (Fetch (Generate_summary extractedVideoId (field cacheData ''videoInfo'')
                       sanitizedTranscript))
                 (s7\<lparr>showChatTab := True, isGeneratingTakeaways := True\<rparr>), Return)
         else (s7, Return)))"

text \<open>The request to \<open>/api/check-video-cache\<close> and the decision between hit and miss.\<close>

definition check_cache ::
    "network \<Rightarrow> topic_utils \<Rightarrow> page \<Rightarrow> string \<Rightarrow> string \<Rightarrow> page \<Rightarrow> page \<times> unit step" where
  "check_cache net lib c url extractedVideoId s =
     (let s1 = emit (Fetch (Check_video_cache url)) s
      in case cache_fetch net of
           Rejects e \<Rightarrow> (s1, Throw e)
         | Resolves cacheResponse \<Rightarrow>
             if ok cacheResponse then
               (case json_body cacheResponse of
                  Inl e \<Rightarrow> (s1, Throw e)
                | Inr JNull \<Rightarrow> (s1, Throw (TypeError ''cached''))
                | Inr cacheData \<Rightarrow>
                    if truthy (field cacheData ''cached'')
                    then load_cached lib c extractedVideoId cacheData s1
                    else (s1, Next ()))
             else (s1, Next ()))"

text \<open>
  The limit check of the miss path: a guest asks the server again for the remaining
  count; a signed-in user is judged by the captured \<open>authLimitReached\<close>.
\<close>

definition latest_remaining :: "real option \<Rightarrow> json option \<Rightarrow> real option" where
  "latest_remaining currentRemaining latestLimitData =
     (case latestLimitData of
        None \<Rightarrow> currentRemaining
      | Some data \<Rightarrow>
          if truthy (Some data) then
            (case field data ''remaining'' of
               None \<Rightarrow> currentRemaining
             | Some (JNum n) \<Rightarrow> Some n
             | Some JNull \<Rightarrow> None
             | Some other \<Rightarrow> currentRemaining)
          else currentRemaining)"

definition limit_gate :: "network \<Rightarrow> page \<Rightarrow> string \<Rightarrow> page \<Rightarrow> page \<times> unit step" where
  "limit_gate net c extractedVideoId s =
     (let currentRemaining = rateLimitInfo_remaining c;
          (s1, effectiveRemaining) =
            (if user c = None then
               (case checkRateLimit net s of
                  (s', latestLimitData) \<Rightarrow>
                    (s', latest_remaining currentRemaining latestLimitData))
             else (s, currentRemaining))
      in case checkGenerationLimit c (Some extractedVideoId) (Some effectiveRemaining) s1 of
           (s2, allowed) \<Rightarrow> if allowed then (s2, Next ()) else (s2, Return))"

text \<open>
  The transcript and the metadata are requested together.  A rejected transcript request
  rejects \<open>Promise.all\<close>; a rejected metadata request resolves to \<open>null\<close>.  The
  result is the normalised transcript and \<open>fetchedVideoInfo\<close>.
\<close>

definition read_videoInfo :: "fetched \<Rightarrow> json option" where
  "read_videoInfo videoInfoPromise =
     (case videoInfoPromise of
        Rejects e \<Rightarrow> None
      | Resolves videoInfoRes \<Rightarrow>
          if ok videoInfoRes then
            (case json_body videoInfoRes of
               Inl e \<Rightarrow> None
             | Inr videoInfoData \<Rightarrow>
                 if truthy (Some videoInfoData) \<and> \<not> truthy (field videoInfoData ''error'')
                 then Some videoInfoData else None)
          else None)"

definition fetch_transcript_and_info ::
    "network \<Rightarrow> topic_utils \<Rightarrow> string \<Rightarrow> page \<Rightarrow> page \<times> (json list \<times> json option) step" where
  "fetch_transcript_and_info net lib url s =
     (let s1 = s\<lparr>pageState := ANALYZING_NEW, loadingStage := Some fetching\<rparr>;
          s2 = emit (Fetch (Video_info url)) (emit (Fetch (Transcript url)) s1)
      in case transcript_fetch net of
           Rejects e \<Rightarrow>
             (s2, Throw (Error (if err_name e = ''AbortError'' then TRANSCRIPT_TIMEOUT_MESSAGE
                                else TRANSCRIPT_NETWORK_MESSAGE)))
         | Resolves transcriptRes \<Rightarrow>
             if \<not> ok transcriptRes then
               (s2, Throw (Error (buildApiErrorMessage (errorData_of transcriptRes)
                                    ''Failed to fetch transcript'')))
             else
               (case json_body transcriptRes of
                  Inl jsonError \<Rightarrow>
                    (s2, Throw (Error (if err_name jsonError = ''AbortError''
                                       then TRANSCRIPT_JSON_TIMEOUT_MESSAGE
                                       else TRANSCRIPT_JSON_MESSAGE)))
                | Inr JNull \<Rightarrow> (s2, Throw (Error TRANSCRIPT_JSON_MESSAGE))
                | Inr data \<Rightarrow>
                    (let normalizedTranscriptData = normalizeTranscript lib (field data ''transcript'');
                         s3 = s2\<lparr>page_transcript := normalizedTranscriptData\<rparr>;
                         fetchedVideoInfo = read_videoInfo (videoInfo_fetch net);
                         s4 = (case fetchedVideoInfo of
                                 None \<Rightarrow> s3
                               | Some videoInfoData \<Rightarrow> s3\<lparr>videoInfo := Some videoInfoData\<rparr>)
                     in (s4, Next (normalizedTranscriptData, fetchedVideoInfo)))))"

text \<open>
  What the summary request has settled to when it is awaited: a request that was still
  in flight when it was aborted rejects with an \<open>AbortError\<close>.
\<close>

definition settle_takeaways :: "network \<Rightarrow> bool \<Rightarrow> fetched" where
  "settle_takeaways net aborted =
     (if aborted \<and> \<not> takeaways_settled_first net then Rejects AbortError
      else takeaways_fetch net)"

text \<open>
  The topic request and the summary request, issued together, and what the answer to the
  topic request leads to.  On success the result is the parsed topic data and the settled
  summary request.
\<close>

definition generate ::
    "network \<Rightarrow> page \<Rightarrow> string \<Rightarrow> json list \<Rightarrow> json option \<Rightarrow> page \<Rightarrow>
     page \<times> (json \<times> fetched) step" where
  "generate net c extractedVideoId normalizedTranscriptData fetchedVideoInfo s =
     (let s1 = emit (Fetch (Quick_preview normalizedTranscriptData fetchedVideoInfo))
                 (s\<lparr>loadingStage := Some understanding\<rparr>);
          s2 = s1\<lparr>loadingStage := Some generating\<rparr>;
          s3 = emit (Fetch (Video_analysis extractedVideoId fetchedVideoInfo
                       normalizedTranscriptData False)) s2;
          s4 = emit (Fetch (Generate_summary extractedVideoId fetchedVideoInfo
                       normalizedTranscriptData)) s3;
          s5 = s4\<lparr>showChatTab := True, isGeneratingTakeaways := True\<rparr>
      in case topics_fetch net of
           Rejects e \<Rightarrow>
             (emit (Abort ''takeaways'') s5,
              Throw (Error (if err_name e = ''AbortError'' then TOPICS_ABORTED_MESSAGE
                            else TOPICS_NETWORK_MESSAGE)))
         | Resolves topicsRes \<Rightarrow>
             if \<not> ok topicsRes then
               (let errorData = errorData_of topicsRes;
                    requiresAuth = truthy (field errorData ''requiresAuth'')
                in if status topicsRes = 429 \<and> requiresAuth then
                     (redirectToAuthForLimit c (string_field errorData ''message'')
                        (Some extractedVideoId) (emit (Abort ''takeaways'') s5),
                      Return)
                   else if status topicsRes = 429 then
                     (let s6 = emit (Abort ''takeaways'')
                                 (emit (Fetch Check_limit) (s5\<lparr>isRateLimitError := True\<rparr>));
                          limitMessageRaw = (case string_field errorData ''message'' of
                                               Some t \<Rightarrow> trim t | None \<Rightarrow> []);
                          limitErrorRaw = (case string_field errorData ''error'' of
                                             Some t \<Rightarrow> trim t | None \<Rightarrow> []);
                          limitMessage =
                            (if length limitMessageRaw > 0 then limitMessageRaw
                             else if length limitErrorRaw > 0 then limitErrorRaw
                             else AUTH_LIMIT_MESSAGE)
                      in (s6, Throw (Error limitMessage)))
                   else
                     (emit (Abort ''takeaways'') s5,
                      Throw (Error (buildApiErrorMessage errorData ''Failed to generate topics''))))
             else
               (case json_body topicsRes of
                  Inl e \<Rightarrow> (s5, Throw e)
                | Inr JNull \<Rightarrow> (s5, Throw (TypeError ''topics''))
                | Inr topicsData \<Rightarrow> (s5, Next (topicsData, settle_takeaways net False))))"

text \<open>The placeholder sent to \<open>/api/save-analysis\<close> when there is no metadata.\<close>

definition placeholder_videoInfo :: "string \<Rightarrow> json" where
  "placeholder_videoInfo extractedVideoId =
     JObj [(''title'', JStr (''YouTube Video '' @ extractedVideoId)),
           (''author'', JStr ''Unknown''),
           (''duration'', JNum 0),
           (''thumbnail'', JStr [])]"

text \<open>
  Reading the settled summary request: an error thrown by \<open>json()\<close>, or
  \<open>generatedTakeaways\<close> and \<open>takeawaysGenerationError\<close>.
\<close>

definition read_summary :: "fetched \<Rightarrow> js_error + (json option \<times> string)" where
  "read_summary takeawaysResult =
     (case takeawaysResult of
        Resolves summaryRes \<Rightarrow>
          if ok summaryRes then
            (case json_body summaryRes of
               Inl e \<Rightarrow> Inl e
             | Inr JNull \<Rightarrow> Inl (TypeError ''summaryContent'')
             | Inr summaryData \<Rightarrow> Inr (field summaryData ''summaryContent'', []))
          else Inr (None, buildApiErrorMessage (errorData_of summaryRes) SUMMARY_FAILED_MESSAGE)
      | Rejects e \<Rightarrow>
          if err_name e = ''AbortError'' then Inr (None, SUMMARY_TIMEOUT_MESSAGE)
          else Inr (None, if err_message e \<noteq> [] then err_message e
                          else SUMMARY_FAILED_MESSAGE))"

text \<open>
  \<open>rawCandidates.map\<close> reads \<open>candidate.quote.timestamp\<close> and
  \<open>candidate.quote.text\<close> of every candidate, with no optional chaining: a candidate
  that is \<open>null\<close>, or whose \<open>quote\<close> is missing or \<open>null\<close>, throws a \<open>TypeError\<close>.
  The first candidate that throws ends the loop.  \<open>normalizeWhitespace\<close> of
  \<open>lib/quote-matcher\<close> is taken to return for every argument, as in the theme selector
  below, where it is a parameter.  (The keys computed go to \<open>themeCandidateMap\<close>,
  which the page record leaves out.)
\<close>

definition candidate_quote_error :: "json \<Rightarrow> js_error option" where
  "candidate_quote_error candidate =
     (case candidate of
        JNull \<Rightarrow> Some (TypeError ''quote'')
      | _ \<Rightarrow>
          (case field candidate ''quote'' of
             None \<Rightarrow> Some (TypeError_undefined ''timestamp'')
           | Some JNull \<Rightarrow> Some (TypeError ''timestamp'')
           | Some q \<Rightarrow> None))"

definition first_candidate_error :: "json list \<Rightarrow> js_error option" where
  "first_candidate_error rawCandidates =
     (case List.map_filter candidate_quote_error rawCandidates of
        [] \<Rightarrow> None
      | e # es \<Rightarrow> Some e)"

text \<open>
  The end of the miss path: the topics are hydrated and the keys of the candidates
  computed, the summary result is read, the view state is set in one batch, and the save
  and the suggested questions are started in the background.
\<close>

definition finish_analysis ::
    "topic_utils \<Rightarrow> string \<Rightarrow> json list \<Rightarrow> json option \<Rightarrow> json \<Rightarrow> fetched \<Rightarrow>
     page \<Rightarrow> page \<times> unit step" where
  "finish_analysis lib extractedVideoId normalizedTranscriptData fetchedVideoInfo topicsData
       takeawaysResult s =
     (let generatedTopics =
            hydrateTopicsWithTranscript lib (array_field topicsData ''topics'')
              normalizedTranscriptData;
          generatedThemes = array_field topicsData ''themes'';
          rawCandidates = array_field topicsData ''topicCandidates''
      in case first_candidate_error rawCandidates of
           Some e \<Rightarrow> (s, Throw e)
         | None \<Rightarrow>
     (let s1 = s\<lparr>loadingStage := Some processing\<rparr>;
          summary_read = read_summary takeawaysResult
      in case summary_read of
           Inl e \<Rightarrow> (s1, Throw e)
         | Inr (generatedTakeaways, takeawaysGenerationError) \<Rightarrow>
             (let s2 = s1\<lparr>page_topics := generatedTopics, baseTopics := generatedTopics\<rparr>
              in case null_topic_error generatedTopics of
                   Some e \<Rightarrow> (s2, Throw e)
                 | None \<Rightarrow>
             (let s2' = s2\<lparr>selectedTopic :=
                               (case generatedTopics of [] \<Rightarrow> None | t # ts \<Rightarrow> Some t),
                            themes := generatedThemes\<rparr>;
                  s3 = (if truthy generatedTakeaways
                        then s2'\<lparr>takeawaysContent := generatedTakeaways, showChatTab := True,
                                isGeneratingTakeaways := False\<rparr>
                        else if takeawaysGenerationError \<noteq> []
                        then s2'\<lparr>takeawaysError := takeawaysGenerationError, showChatTab := True,
                                isGeneratingTakeaways := False\<rparr>
                        else s2');
                  s4 = emit (Fetch Check_limit) s3;
                  s5 = emit (Fetch (Save_analysis extractedVideoId
                               (case fetchedVideoInfo of
                                  Some info \<Rightarrow> info
                                | None \<Rightarrow> placeholder_videoInfo extractedVideoId)
                               normalizedTranscriptData generatedTopics generatedTakeaways)) s4;
                  s6 = emit (Fetch (Suggested_questions normalizedTranscriptData generatedTopics)) s5
              in (s6, Next ())))))"

text \<open>The \<open>try\<close> block of \<open>processVideo\<close>.\<close>

definition processVideo_try ::
    "network \<Rightarrow> topic_utils \<Rightarrow> page \<Rightarrow> string \<Rightarrow> page \<Rightarrow> page \<times> unit step" where
  "processVideo_try net lib c url s =
     (case start_analysis c url s of
        (s1, Throw e) \<Rightarrow> (s1, Throw e)
      | (s1, Return) \<Rightarrow> (s1, Return)
      | (s1, Next (extractedVideoId, detectedPlatform)) \<Rightarrow>
     (case check_cache net lib c url extractedVideoId s1 of
        (s2, Throw e) \<Rightarrow> (s2, Throw e)
      | (s2, Return) \<Rightarrow> (s2, Return)
      | (s2, Next u) \<Rightarrow>
     (case limit_gate net c extractedVideoId s2 of
        (s3, Throw e) \<Rightarrow> (s3, Throw e)
      | (s3, Return) \<Rightarrow> (s3, Return)
      | (s3, Next u) \<Rightarrow>
     (case fetch_transcript_and_info net lib url s3 of
        (s4, Throw e) \<Rightarrow> (s4, Throw e)
      | (s4, Return) \<Rightarrow> (s4, Return)
      | (s4, Next (normalizedTranscriptData, fetchedVideoInfo)) \<Rightarrow>
     (case generate net c extractedVideoId normalizedTranscriptData fetchedVideoInfo s4 of
        (s5, Throw e) \<Rightarrow> (s5, Throw e)
      | (s5, Return) \<Rightarrow> (s5, Return)
      | (s5, Next (topicsData, takeawaysResult)) \<Rightarrow>
          finish_analysis lib extractedVideoId normalizedTranscriptData fetchedVideoInfo
            topicsData takeawaysResult s5)))))"

text \<open>
  \<open>processVideo\<close> called on the page \<open>s\<close>, whose state its callbacks have captured:
  the \<open>try\<close> block, the \<open>catch\<close> that shows the error, and the \<open>finally\<close>.
  The requests that are not awaited (the quick preview, the later \<open>checkRateLimit\<close>,
  the save and the suggested questions) appear as events; what their answers do to the
  page later is outside the run.
\<close>

definition processVideo :: "network \<Rightarrow> topic_utils \<Rightarrow> string \<Rightarrow> page \<Rightarrow> page" where
  "processVideo net lib url s =
     (let s1 = (case processVideo_try net lib s url s of
                  (s', Throw err) \<Rightarrow>
                    s'\<lparr>error := normalizeErrorMessage (Some (err_message err)) ''An error occurred''\<rparr>
                | (s', other) \<Rightarrow> s')
      in s1\<lparr>pageState := IDLE, loadingStage := None, isGeneratingTakeaways := False\<rparr>)"

subsection \<open>Runs of the miss path\<close>

text \<open>
  The answer to the cache check sends \<open>processVideo\<close> down the miss path: the response
  is not \<open>ok\<close>, or its body does not say \<open>cached\<close>.
\<close>

definition cache_miss :: "network \<Rightarrow> bool" where
  "cache_miss net =
     (case cache_fetch net of
        Rejects e \<Rightarrow> False
      | Resolves r \<Rightarrow>
          if ok r then
            (case json_body r of
               Inl e \<Rightarrow> False
             | Inr JNull \<Rightarrow> False
             | Inr data \<Rightarrow> \<not> truthy (field data ''cached''))
          else True)"

text \<open>
  The limit check lets the run through: a signed-in user whose captured
  \<open>authLimitReached\<close> is false, or a guest whose remaining count (the fresh one of the
  server, else the captured one) is \<open>null\<close>, \<open>-1\<close> or positive.
\<close>

definition under_limit :: "network \<Rightarrow> page \<Rightarrow> bool" where
  "under_limit net c =
     (if user c \<noteq> None then \<not> authLimitReached c
      else (case latest_remaining (rateLimitInfo_remaining c) (snd (checkRateLimit net c)) of
              Some n \<Rightarrow> \<not> (n \<noteq> - 1 \<and> n \<le> 0)
            | None \<Rightarrow> True))"

text \<open>The transcript request and the topic request succeed with the given bodies.\<close>

definition transcript_ok :: "network \<Rightarrow> json \<Rightarrow> bool" where
  "transcript_ok net data =
     (case transcript_fetch net of
        Rejects e \<Rightarrow> False
      | Resolves r \<Rightarrow> ok r \<and> json_body r = Inr data \<and> data \<noteq> JNull)"

definition topics_ok :: "network \<Rightarrow> json \<Rightarrow> bool" where
  "topics_ok net topicsData =
     (case topics_fetch net of
        Rejects e \<Rightarrow> False
      | Resolves r \<Rightarrow> ok r \<and> json_body r = Inr topicsData \<and> topicsData \<noteq> JNull)"

text \<open>
  The topic data can be read to the end: every candidate has a quote, and no hydrated
  topic is \<open>null\<close>.
\<close>

definition topics_readable :: "topic_utils \<Rightarrow> json \<Rightarrow> json list \<Rightarrow> bool" where
  "topics_readable lib topicsData normalizedTranscriptData =
     (first_candidate_error (array_field topicsData ''topicCandidates'') = None \<and>
      null_topic_error
        (hydrateTopicsWithTranscript lib (array_field topicsData ''topics'')
           normalizedTranscriptData) = None)"

text \<open>The events of the miss path up to the two parallel requests for content.\<close>

definition miss_path_events ::
    "page \<Rightarrow> string \<Rightarrow> string \<Rightarrow> json list \<Rightarrow> json option \<Rightarrow> client_event list" where
  "miss_path_events c url vid tr info =
     Abort_cleanup #
     (if user c = None then [Session_setItem ''pendingVideoId'' vid] else []) @
     Fetch (Check_video_cache url) #
     (if user c = None then [Fetch Check_limit] else []) @
     [Fetch (Transcript url), Fetch (Video_info url), Fetch (Quick_preview tr info),
      Fetch (Video_analysis vid info tr False), Fetch (Generate_summary vid info tr)]"

text \<open>
  What the page shows of an analysis: the error and its kind, the topics, the summary and
  its error, the metadata and the transcript.
\<close>

definition shown ::
    "page \<Rightarrow> string \<times> bool \<times> json list \<times> json option \<times> string \<times> json option \<times> json list" where
  "shown s = (error s, isRateLimitError s, page_topics s, takeawaysContent s, takeawaysError s,
              videoInfo s, page_transcript s)"




text \<open>The requests for a transcript, for metadata and for generated or saved content.\<close>

fun analysis_request :: "client_event \<Rightarrow> bool" where
  "analysis_request (Fetch (Check_video_cache u)) = False"
| "analysis_request (Fetch Check_limit) = False"
| "analysis_request (Fetch r) = True"
| "analysis_request e = False"

text \<open>The events of a run: those of the page after it that were not there before.\<close>

definition run_events :: "page \<Rightarrow> page \<Rightarrow> client_event list" where
  "run_events s s' = drop (length (events s)) (events s')"

text \<open>The page as the component first renders it for a user and a route.\<close>

definition initial_page :: "string option \<Rightarrow> string option \<Rightarrow> page" where
  "initial_page u route =
     \<lparr>pageState = (if route \<noteq> None then ANALYZING_NEW else IDLE), loadingStage = None,
      error = [], isRateLimitError = False, videoId = None, platform = youtube,
      videoInfo = None, page_transcript = [], page_topics = [], baseTopics = [],
      themes = [], selectedTopic = None, takeawaysContent = None, takeawaysError = [],
      showChatTab = False, isGeneratingTakeaways = False, cachedSuggestedQuestions = None,
      authLimitReached = False, rateLimitInfo_remaining = Some (- 1),
      hasRedirectedForLimit = False, sessionStorage = Map.empty, user = u,
      routeVideoId = route, events = []\<rparr>"

text \<open>Answers of the server used in the examples.\<close>

definition json_response :: "bool \<Rightarrow> nat \<Rightarrow> json \<Rightarrow> fetched" where
  "json_response o_k st body = Resolves \<lparr>ok = o_k, status = st, json_body = Inr body\<rparr>"

definition example_network :: network where
  "example_network =
     \<lparr>cache_fetch = json_response True 200 (JObj [(''cached'', JBool False)]),
      limit_fetch = json_response True 200
        (JObj [(''isAuthenticated'', JBool False), (''canGenerate'', JBool False),
               (''remaining'', JNum 0)]),
      transcript_fetch = json_response True 200
        (JObj [(''transcript'', JArr [JObj [(''text'', JStr ''hello'')]])]),
      videoInfo_fetch = json_response True 200 (JObj [(''title'', JStr ''A video'')]),
      topics_fetch = json_response True 200 (JObj [(''topics'', JArr [JStr ''t1''])]),
      takeaways_fetch = json_response True 200 (JObj [(''summaryContent'', JStr ''sum'')]),
      takeaways_settled_first = False\<rparr>"

definition example_utils :: topic_utils where
  "example_utils =
     \<lparr>normalizeTranscript = (\<lambda>t. case t of Some (JArr xs) \<Rightarrow> xs | _ \<Rightarrow> []),
      hydrateTopicsWithTranscript = (\<lambda>raw tr. raw)\<rparr>"

definition example_limited_network :: network where
  "example_limited_network =
     example_network\<lparr>limit_fetch := json_response True 200
        (JObj [(''isAuthenticated'', JBool True), (''canGenerate'', JBool False)])\<rparr>"

definition example_rejecting_network :: network where
  "example_rejecting_network =
     example_network\<lparr>topics_fetch :=
        Rejects \<lparr>err_name = ''TypeError'', err_message = ''Failed to fetch''\<rparr>\<rparr>"





subsection \<open>Selecting a theme: \<open>handleThemeSelect\<close>\<close>






















section \<open>Properties of the table\<close>

lemma check_is_at_least_one:
  "bilibili_video_analyses_bvid_aid_check b a \<longleftrightarrow> (b \<noteq> None \<or> a \<noteq> None)"
  by (auto simp: bilibili_video_analyses_bvid_aid_check_def)

lemma do_update_set_ids [simp]:
  "bvid (do_update_set now a r) = bvid r" "aid (do_update_set now a r) = aid r"
  "row_id (do_update_set now a r) = row_id r"
  by (simp_all add: do_update_set_def)

lemma upsert_keeps_check:
  assumes "\<forall>r \<in> set (bilibili_video_analyses db). bvid r \<noteq> None \<or> aid r \<noteq> None"
    and "upsert_bilibili_video_analysis db now a = Inr (v, db')"
  shows "\<forall>r \<in> set (bilibili_video_analyses db'). bvid r \<noteq> None \<or> aid r \<noteq> None"
proof -
  have upd: "bvid (if conflicts (p_bvid a) r then do_update_set now a r else r) = bvid r
      \<and> aid (if conflicts (p_bvid a) r then do_update_set now a r else r) = aid r" for r
    by simp
  from assms(2) show ?thesis
    unfolding upsert_bilibili_video_analysis_def
    using assms(1) upd
    by (fastforce simp: check_is_at_least_one split: if_splits option.splits)
qed

lemma insert_row_keeps_check:
  assumes "\<forall>r \<in> set (bilibili_video_analyses db). bvid r \<noteq> None \<or> aid r \<noteq> None"
    and "insert_row db r0 = Inr db'"
  shows "\<forall>r \<in> set (bilibili_video_analyses db'). bvid r \<noteq> None \<or> aid r \<noteq> None"
  using assms
  by (auto simp: insert_row_def check_is_at_least_one split: if_splits)

lemma execute_keeps_check:
  assumes "\<forall>r \<in> set (bilibili_video_analyses db). bvid r \<noteq> None \<or> aid r \<noteq> None"
  shows "\<forall>r \<in> set (bilibili_video_analyses (execute db st)). bvid r \<noteq> None \<or> aid r \<noteq> None"
proof (cases st)
  case (Upsert now a)
  show ?thesis
  proof (cases "upsert_bilibili_video_analysis db now a")
    case (Inl e)
    with Upsert assms show ?thesis by (simp add: execute_def)
  next
    case (Inr p)
    obtain v db' where p: "p = (v, db')" by (cases p)
    from upsert_keeps_check [OF assms Inr [unfolded p]] Upsert Inr p
    show ?thesis by (simp add: execute_def)
  qed
next
  case (Insert r0)
  show ?thesis
  proof (cases "insert_row db r0")
    case (Inl e)
    with Insert assms show ?thesis by (simp add: execute_def)
  next
    case (Inr db')
    from insert_row_keeps_check [OF assms Inr] Insert Inr
    show ?thesis by (simp add: execute_def)
  qed
qed

lemma execute_all_keeps_check:
  "\<forall>r \<in> set (bilibili_video_analyses db). bvid r \<noteq> None \<or> aid r \<noteq> None \<Longrightarrow>
   \<forall>r \<in> set (bilibili_video_analyses (execute_all db sts)). bvid r \<noteq> None \<or> aid r \<noteq> None"
  unfolding execute_all_def
proof (induction sts arbitrary: db)
  case Nil
  then show ?case by simp
next
  case (Cons st sts)
  from Cons.IH [OF execute_keeps_check [OF Cons.prems]] show ?case by simp
qed

text \<open>The rows of the two example tables.\<close>

lemma example_rows:
  "bilibili_video_analyses (execute_all empty_database
       [Insert example_row, Insert (example_row\<lparr>bvid := None, aid := Some ''170001''\<rparr>)]) =
     [example_row, example_row\<lparr>row_id := 1, bvid := None, aid := Some ''170001''\<rparr>]"
  "bilibili_video_analyses (execute_all empty_database
       [Insert (example_row\<lparr>aid := Some ''170001''\<rparr>)]) =
     [example_row\<lparr>aid := Some ''170001''\<rparr>]"
  by (simp_all add: execute_all_def execute_def insert_row_def example_row_def
      empty_database_def conflicts_def int4_def bilibili_video_analyses_bvid_aid_check_def)


subsection \<open>The id columns\<close>

text \<open>
  C2 (as amended).  The check constraint accepts a row exactly when at least one of
  \<open>bvid\<close> and \<open>aid\<close> is not \<open>NULL\<close>, and every row of every table reached from the
  empty one by upserts and direct inserts has at least one of the two; a row with both
  \<open>NULL\<close> is never stored.  Rows with both columns populated are accepted.
\<close>

theorem bvid_aid_at_least_one:
  "(bilibili_video_analyses_bvid_aid_check b a \<longleftrightarrow> b \<noteq> None \<or> a \<noteq> None) \<and>
   (\<forall>r \<in> set (bilibili_video_analyses (execute_all empty_database sts)).
      bvid r \<noteq> None \<or> aid r \<noteq> None)"
proof
  show "bilibili_video_analyses_bvid_aid_check b a \<longleftrightarrow> b \<noteq> None \<or> a \<noteq> None"
    by (rule check_is_at_least_one)
  show "\<forall>r \<in> set (bilibili_video_analyses (execute_all empty_database sts)).
      bvid r \<noteq> None \<or> aid r \<noteq> None"
    by (rule execute_all_keeps_check) (simp add: empty_database_def)
qed

theorem bvid_aid_at_least_one_witness:
  "bilibili_video_analyses_bvid_aid_check None (Some ''170001'') \<and>
   map aid (bilibili_video_analyses (execute_all empty_database
       [Insert example_row, Insert (example_row\<lparr>bvid := None, aid := Some ''170001''\<rparr>)]))
     = [None, Some ''170001'']"
proof -
  let ?sts = "[Insert example_row, Insert (example_row\<lparr>bvid := None, aid := Some ''170001''\<rparr>)]"
  have rows: "map aid (bilibili_video_analyses (execute_all empty_database ?sts))
      = [None, Some ''170001'']"
    by (simp add: example_rows(1)) (simp add: example_row_def)
  from bvid_aid_at_least_one [of None "Some ''170001''" ?sts]
  have "bilibili_video_analyses_bvid_aid_check None (Some ''170001'')" by simp
  with rows show ?thesis by simp
qed

text \<open>
  C2 as stated fails: a direct insert of a row in which \<open>bvid\<close> and \<open>aid\<close> are both
  populated is accepted by the check constraint and the row is stored.
\<close>

theorem exactly_one_id_counterexample:
  "bilibili_video_analyses_bvid_aid_check (Some ''BV1xx411c7mD'') (Some ''170001'') \<and>
   map bvid (bilibili_video_analyses (execute_all empty_database
       [Insert (example_row\<lparr>aid := Some ''170001''\<rparr>)])) = [Some ''BV1xx411c7mD''] \<and>
   map aid (bilibili_video_analyses (execute_all empty_database
       [Insert (example_row\<lparr>aid := Some ''170001''\<rparr>)])) = [Some ''170001'']"
  by (simp add: example_rows(2) bilibili_video_analyses_bvid_aid_check_def)
     (simp add: example_row_def)


subsection \<open>The upsert function\<close>

lemma upsert_parameters_rejected: "\<not> defaults_are_trailing upsert_parameters"
  by (simp add: upsert_parameters_def)

lemma migrated_database_is_empty: "migrated_database = empty_database"
  by (simp add: migrated_database_def create_function_def upsert_parameters_rejected)

lemma execute_keeps_pg_proc: "pg_proc (execute db st) = pg_proc db"
  by (auto simp: execute_def upsert_bilibili_video_analysis_def insert_row_def
      split: statement.splits sum.splits option.splits if_splits)

lemma execute_all_keeps_pg_proc: "pg_proc (execute_all db sts) = pg_proc db"
  unfolding execute_all_def
  by (induction sts arbitrary: db) (simp_all add: execute_keeps_pg_proc)

text \<open>
  C1.  The statement of the migration that creates \<open>upsert_bilibili_video_analysis\<close> is
  rejected, whatever the database: \<open>p_title\<close> and the eight parameters after it have no
  default although they follow \<open>p_bvid\<close> and \<open>p_aid\<close>, which have one.  So in every
  database reached from the migrated one by upserts and direct inserts no function
  exists, every call of the upsert fails with \<open>undefined_function\<close>, and as a statement
  it leaves the database as it is: nothing is stored and nothing is merged.
\<close>

theorem upsert_function_is_not_created:
  "create_function ''upsert_bilibili_video_analysis'' upsert_parameters db =
     Inl (invalid_function_definition ''upsert_bilibili_video_analysis'') \<and>
   pg_proc (execute_all migrated_database sts) = [] \<and>
   upsert_bilibili_video_analysis (execute_all migrated_database sts) now a =
     Inl (undefined_function ''upsert_bilibili_video_analysis'') \<and>
   execute (execute_all migrated_database sts) (Upsert now a) =
     execute_all migrated_database sts"
proof -
  have f: "pg_proc (execute_all migrated_database sts) = []"
    by (simp add: execute_all_keeps_pg_proc migrated_database_is_empty empty_database_def)
  have u: "upsert_bilibili_video_analysis (execute_all migrated_database sts) now a =
      Inl (undefined_function ''upsert_bilibili_video_analysis'')"
    by (simp add: upsert_bilibili_video_analysis_def f)
  show ?thesis
    by (simp add: create_function_def upsert_parameters_rejected f u execute_def)
qed

text \<open>
  The case of the claim: the row of a video is in the table with topics and no summary,
  and the upsert is called for the same \<open>bvid\<close> with no topics and the summary \<open>X\<close>.
  The call fails and the summary of the row stays \<open>NULL\<close>.
\<close>

theorem upsert_function_is_not_created_witness:
  "upsert_bilibili_video_analysis (execute_all migrated_database [Insert example_row]) 2
      example_update =
     Inl (undefined_function ''upsert_bilibili_video_analysis'') \<and>
   p_summary example_update = Some (JStr ''X'') \<and>
   map summary (bilibili_video_analyses
      (execute_all migrated_database [Insert example_row, Upsert 2 example_update])) = [None]"
proof -
  note w = upsert_function_is_not_created [of empty_database "[Insert example_row]" 2
      example_update]
  have "execute_all migrated_database [Insert example_row, Upsert 2 example_update] =
      execute (execute_all migrated_database [Insert example_row]) (Upsert 2 example_update)"
    by (simp add: execute_all_def)
  also have "\<dots> = execute_all migrated_database [Insert example_row]"
    using w by simp
  finally have same: "execute_all migrated_database [Insert example_row, Upsert 2 example_update] =
      execute_all migrated_database [Insert example_row]" .
  have rows: "bilibili_video_analyses (execute_all migrated_database [Insert example_row]) =
      [example_row]"
    by (simp add: migrated_database_is_empty execute_all_def execute_def insert_row_def
        example_row_def empty_database_def conflicts_def int4_def
        bilibili_video_analyses_bvid_aid_check_def)
  have s: "summary example_row = None" "p_summary example_update = Some (JStr ''X'')"
    by (simp_all add: example_row_def example_update_def example_args_def)
  from w show ?thesis
    by (simp add: same rows s)
qed

subsection \<open>The merge of the declared body\<close>

lemma COALESCE_simps [simp]:
  "COALESCE None y = y" "COALESCE (Some v) y = Some v"
  by (simp_all add: COALESCE_def)

lemma COALESCE_idem: "COALESCE x (COALESCE x y) = COALESCE x y"
  by (cases x) simp_all

text \<open>
  In a database that did have the function, a call whose \<open>bvid\<close> is stored would update
  that row in place: \<open>topics\<close>, \<open>summary\<close> and \<open>suggested_questions\<close> by
  \<open>COALESCE\<close>, and no other column but \<open>updated_at\<close>.
\<close>

lemma upsert_on_conflict:
  assumes "''upsert_bilibili_video_analysis'' \<in> set (pg_proc db)"
    and "p_bvid a = Some b" "p_title a \<noteq> None" "p_duration a = Some d" "int4 d"
    and "p_transcript a \<noteq> None"
    and "i < length (bilibili_video_analyses db)"
    and "bvid (bilibili_video_analyses db ! i) = Some b"
  shows "\<exists>v. upsert_bilibili_video_analysis db now a =
           Inr (v, db\<lparr>bilibili_video_analyses :=
                  map (\<lambda>r. if conflicts (p_bvid a) r then do_update_set now a r else r)
                      (bilibili_video_analyses db)\<rparr>)"
proof -
  have "conflicts (p_bvid a) (bilibili_video_analyses db ! i)"
    using assms by (simp add: conflicts_def)
  with assms(7) have "find (conflicts (p_bvid a)) (bilibili_video_analyses db) \<noteq> None"
    by (auto simp: find_None_iff intro: nth_mem)
  then obtain old where "find (conflicts (p_bvid a)) (bilibili_video_analyses db) = Some old"
    by blast
  with assms show ?thesis
    by (auto simp: upsert_bilibili_video_analysis_def check_is_at_least_one)
qed

section \<open>Properties of the URL parser\<close>

lemma upper_of_fixed:
  "x \<notin> fst ` set ps \<Longrightarrow> x \<notin> snd ` set ps \<Longrightarrow> (upper_of ps y = x) = (y = x)"
  by (induction ps) (auto split: if_splits)

lemma Canonicalize_dot [simp]: "(Canonicalize i y = CHR ''.'') = (y = CHR ''.'')"
  by (simp add: Canonicalize_def upper_of_fixed)

lemma Canonicalize_B: "Canonicalize True c = CHR ''B'' \<Longrightarrow> c = CHR ''b'' \<or> c = CHR ''B''"
  by (simp add: Canonicalize_def split: if_splits)

lemma Canonicalize_M: "Canonicalize True c = CHR ''M'' \<Longrightarrow> c = CHR ''m'' \<or> c = CHR ''M''"
  by (simp add: Canonicalize_def split: if_splits)

lemma Canonicalize_lits [simp]:
  "Canonicalize i (CHR ''.'') = CHR ''.''" "Canonicalize True (CHR ''b'') = CHR ''B''"
  "Canonicalize True (CHR ''m'') = CHR ''M''" "Canonicalize False c = c"
  by (simp_all add: Canonicalize_def)

lemma lit_match_hd:
  "lit_match i (x # l) s \<noteq> None \<Longrightarrow> \<exists>y t. s = y # t \<and> Canonicalize i y = Canonicalize i x"
  by (cases s) (auto split: if_splits)

lemma star_all:
  "\<forall>x \<in> set xs. p x \<Longrightarrow> ys = [] \<or> \<not> p (hd ys) \<Longrightarrow> k ys \<noteq> None \<Longrightarrow> star p (xs @ ys) k = k ys"
proof (induction xs)
  case Nil
  then show ?case by (cases ys) auto
next
  case (Cons x xs)
  then show ?case by auto
qed

lemma js_match_skip:
  assumes "\<And>t. match_at i r t \<noteq> None \<Longrightarrow> t \<noteq> [] \<and> hd t \<in> F"
    and "set pre \<inter> F = {}"
  shows "js_match i r (pre @ s) = js_match i r s"
  using assms(2)
proof (induction pre)
  case Nil
  then show ?case by simp
next
  case (Cons x pre)
  have "match_at i r (x # pre @ s) = None"
    using assms(1) [of "x # pre @ s"] Cons.prems by auto
  with Cons show ?case by simp
qed

lemmas classes = class_match_def dot_def not_slash_def query_sep_def id_char_def
  white_space_def

lemma youtube_first:
  "match_at False youtubeRegex t \<noteq> None \<Longrightarrow> t \<noteq> [] \<and> hd t \<in> {CHR ''y''}"
  by (cases t) (auto simp: match_at_def youtubeRegex_def split: option.splits if_splits)

lemma js_match_here: "match_at i r s = Some c \<Longrightarrow> js_match i r s = Some c"
  by (cases s) simp_all

lemma pattern_first:
  "match_at True bv_format t \<noteq> None \<Longrightarrow> t \<noteq> [] \<and> hd t \<in> {CHR ''b'', CHR ''B''}"
  "match_at True av_format t \<noteq> None \<Longrightarrow> t \<noteq> [] \<and> hd t \<in> {CHR ''b'', CHR ''B''}"
  "match_at True short_url t \<noteq> None \<Longrightarrow> t \<noteq> [] \<and> hd t \<in> {CHR ''b'', CHR ''B''}"
  "match_at True mobile_url t \<noteq> None \<Longrightarrow> t \<noteq> [] \<and> hd t \<in> {CHR ''m'', CHR ''M''}"
proof -
  have lit: "lit_match True (x # l) t \<noteq> None \<Longrightarrow> Canonicalize True x = u \<Longrightarrow>
      (\<And>c. Canonicalize True c = u \<Longrightarrow> c \<in> F) \<Longrightarrow> t \<noteq> [] \<and> hd t \<in> F" for x l u F
    using lit_match_hd [of True x l t] by auto
  show "match_at True bv_format t \<noteq> None \<Longrightarrow> t \<noteq> [] \<and> hd t \<in> {CHR ''b'', CHR ''B''}"
    by (rule lit [of "CHR ''b''" _ "CHR ''B''"])
       (auto simp: match_at_def bv_format_def dest: Canonicalize_B split: option.splits)
  show "match_at True av_format t \<noteq> None \<Longrightarrow> t \<noteq> [] \<and> hd t \<in> {CHR ''b'', CHR ''B''}"
    by (rule lit [of "CHR ''b''" _ "CHR ''B''"])
       (auto simp: match_at_def av_format_def dest: Canonicalize_B split: option.splits)
  show "match_at True short_url t \<noteq> None \<Longrightarrow> t \<noteq> [] \<and> hd t \<in> {CHR ''b'', CHR ''B''}"
    by (rule lit [of "CHR ''b''" _ "CHR ''B''"])
       (auto simp: match_at_def short_url_def dest: Canonicalize_B split: option.splits)
  show "match_at True mobile_url t \<noteq> None \<Longrightarrow> t \<noteq> [] \<and> hd t \<in> {CHR ''m'', CHR ''M''}"
    by (rule lit [of "CHR ''m''" _ "CHR ''M''"])
       (auto simp: match_at_def mobile_url_def dest: Canonicalize_M split: option.splits)
qed

lemma occurs_iff: "occurs i l s \<longleftrightarrow> (\<exists>pre t. s = pre @ t \<and> lit_match i l t \<noteq> None)"
proof (induction s)
  case Nil
  then show ?case by simp
next
  case (Cons x s)
  show ?case
  proof
    assume "occurs i l (x # s)"
    then consider "lit_match i l (x # s) \<noteq> None" | "occurs i l s" by auto
    then show "\<exists>pre t. x # s = pre @ t \<and> lit_match i l t \<noteq> None"
    proof cases
      case 1
      then have "x # s = [] @ (x # s) \<and> lit_match i l (x # s) \<noteq> None" by simp
      then show ?thesis by blast
    next
      case 2
      with Cons.IH obtain pre t where "s = pre @ t" "lit_match i l t \<noteq> None" by blast
      then have "x # s = (x # pre) @ t \<and> lit_match i l t \<noteq> None" by simp
      then show ?thesis by blast
    qed
  next
    assume "\<exists>pre t. x # s = pre @ t \<and> lit_match i l t \<noteq> None"
    then obtain pre t where pt: "x # s = pre @ t" "lit_match i l t \<noteq> None" by blast
    show "occurs i l (x # s)"
    proof (cases pre)
      case Nil
      with pt have "lit_match i l (x # s) \<noteq> None" by simp
      then show ?thesis by simp
    next
      case (Cons y pre')
      with pt have "s = pre' @ t" by simp
      with pt(2) Cons.IH have "occurs i l s" by blast
      then show ?thesis by simp
    qed
  qed
qed

lemma js_match_suffix:
  "js_match i r s \<noteq> None \<Longrightarrow> \<exists>pre t. s = pre @ t \<and> match_at i r t \<noteq> None"
proof (induction s)
  case Nil
  then show ?case by simp
next
  case (Cons x s)
  show ?case
  proof (cases "match_at i r (x # s)")
    case None
    with Cons.prems have "js_match i r s \<noteq> None" by simp
    with Cons.IH obtain pre t where "s = pre @ t" "match_at i r t \<noteq> None" by blast
    then have "x # s = (x # pre) @ t \<and> match_at i r t \<noteq> None" by simp
    then show ?thesis by blast
  next
    case (Some c)
    then have "x # s = [] @ (x # s) \<and> match_at i r (x # s) \<noteq> None" by simp
    then show ?thesis by blast
  qed
qed

lemma lit_match_append:
  "lit_match i (l1 @ l2) t =
     (case lit_match i l1 t of None \<Rightarrow> None | Some t' \<Rightarrow> lit_match i l2 t')"
  by (induction i l1 t rule: lit_match.induct) auto

lemma lit_match_rest: "lit_match i l t = Some t' \<Longrightarrow> \<exists>p. t = p @ t'"
proof (induction i l t rule: lit_match.induct)
  case (1 i s)
  then show ?case by simp
next
  case (2 i x xs)
  then show ?case by simp
next
  case (3 i x xs y ys)
  then have "lit_match i xs ys = Some t'" by (simp split: if_splits)
  with 3 obtain p where "ys = p @ t'" by (auto split: if_splits)
  then have "y # ys = (y # p) @ t'" by simp
  then show ?case by blast
qed

lemma js_match_occurs:
  assumes "\<And>t. match_at i r t \<noteq> None \<Longrightarrow> lit_match i (l0 @ l) t \<noteq> None"
    and "js_match i r s \<noteq> None"
  shows "occurs i l s"
proof -
  from js_match_suffix [OF assms(2)] obtain pre t
    where st: "s = pre @ t" and "match_at i r t \<noteq> None" by blast
  with assms(1) have "lit_match i (l0 @ l) t \<noteq> None" by blast
  then obtain t' where t': "lit_match i l0 t = Some t'" and l: "lit_match i l t' \<noteq> None"
    by (auto simp: lit_match_append split: option.splits)
  from lit_match_rest [OF t'] obtain p where "t = p @ t'" by blast
  with st have "s = (pre @ p) @ t'" by simp
  with l show ?thesis unfolding occurs_iff by blast
qed

lemma pattern_lits:
  "match_at True bv_format t \<noteq> None \<Longrightarrow> lit_match True ([] @ ''bilibili.com/video/'') t \<noteq> None"
  "match_at True av_format t \<noteq> None \<Longrightarrow> lit_match True ([] @ ''bilibili.com/video/'') t \<noteq> None"
  "match_at True short_url t \<noteq> None \<Longrightarrow> lit_match True ([] @ ''b23.tv/'') t \<noteq> None"
  "match_at True mobile_url t \<noteq> None \<Longrightarrow> lit_match True (''m.'' @ ''bilibili.com/video/'') t \<noteq> None"
proof -
  show "match_at True bv_format t \<noteq> None \<Longrightarrow> lit_match True ([] @ ''bilibili.com/video/'') t \<noteq> None"
    by (auto simp: match_at_def bv_format_def split: option.splits)
  have av: "''bilibili.com/video/av'' = ''bilibili.com/video/'' @ ''av''" by simp
  show "match_at True av_format t \<noteq> None \<Longrightarrow> lit_match True ([] @ ''bilibili.com/video/'') t \<noteq> None"
    unfolding match_at_def av_format_def av
    by (auto simp only: backtrack.simps lit_match_append append_Nil split: option.splits)
  show "match_at True short_url t \<noteq> None \<Longrightarrow> lit_match True ([] @ ''b23.tv/'') t \<noteq> None"
    by (auto simp: match_at_def short_url_def split: option.splits)
  show "match_at True mobile_url t \<noteq> None \<Longrightarrow> lit_match True (''m.'' @ ''bilibili.com/video/'') t \<noteq> None"
    by (auto simp: match_at_def mobile_url_def split: option.splits)
qed

lemma youtube_occurs:
  assumes "js_match False youtubeRegex s \<noteq> None"
  shows "occurs False ''youtube.com/'' s \<or> occurs False ''youtu.be/'' s"
proof -
  from js_match_suffix [OF assms] obtain pre t
    where st: "s = pre @ t" and "match_at False youtubeRegex t \<noteq> None" by blast
  then have "lit_match False ''youtube.com/'' t \<noteq> None \<or> lit_match False ''youtu.be/'' t \<noteq> None"
    by (auto simp: match_at_def youtubeRegex_def split: option.splits)
  with st show ?thesis unfolding occurs_iff by blast
qed

lemma no_occurrence:
  assumes "\<not> occurs True ''bilibili.com/video/'' url" "\<not> occurs True ''b23.tv/'' url"
  shows "extractBilibiliVideoId url = None"
    and "\<not> occurs False ''youtube.com/'' url \<Longrightarrow> \<not> occurs False ''youtu.be/'' url \<Longrightarrow>
      extractVideoId url = None"
proof -
  have p: "js_match True bv_format url = None" "js_match True av_format url = None"
    "js_match True short_url url = None" "js_match True mobile_url url = None"
    using assms js_match_occurs [OF pattern_lits(1), where s = url]
      js_match_occurs [OF pattern_lits(2), where s = url]
      js_match_occurs [OF pattern_lits(3), where s = url]
      js_match_occurs [OF pattern_lits(4), where s = url]
    by blast+
  show b: "extractBilibiliVideoId url = None"
    by (simp add: extractBilibiliVideoId_def bilibiliPatterns_def p)
  assume "\<not> occurs False ''youtube.com/'' url" "\<not> occurs False ''youtu.be/'' url"
  with youtube_occurs [of url] have "js_match False youtubeRegex url = None" by blast
  with b show "extractVideoId url = None"
    by (simp add: extractVideoId_def extractBilibiliVideoId_def)
qed


subsection \<open>Matching after a prefix and before a tail\<close>

lemma star_Some_split:
  "star p xs k = Some r \<Longrightarrow> \<exists>ys zs. xs = ys @ zs \<and> (\<forall>y \<in> set ys. p y) \<and> k zs = Some r"
proof (induction xs)
  case Nil
  then show ?case by simp
next
  case (Cons x xs)
  show ?case
  proof (cases "p x \<and> star p xs k = Some r")
    case True
    with Cons.IH obtain ys zs where "xs = ys @ zs" "\<forall>y \<in> set ys. p y" "k zs = Some r"
      by blast
    with True have "x # xs = (x # ys) @ zs \<and> (\<forall>y \<in> set (x # ys). p y) \<and> k zs = Some r"
      by simp
    then show ?thesis by blast
  next
    case False
    with Cons.prems have "k (x # xs) = Some r"
      by (auto split: if_splits option.splits)
    then have "x # xs = [] @ (x # xs) \<and> (\<forall>y \<in> set []. p y) \<and> k (x # xs) = Some r"
      by simp
    then show ?thesis by blast
  qed
qed

lemma star_None:
  "(\<And>ys zs. xs = ys @ zs \<Longrightarrow> k zs = None) \<Longrightarrow> star p xs k = None"
proof (induction xs)
  case Nil
  then show ?case by simp
next
  case (Cons x xs)
  have "star p xs k = None"
  proof (rule Cons.IH)
    fix ys zs assume "xs = ys @ zs"
    then have "x # xs = (x # ys) @ zs" by simp
    then show "k zs = None" by (rule Cons.prems)
  qed
  moreover have "k (x # xs) = None"
    using Cons.prems [of "[]" "x # xs"] by simp
  ultimately show ?case by simp
qed

lemma star_here:
  assumes "k ws = Some r"
    and "\<And>zs ws'. ws = zs @ ws' \<Longrightarrow> zs \<noteq> [] \<Longrightarrow> k ws' = None"
  shows "star p ws k = Some r"
proof (cases ws)
  case Nil
  with assms(1) show ?thesis by simp
next
  case (Cons w ws0)
  have "star p ws0 k = None"
  proof (rule star_None)
    fix ys zs assume "ws0 = ys @ zs"
    with Cons have "ws = (w # ys) @ zs" by simp
    then show "k zs = None" by (rule assms(2)) simp
  qed
  with Cons assms(1) show ?thesis by simp
qed

lemma star_reach:
  "\<forall>u \<in> set us. p u \<Longrightarrow> star p ws k = Some r \<Longrightarrow> star p (us @ ws) k = Some r"
  by (induction us) simp_all

lemma rep_exact:
  "length v = n \<Longrightarrow> \<forall>x \<in> set v. p x \<Longrightarrow> rep n p (v @ tail) = Some tail"
proof (induction n p v arbitrary: tail rule: rep.induct)
  case (1 p s)
  then show ?case by simp
next
  case (2 n p)
  then show ?case by simp
next
  case (3 n p x xs)
  then show ?case by simp
qed

lemma rep_Some_iff:
  "rep n p w \<noteq> None \<longleftrightarrow> n \<le> length w \<and> (\<forall>x \<in> set (take n w). p x)"
  by (induction n p w rule: rep.induct) auto

lemma upper_of_cases: "upper_of ps c = c \<or> (c, upper_of ps c) \<in> set ps"
  by (induction ps) (auto split: if_splits)

lemma letters_alnum:
  "c \<in> set ''abcdefghijklmnopqrstuvwxyz'' \<Longrightarrow> alnum c"
  "c \<in> set ''ABCDEFGHIJKLMNOPQRSTUVWXYZ'' \<Longrightarrow> alnum c"
proof -
  have split: "''abcdefghijklmnopqrstuvwxyzABCDEFGHIJKLMNOPQRSTUVWXYZ0123456789'' =
      ''abcdefghijklmnopqrstuvwxyz'' @ ''ABCDEFGHIJKLMNOPQRSTUVWXYZ'' @ ''0123456789''"
    by simp
  show "c \<in> set ''abcdefghijklmnopqrstuvwxyz'' \<Longrightarrow> alnum c"
    unfolding alnum_def split by (simp only: set_append Un_iff simp_thms)
  show "c \<in> set ''ABCDEFGHIJKLMNOPQRSTUVWXYZ'' \<Longrightarrow> alnum c"
    unfolding alnum_def split by (simp only: set_append Un_iff simp_thms)
qed

lemma class_match_alnum [simp]: "class_match i alnum c = alnum c"
proof -
  have u: "alnum c" if "alnum (Canonicalize True c)"
  proof -
    from upper_of_cases
      [of "zip ''abcdefghijklmnopqrstuvwxyz'' ''ABCDEFGHIJKLMNOPQRSTUVWXYZ''" c]
    show ?thesis
    proof
      assume "upper_of (zip ''abcdefghijklmnopqrstuvwxyz'' ''ABCDEFGHIJKLMNOPQRSTUVWXYZ'') c = c"
      with that show ?thesis by (simp only: Canonicalize_def if_True)
    next
      assume "(c, upper_of (zip ''abcdefghijklmnopqrstuvwxyz'' ''ABCDEFGHIJKLMNOPQRSTUVWXYZ'') c)
          \<in> set (zip ''abcdefghijklmnopqrstuvwxyz'' ''ABCDEFGHIJKLMNOPQRSTUVWXYZ'')"
      then have "c \<in> set ''abcdefghijklmnopqrstuvwxyz''" by (rule set_zip_leftD)
      then show ?thesis by (rule letters_alnum(1))
    qed
  qed
  have l: "alnum c" if "alnum (to_lower c)"
  proof -
    from upper_of_cases
      [of "zip ''ABCDEFGHIJKLMNOPQRSTUVWXYZ'' ''abcdefghijklmnopqrstuvwxyz''" c]
    show ?thesis
    proof
      assume "upper_of (zip ''ABCDEFGHIJKLMNOPQRSTUVWXYZ'' ''abcdefghijklmnopqrstuvwxyz'') c = c"
      with that show ?thesis by (simp only: to_lower_def)
    next
      assume "(c, upper_of (zip ''ABCDEFGHIJKLMNOPQRSTUVWXYZ'' ''abcdefghijklmnopqrstuvwxyz'') c)
          \<in> set (zip ''ABCDEFGHIJKLMNOPQRSTUVWXYZ'' ''abcdefghijklmnopqrstuvwxyz'')"
      then have "c \<in> set ''ABCDEFGHIJKLMNOPQRSTUVWXYZ''" by (rule set_zip_leftD)
      then show ?thesis by (rule letters_alnum(2))
    qed
  qed
  show ?thesis
    unfolding class_match_def using u l by (cases i) auto
qed

lemma digit_not_letter:
  "digit c \<Longrightarrow> c \<notin> set ''abcdefghijklmnopqrstuvwxyz''"
  "digit c \<Longrightarrow> c \<notin> set ''ABCDEFGHIJKLMNOPQRSTUVWXYZ''"
  by (auto simp: digit_def)

lemma class_match_digit [simp]: "class_match i digit c = digit c"
proof -
  have u: "digit c" if "digit (Canonicalize True c)"
  proof -
    from upper_of_cases
      [of "zip ''abcdefghijklmnopqrstuvwxyz'' ''ABCDEFGHIJKLMNOPQRSTUVWXYZ''" c]
    show ?thesis
    proof
      assume "upper_of (zip ''abcdefghijklmnopqrstuvwxyz'' ''ABCDEFGHIJKLMNOPQRSTUVWXYZ'') c = c"
      with that show ?thesis by (simp only: Canonicalize_def if_True)
    next
      assume "(c, upper_of (zip ''abcdefghijklmnopqrstuvwxyz'' ''ABCDEFGHIJKLMNOPQRSTUVWXYZ'') c)
          \<in> set (zip ''abcdefghijklmnopqrstuvwxyz'' ''ABCDEFGHIJKLMNOPQRSTUVWXYZ'')"
      then have "upper_of (zip ''abcdefghijklmnopqrstuvwxyz'' ''ABCDEFGHIJKLMNOPQRSTUVWXYZ'') c
          \<in> set ''ABCDEFGHIJKLMNOPQRSTUVWXYZ''" by (rule set_zip_rightD)
      with that digit_not_letter(2) show ?thesis
        unfolding Canonicalize_def if_True by blast
    qed
  qed
  have l: "digit c" if "digit (to_lower c)"
  proof -
    from upper_of_cases
      [of "zip ''ABCDEFGHIJKLMNOPQRSTUVWXYZ'' ''abcdefghijklmnopqrstuvwxyz''" c]
    show ?thesis
    proof
      assume "upper_of (zip ''ABCDEFGHIJKLMNOPQRSTUVWXYZ'' ''abcdefghijklmnopqrstuvwxyz'') c = c"
      with that show ?thesis by (simp only: to_lower_def)
    next
      assume "(c, upper_of (zip ''ABCDEFGHIJKLMNOPQRSTUVWXYZ'' ''abcdefghijklmnopqrstuvwxyz'') c)
          \<in> set (zip ''ABCDEFGHIJKLMNOPQRSTUVWXYZ'' ''abcdefghijklmnopqrstuvwxyz'')"
      then have "upper_of (zip ''ABCDEFGHIJKLMNOPQRSTUVWXYZ'' ''abcdefghijklmnopqrstuvwxyz'') c
          \<in> set ''abcdefghijklmnopqrstuvwxyz''" by (rule set_zip_rightD)
      with that digit_not_letter(1) show ?thesis
        unfolding to_lower_def by blast
    qed
  qed
  show ?thesis
    unfolding class_match_def using u l by (cases i) auto
qed


lemma seq_plus:
  "backtrack i (Seq (Plus p) R) s c k =
     (case s of [] \<Rightarrow> None
      | x # xs \<Rightarrow> if class_match i p x
                  then star (class_match i p) xs (\<lambda>s'. backtrack i R s' c k) else None)"
  by simp

lemma seq_lit:
  "backtrack i (Seq (Lit l) R) s c k =
     (case lit_match i l s of None \<Rightarrow> None | Some s' \<Rightarrow> backtrack i R s' c k)"
  by simp

lemma seq_star:
  "backtrack i (Seq (Star p) R) s c k =
     star (class_match i p) s (\<lambda>s'. backtrack i R s' c k)"
  by simp

lemma seq_class:
  "backtrack i (Seq (Class p) R) s c k =
     (case s of [] \<Rightarrow> None
      | x # xs \<Rightarrow> if class_match i p x then backtrack i R xs c k else None)"
  by simp

lemma lit_slash: "lit_match False ''/'' s \<noteq> None \<Longrightarrow> \<exists>t. s = CHR ''/'' # t"
  by (cases s) (auto split: if_splits)

text \<open>The first alternative after the host needs two slashes.\<close>

lemma path_alternative_needs_slashes:
  assumes "backtrack False (Seq (Plus not_slash) (Seq (Lit ''/'') (Seq (Plus dot) (Lit ''/''))))
      s c k = Some r"
  shows "CHR ''/'' \<in> set (tl (dropWhile not_slash s))"
proof -
  let ?K3 = "\<lambda>s'. backtrack False (Lit ''/'') s' c k"
  let ?K2 = "\<lambda>s'. backtrack False (Seq (Plus dot) (Lit ''/'')) s' c k"
  let ?K1 = "\<lambda>s'. backtrack False (Seq (Lit ''/'') (Seq (Plus dot) (Lit ''/''))) s' c k"
  from assms obtain x xs where s: "s = x # xs" and x: "not_slash x"
    and st: "star (class_match False not_slash) xs ?K1 = Some r"
    unfolding seq_plus [of False not_slash]
    by (cases s) (auto simp: class_match_def split: if_splits)
  from star_Some_split [OF st] obtain ys zs
    where xs: "xs = ys @ zs" and ys: "\<forall>y \<in> set ys. class_match False not_slash y"
      and k1: "?K1 zs = Some r"
    by blast
  from k1 obtain zs1 where zs: "zs = CHR ''/'' # zs1" and k2: "?K2 zs1 = Some r"
    unfolding seq_lit [of False "''/''"]
    by (cases zs) (auto split: if_splits option.splits)
  from k2 obtain y ys1 where zs1: "zs1 = y # ys1"
    and st2: "star (class_match False dot) ys1 ?K3 = Some r"
    unfolding seq_plus [of False dot]
    by (cases zs1) (auto split: if_splits)
  from star_Some_split [OF st2] obtain a b
    where ys1: "ys1 = a @ b" and k3: "?K3 b = Some r"
    by blast
  from k3 have "lit_match False ''/'' b \<noteq> None"
    by (auto split: option.splits)
  then obtain b' where b: "b = CHR ''/'' # b'" using lit_slash by blast
  have "dropWhile not_slash s = CHR ''/'' # y # a @ CHR ''/'' # b'"
    using x ys unfolding s xs zs zs1 ys1 b
    by (simp add: class_match_def not_slash_def dropWhile_append3)
  then show ?thesis by simp
qed

lemma path_alternative_fails:
  "CHR ''/'' \<notin> set (tl (dropWhile not_slash s)) \<Longrightarrow>
   backtrack False (Seq (Plus not_slash) (Seq (Lit ''/'') (Seq (Plus dot) (Lit ''/'')))) s c k = None"
  using path_alternative_needs_slashes [of s c k]
  by (cases "backtrack False (Seq (Plus not_slash) (Seq (Lit ''/'') (Seq (Plus dot) (Lit ''/''))))
      s c k") auto

lemma id_char_facts:
  "id_char c \<Longrightarrow> c \<noteq> CHR ''/''" "id_char c \<Longrightarrow> \<not> query_sep c" "id_char c \<Longrightarrow> dot c"
  by (auto simp: id_char_def query_sep_def dot_def white_space_def)

lemma no_slash_dropWhile: "CHR ''/'' \<notin> set s \<Longrightarrow> dropWhile not_slash s = []"
  by (auto simp: not_slash_def)

lemma rep_id:
  assumes "length v = 11" "\<forall>c \<in> set v. id_char c"
  shows "rep 11 (class_match False id_char) (v @ tail) = Some tail"
  using rep_exact [of v 11 "class_match False id_char" tail] assms
  by (simp add: class_match_def)

lemma youtube_short_at:
  assumes "length v = 11" "\<forall>c \<in> set v. id_char c"
  shows "match_at False youtubeRegex (''youtu.be/'' @ v @ tail) = Some (Some v)"
  using assms(1)
  by (simp add: match_at_def youtubeRegex_def rep_id [OF assms])

lemma youtube_embed_at:
  assumes "length v = 11" "\<forall>c \<in> set v. id_char c" "CHR ''/'' \<notin> set tail"
  shows "match_at False youtubeRegex (''youtube.com/embed/'' @ v @ tail) = Some (Some v)"
proof -
  define A1 where "A1 = Seq (Plus not_slash) (Seq (Lit ''/'') (Seq (Plus dot) (Lit ''/'')))"
  define A3 where "A3 = Seq (Star dot) (Seq (Class query_sep) (Lit ''v=''))"
  have yt: "youtubeRegex =
     Seq (Alt (Seq (Lit ''youtube.com/'')
                   (Alt A1
                   (Alt (Seq (Alt (Lit ''v'') (Seq (Lit ''e'') (Opt (Lit ''mbed'')))) (Lit ''/''))
                        A3)))
              (Lit ''youtu.be/''))
         (Group (Rep 11 id_char))"
    by (simp add: youtubeRegex_def A1_def A3_def)
  from assms(2) have v: "CHR ''/'' \<notin> set v" by (auto dest: id_char_facts(1))
  have a1: "backtrack False A1 (''embed/'' @ v @ tail) c k = None" for c k
    unfolding A1_def
    by (rule path_alternative_fails) (simp add: not_slash_def v assms(3))
  have a1': "backtrack False A1
      (CHR ''e'' # CHR ''m'' # CHR ''b'' # CHR ''e'' # CHR ''d'' # CHR ''/'' # v @ tail) c k = None"
    for c k
    using a1 [of c k] by simp
  show ?thesis
    using assms(1)
    by (simp add: match_at_def yt rep_id [OF assms(1,2)] a1')
qed


lemma no_later_parameter:
  assumes "\<forall>x \<in> set xs. \<not> query_sep x"
    and "\<not> occurs False ''?v='' ys" "\<not> occurs False ''&v='' ys"
    and "xs @ ys = zs @ ws"
  shows "backtrack False (Seq (Class query_sep) (Lit ''v='')) ws c k = None"
proof (cases ws)
  case Nil
  then show ?thesis by simp
next
  case (Cons x t)
  show ?thesis
  proof (rule ccontr)
    assume "backtrack False (Seq (Class query_sep) (Lit ''v='')) ws c k \<noteq> None"
    then have q: "query_sep x" and l: "lit_match False ''v='' t \<noteq> None"
      unfolding Cons by (auto simp: class_match_def split: if_splits option.splits)
    from l have m: "lit_match False (x # ''v='') ws \<noteq> None"
      unfolding Cons by simp
    from assms(4) [unfolded append_eq_append_conv2] obtain us
      where "xs = zs @ us \<and> us @ ys = ws \<or> xs @ us = zs \<and> ys = us @ ws"
      by blast
    then show False
    proof
      assume a: "xs = zs @ us \<and> us @ ys = ws"
      show False
      proof (cases us)
        case Nil
        with a have "ys = [] @ ws" by simp
        with m have "occurs False (x # ''v='') ys" unfolding occurs_iff by blast
        with q assms(2,3) show False by (auto simp: query_sep_def)
      next
        case (Cons u us')
        with a \<open>ws = x # t\<close> have "x \<in> set xs" by auto
        with assms(1) q show False by blast
      qed
    next
      assume "xs @ us = zs \<and> ys = us @ ws"
      with m have "occurs False (x # ''v='') ys" unfolding occurs_iff by blast
      with q assms(2,3) show False by (auto simp: query_sep_def)
    qed
  qed
qed

lemma parameter_alternative:
  assumes "\<forall>u \<in> set us. dot u" "query_sep q" "k rest c = Some r"
    and "\<And>zs ws. CHR ''v'' # CHR ''='' # rest = zs @ ws \<Longrightarrow>
      backtrack False (Seq (Class query_sep) (Lit ''v='')) ws c k = None"
  shows "backtrack False (Seq (Star dot) (Seq (Class query_sep) (Lit ''v='')))
      (us @ q # ''v='' @ rest) c k = Some r"
  unfolding seq_star
proof (rule star_reach)
  show "\<forall>u \<in> set us. class_match False dot u"
    using assms(1) by (simp add: class_match_def)
  show "star (class_match False dot) (q # ''v='' @ rest)
      (\<lambda>s'. backtrack False (Seq (Class query_sep) (Lit ''v='')) s' c k) = Some r"
  proof (rule star_here)
    show "backtrack False (Seq (Class query_sep) (Lit ''v='')) (q # ''v='' @ rest) c k = Some r"
      using assms(2,3) by (simp add: class_match_def)
  next
    fix zs ws'
    assume e: "q # ''v='' @ rest = zs @ ws'" and n: "zs \<noteq> []"
    then obtain z zs' where "zs = z # zs'" by (cases zs) auto
    with e have "CHR ''v'' # CHR ''='' # rest = zs' @ ws'" by simp
    then show "backtrack False (Seq (Class query_sep) (Lit ''v='')) ws' c k = None"
      by (rule assms(4))
  qed
qed

lemma youtube_watch_at:
  assumes "length v = 11" "\<forall>c \<in> set v. id_char c" "CHR ''/'' \<notin> set tail"
    and "\<not> occurs False ''?v='' tail" "\<not> occurs False ''&v='' tail"
  shows "match_at False youtubeRegex (''youtube.com/watch?v='' @ v @ tail) = Some (Some v)"
proof -
  define A1 where "A1 = Seq (Plus not_slash) (Seq (Lit ''/'') (Seq (Plus dot) (Lit ''/'')))"
  define A3 where "A3 = Seq (Star dot) (Seq (Class query_sep) (Lit ''v=''))"
  have yt: "youtubeRegex =
     Seq (Alt (Seq (Lit ''youtube.com/'')
                   (Alt A1
                   (Alt (Seq (Alt (Lit ''v'') (Seq (Lit ''e'') (Opt (Lit ''mbed'')))) (Lit ''/''))
                        A3)))
              (Lit ''youtu.be/''))
         (Group (Rep 11 id_char))"
    by (simp add: youtubeRegex_def A1_def A3_def)
  from assms(2) have v: "CHR ''/'' \<notin> set v" by (auto dest: id_char_facts(1))
  have a1: "backtrack False A1 (''watch?v='' @ v @ tail) c k = None" for c k
    unfolding A1_def
  proof (rule path_alternative_fails)
    have "CHR ''/'' \<notin> set (''watch?v='' @ v @ tail)" using v assms(3) by simp
    then have "dropWhile not_slash (''watch?v='' @ v @ tail) = []"
      by (rule no_slash_dropWhile)
    then show "CHR ''/'' \<notin> set (tl (dropWhile not_slash (''watch?v='' @ v @ tail)))"
      by (simp only: list.sel list.set empty_iff not_False_eq_True)
  qed
  have a1': "backtrack False A1
      (CHR ''w'' # CHR ''a'' # CHR ''t'' # CHR ''c'' # CHR ''h'' # CHR ''?'' # CHR ''v'' #
       CHR ''='' # v @ tail) c k = None" for c k
    using a1 [of c k] by simp
  have later: "backtrack False (Seq (Class query_sep) (Lit ''v='')) ws c k = None"
    if "CHR ''v'' # CHR ''='' # v @ tail = zs @ ws" for zs ws c k
  proof (rule no_later_parameter [OF _ assms(4,5)])
    show "\<forall>x \<in> set (CHR ''v'' # CHR ''='' # v). \<not> query_sep x"
      using assms(2) by (auto simp: query_sep_def id_char_def)
    show "(CHR ''v'' # CHR ''='' # v) @ tail = zs @ ws"
      using that by simp
  qed
  have a3: "backtrack False A3 (''watch'' @ CHR ''?'' # ''v='' @ v @ tail) c k = k (v @ tail) c"
    if "k (v @ tail) c \<noteq> None" for c k
  proof -
    from that obtain r where r: "k (v @ tail) c = Some r" by blast
    have "backtrack False A3 (''watch'' @ CHR ''?'' # ''v='' @ v @ tail) c k = Some r"
      unfolding A3_def
    proof (rule parameter_alternative [where k = k and rest = "v @ tail" and c = c and r = r])
      show "k (v @ tail) c = Some r" by (rule r)
      show "\<forall>u \<in> set ''watch''. dot u" by (simp add: dot_def)
      show "query_sep (CHR ''?'')" by (simp add: query_sep_def)
      fix zs ws assume "CHR ''v'' # CHR ''='' # v @ tail = zs @ ws"
      then show "backtrack False (Seq (Class query_sep) (Lit ''v='')) ws c k = None"
        by (rule later)
    qed
    with r show ?thesis by simp
  qed
  have a3': "backtrack False A3
      (CHR ''w'' # CHR ''a'' # CHR ''t'' # CHR ''c'' # CHR ''h'' # CHR ''?'' # CHR ''v'' #
       CHR ''='' # v @ tail) c k = k (v @ tail) c"
    if "k (v @ tail) c \<noteq> None" for c k
    using a3 [of k c] that by simp
  show ?thesis
    using assms(1)
    by (simp add: match_at_def yt rep_id [OF assms(1,2)] a1' a3')
qed


lemma youtube_skip_prefix:
  "CHR ''y'' \<notin> set pre \<Longrightarrow>
   js_match False youtubeRegex (pre @ s) = js_match False youtubeRegex s"
  by (rule js_match_skip [where F = "{CHR ''y''}"], erule youtube_first) simp

lemma pattern_skip_prefix:
  assumes "CHR ''b'' \<notin> set pre" "CHR ''B'' \<notin> set pre"
  shows "js_match True bv_format (pre @ s) = js_match True bv_format s"
    and "js_match True av_format (pre @ s) = js_match True av_format s"
    and "js_match True short_url (pre @ s) = js_match True short_url s"
proof -
  from assms have b: "set pre \<inter> {CHR ''b'', CHR ''B''} = {}" by simp
  show "js_match True bv_format (pre @ s) = js_match True bv_format s"
    by (rule js_match_skip [OF pattern_first(1) b])
  show "js_match True av_format (pre @ s) = js_match True av_format s"
    by (rule js_match_skip [OF pattern_first(2) b])
  show "js_match True short_url (pre @ s) = js_match True short_url s"
    by (rule js_match_skip [OF pattern_first(3) b])
qed

lemma bv_at:
  assumes "b \<noteq> []" "\<forall>c \<in> set b. alnum c" "tail = [] \<or> \<not> alnum (hd tail)"
  shows "match_at True bv_format (''bilibili.com/video/BV'' @ b @ tail) = Some (Some (''BV'' @ b))"
proof -
  from assms(1) obtain x xs where b: "b = x # xs" by (cases b) auto
  have st: "star (class_match True alnum) (xs @ tail) k = k tail" if "k tail \<noteq> None" for k
    using assms(2,3) that unfolding b by (intro star_all) auto
  show ?thesis
    using assms(2) unfolding b
    by (simp add: match_at_def bv_format_def Canonicalize_def st numeral_3_eq_3)
qed

lemma av_at:
  assumes "d \<noteq> []" "\<forall>c \<in> set d. digit c" "tail = [] \<or> \<not> digit (hd tail)"
  shows "match_at True av_format (''bilibili.com/video/av'' @ d @ tail) = Some (Some d)"
proof -
  from assms(1) obtain x xs where d: "d = x # xs" by (cases d) auto
  have st: "star (class_match True digit) (xs @ tail) k = k tail" if "k tail \<noteq> None" for k
    using assms(2,3) that unfolding d by (intro star_all) auto
  show ?thesis
    using assms(2) unfolding d
    by (simp add: match_at_def av_format_def Canonicalize_def st)
qed

lemma short_at:
  assumes "b \<noteq> []" "\<forall>c \<in> set b. alnum c" "tail = [] \<or> \<not> alnum (hd tail)"
  shows "match_at True short_url (''b23.tv/BV'' @ b @ tail) = Some (Some (''BV'' @ b))"
proof -
  from assms(1) obtain x xs where b: "b = x # xs" by (cases b) auto
  have st: "star (class_match True alnum) (xs @ tail) k = k tail" if "k tail \<noteq> None" for k
    using assms(2,3) that unfolding b by (intro star_all) auto
  show ?thesis
    using assms(2) unfolding b
    by (simp add: match_at_def short_url_def Canonicalize_def st numeral_3_eq_3)
qed

lemma bv_literal:
  "match_at True bv_format t \<noteq> None \<Longrightarrow> lit_match True ([] @ ''bilibili.com/video/BV'') t \<noteq> None"
proof -
  have bv: "''bilibili.com/video/BV'' = ''bilibili.com/video/'' @ ''BV''" by simp
  show "match_at True bv_format t \<noteq> None \<Longrightarrow>
      lit_match True ([] @ ''bilibili.com/video/BV'') t \<noteq> None"
    unfolding match_at_def bv_format_def bv
    by (auto simp only: backtrack.simps lit_match_append append_Nil split: option.splits)
qed

lemma js_match_exists:
  "match_at i r t \<noteq> None \<Longrightarrow> js_match i r (pre @ t) \<noteq> None"
proof (induction pre)
  case Nil
  then show ?case by (cases t) auto
next
  case (Cons x pre)
  then show ?case by (cases "match_at i r (x # pre @ t)") auto
qed

text \<open>Where the mobile pattern matches, the BV pattern matches two characters later.\<close>

lemma mobile_at:
  "match_at True mobile_url t =
     (case lit_match True ''m.'' t of None \<Rightarrow> None | Some t1 \<Rightarrow> match_at True bv_format t1)"
proof -
  have ml: "''m.bilibili.com/video/'' = ''m.'' @ ''bilibili.com/video/''" by simp
  show ?thesis
    unfolding match_at_def mobile_url_def bv_format_def ml seq_lit lit_match_append
    by (cases "lit_match True ''m.'' t") simp_all
qed

lemma mobile_needs_bv:
  assumes "js_match True mobile_url s \<noteq> None"
  shows "js_match True bv_format s \<noteq> None"
proof -
  from js_match_suffix [OF assms] obtain pre t
    where s: "s = pre @ t" and m: "match_at True mobile_url t \<noteq> None" by blast
  from m obtain t1 where t1: "lit_match True ''m.'' t = Some t1"
    and b: "match_at True bv_format t1 \<noteq> None"
    unfolding mobile_at by (cases "lit_match True ''m.'' t") auto
  from lit_match_rest [OF t1] obtain p where p: "t = p @ t1" by blast
  from b have "js_match True bv_format ((pre @ p) @ t1) \<noteq> None" by (rule js_match_exists)
  then show ?thesis unfolding s p by simp
qed


lemma youtube_absent:
  "\<not> occurs False ''youtube.com/'' url \<Longrightarrow> \<not> occurs False ''youtu.be/'' url \<Longrightarrow>
   js_match False youtubeRegex url = None"
  using youtube_occurs [of url] by blast

lemma youtube_watch_shape:
  assumes "CHR ''y'' \<notin> set pre" "length v = 11" "\<forall>c \<in> set v. id_char c"
    and "CHR ''/'' \<notin> set tail" "\<not> occurs False ''?v='' tail" "\<not> occurs False ''&v='' tail"
  shows "extractVideoId (pre @ ''youtube.com/watch?v='' @ v @ tail) = Some v"
  unfolding extractVideoId_def youtube_skip_prefix [OF assms(1)]
  by (simp only: js_match_here [OF youtube_watch_at [OF assms(2-6)]] option.case)

lemma youtube_short_shape:
  assumes "CHR ''y'' \<notin> set pre" "length v = 11" "\<forall>c \<in> set v. id_char c"
  shows "extractVideoId (pre @ ''youtu.be/'' @ v @ tail) = Some v"
  unfolding extractVideoId_def youtube_skip_prefix [OF assms(1)]
  by (simp only: js_match_here [OF youtube_short_at [OF assms(2,3)]] option.case)

lemma youtube_embed_shape:
  assumes "CHR ''y'' \<notin> set pre" "length v = 11" "\<forall>c \<in> set v. id_char c"
    and "CHR ''/'' \<notin> set tail"
  shows "extractVideoId (pre @ ''youtube.com/embed/'' @ v @ tail) = Some v"
  unfolding extractVideoId_def youtube_skip_prefix [OF assms(1)]
  by (simp only: js_match_here [OF youtube_embed_at [OF assms(2-4)]] option.case)

lemma bv_shape_tail:
  assumes "CHR ''b'' \<notin> set pre" "CHR ''B'' \<notin> set pre"
    and "b \<noteq> []" "\<forall>c \<in> set b. alnum c" "tail = [] \<or> \<not> alnum (hd tail)"
  shows "extractBilibiliVideoId (pre @ ''bilibili.com/video/BV'' @ b @ tail) = Some (''BV'' @ b)"
    and "\<not> occurs False ''youtube.com/'' (pre @ ''bilibili.com/video/BV'' @ b @ tail) \<Longrightarrow>
         \<not> occurs False ''youtu.be/'' (pre @ ''bilibili.com/video/BV'' @ b @ tail) \<Longrightarrow>
         extractVideoId (pre @ ''bilibili.com/video/BV'' @ b @ tail) = Some (''BV'' @ b)"
proof -
  let ?url = "pre @ ''bilibili.com/video/BV'' @ b @ tail"
  have p: "js_match True bv_format ?url = Some (Some (''BV'' @ b))"
    by (simp only: pattern_skip_prefix(1) [OF assms(1,2)] js_match_here [OF bv_at [OF assms(3-5)]])
  show e: "extractBilibiliVideoId ?url = Some (''BV'' @ b)"
    by (simp only: extractBilibiliVideoId_def bilibiliPatterns_def first_match.simps p option.case)
  assume "\<not> occurs False ''youtube.com/'' ?url" "\<not> occurs False ''youtu.be/'' ?url"
  then have y: "js_match False youtubeRegex ?url = None" by (rule youtube_absent)
  from e show "extractVideoId ?url = Some (''BV'' @ b)"
    by (simp only: extractVideoId_def extractBilibiliVideoId_def y option.case)
qed

lemma short_shape_tail:
  assumes "CHR ''b'' \<notin> set pre" "CHR ''B'' \<notin> set pre"
    and "b \<noteq> []" "\<forall>c \<in> set b. alnum c" "tail = [] \<or> \<not> alnum (hd tail)"
    and "\<not> occurs True ''bilibili.com/video/'' (pre @ ''b23.tv/BV'' @ b @ tail)"
  shows "extractBilibiliVideoId (pre @ ''b23.tv/BV'' @ b @ tail) = Some (''BV'' @ b)"
    and "\<not> occurs False ''youtube.com/'' (pre @ ''b23.tv/BV'' @ b @ tail) \<Longrightarrow>
         \<not> occurs False ''youtu.be/'' (pre @ ''b23.tv/BV'' @ b @ tail) \<Longrightarrow>
         extractVideoId (pre @ ''b23.tv/BV'' @ b @ tail) = Some (''BV'' @ b)"
proof -
  let ?url = "pre @ ''b23.tv/BV'' @ b @ tail"
  have p1: "js_match True bv_format ?url = None"
    using assms(6) js_match_occurs [OF pattern_lits(1), where s = ?url] by blast
  have p2: "js_match True av_format ?url = None"
    using assms(6) js_match_occurs [OF pattern_lits(2), where s = ?url] by blast
  have p3: "js_match True short_url ?url = Some (Some (''BV'' @ b))"
    by (simp only: pattern_skip_prefix(3) [OF assms(1,2)]
        js_match_here [OF short_at [OF assms(3-5)]])
  show e: "extractBilibiliVideoId ?url = Some (''BV'' @ b)"
    by (simp only: extractBilibiliVideoId_def bilibiliPatterns_def first_match.simps p1 p2 p3
        option.case)
  assume "\<not> occurs False ''youtube.com/'' ?url" "\<not> occurs False ''youtu.be/'' ?url"
  then have y: "js_match False youtubeRegex ?url = None" by (rule youtube_absent)
  from e show "extractVideoId ?url = Some (''BV'' @ b)"
    by (simp only: extractVideoId_def extractBilibiliVideoId_def y option.case)
qed

lemma av_shape_tail:
  assumes "CHR ''b'' \<notin> set pre" "CHR ''B'' \<notin> set pre"
    and "d \<noteq> []" "\<forall>c \<in> set d. digit c" "tail = [] \<or> \<not> digit (hd tail)"
    and "\<not> occurs True ''bilibili.com/video/BV'' (pre @ ''bilibili.com/video/av'' @ d @ tail)"
  shows "extractBilibiliVideoId (pre @ ''bilibili.com/video/av'' @ d @ tail) = Some d"
    and "\<not> occurs False ''youtube.com/'' (pre @ ''bilibili.com/video/av'' @ d @ tail) \<Longrightarrow>
         \<not> occurs False ''youtu.be/'' (pre @ ''bilibili.com/video/av'' @ d @ tail) \<Longrightarrow>
         extractVideoId (pre @ ''bilibili.com/video/av'' @ d @ tail) = Some d"
proof -
  let ?url = "pre @ ''bilibili.com/video/av'' @ d @ tail"
  have p1: "js_match True bv_format ?url = None"
    using assms(6) js_match_occurs [OF bv_literal, where s = ?url] by blast
  have p2: "js_match True av_format ?url = Some (Some d)"
    by (simp only: pattern_skip_prefix(2) [OF assms(1,2)] js_match_here [OF av_at [OF assms(3-5)]])
  show e: "extractBilibiliVideoId ?url = Some d"
    by (simp only: extractBilibiliVideoId_def bilibiliPatterns_def first_match.simps p1 p2
        option.case)
  assume "\<not> occurs False ''youtube.com/'' ?url" "\<not> occurs False ''youtu.be/'' ?url"
  then have y: "js_match False youtubeRegex ?url = None" by (rule youtube_absent)
  from e show "extractVideoId ?url = Some d"
    by (simp only: extractVideoId_def extractBilibiliVideoId_def y option.case)
qed

text \<open>Fewer than eleven identifier characters after \<open>youtu.be/\<close>: no match.\<close>

lemma js_match_no_start:
  assumes "\<And>t. match_at i r t \<noteq> None \<Longrightarrow> t \<noteq> [] \<and> hd t \<in> F"
    and "set s \<inter> F = {}"
  shows "js_match i r s = None"
proof -
  have "match_at i r [] = None" using assms(1) [of "[]"] by (cases "match_at i r []") auto
  then have "js_match i r [] = None" by simp
  with js_match_skip [OF assms, where s = "[]"] show ?thesis by simp
qed

lemma youtube_short_malformed:
  assumes "CHR ''y'' \<notin> set pre" "CHR ''y'' \<notin> set w"
    and "\<not> (11 \<le> length w \<and> (\<forall>c \<in> set (take 11 w). id_char c))"
    and "\<not> occurs True ''bilibili.com/video/'' (pre @ ''youtu.be/'' @ w)"
    and "\<not> occurs True ''b23.tv/'' (pre @ ''youtu.be/'' @ w)"
  shows "extractVideoId (pre @ ''youtu.be/'' @ w) = None"
proof -
  have r: "rep 11 (class_match False id_char) w = None"
    using assms(3) rep_Some_iff [of 11 "class_match False id_char" w]
    by (auto simp: class_match_def)
  have here: "match_at False youtubeRegex (''youtu.be/'' @ w) = None"
    by (simp add: match_at_def youtubeRegex_def r)
  have rest: "js_match False youtubeRegex (''outu.be/'' @ w) = None"
  proof (rule js_match_no_start [where F = "{CHR ''y''}"])
    show "\<And>t. match_at False youtubeRegex t \<noteq> None \<Longrightarrow> t \<noteq> [] \<and> hd t \<in> {CHR ''y''}"
      by (rule youtube_first)
    show "set (''outu.be/'' @ w) \<inter> {CHR ''y''} = {}" using assms(2) by simp
  qed
  have "js_match False youtubeRegex (''youtu.be/'' @ w) = None"
    using here rest by simp
  then have y: "js_match False youtubeRegex (pre @ ''youtu.be/'' @ w) = None"
    by (simp only: youtube_skip_prefix [OF assms(1)])
  from no_occurrence(1) [OF assms(4,5)] y show ?thesis
    by (simp only: extractVideoId_def extractBilibiliVideoId_def option.case)
qed


text \<open>No identifier character after \<open>BV\<close>, no digit after \<open>av\<close>: no match.\<close>

lemma plus_fails:
  "tail = [] \<or> \<not> class_match i p (hd tail) \<Longrightarrow> backtrack i (Plus p) tail c k = None"
  by (cases tail) auto

lemma patterns_absent_in_tail:
  assumes "CHR ''b'' \<notin> set tail" "CHR ''B'' \<notin> set tail"
  shows "js_match True bv_format tail = None" "js_match True av_format tail = None"
    "js_match True short_url tail = None"
proof -
  from assms have b: "set tail \<inter> {CHR ''b'', CHR ''B''} = {}" by simp
  show "js_match True bv_format tail = None" by (rule js_match_no_start [OF pattern_first(1) b])
  show "js_match True av_format tail = None" by (rule js_match_no_start [OF pattern_first(2) b])
  show "js_match True short_url tail = None" by (rule js_match_no_start [OF pattern_first(3) b])
qed

lemma bv_without_id:
  assumes "CHR ''b'' \<notin> set pre" "CHR ''B'' \<notin> set pre"
    and "CHR ''b'' \<notin> set tail" "CHR ''B'' \<notin> set tail"
    and "tail = [] \<or> \<not> alnum (hd tail)"
  shows "extractBilibiliVideoId (pre @ ''bilibili.com/video/BV'' @ tail) = None"
    and "\<not> occurs False ''youtube.com/'' (pre @ ''bilibili.com/video/BV'' @ tail) \<Longrightarrow>
         \<not> occurs False ''youtu.be/'' (pre @ ''bilibili.com/video/BV'' @ tail) \<Longrightarrow>
         extractVideoId (pre @ ''bilibili.com/video/BV'' @ tail) = None"
proof -
  let ?url = "pre @ ''bilibili.com/video/BV'' @ tail"
  note t = patterns_absent_in_tail [OF assms(3,4), unfolded bv_format_def av_format_def short_url_def]
  have pl: "backtrack True (Plus alnum) tail c k = None" for c and k :: "string \<Rightarrow> string option \<Rightarrow> string option option"
    using assms(5) by (intro plus_fails) auto
  have "js_match True bv_format (''bilibili.com/video/BV'' @ tail) = None"
    by (simp add: match_at_def bv_format_def Canonicalize_def pl t del: backtrack.simps(7))
  then have p1: "js_match True bv_format ?url = None"
    by (simp only: pattern_skip_prefix(1) [OF assms(1,2)])
  have "js_match True av_format (''bilibili.com/video/BV'' @ tail) = None"
    by (simp add: match_at_def av_format_def Canonicalize_def t del: backtrack.simps(7))
  then have p2: "js_match True av_format ?url = None"
    by (simp only: pattern_skip_prefix(2) [OF assms(1,2)])
  have "js_match True short_url (''bilibili.com/video/BV'' @ tail) = None"
    by (simp add: match_at_def short_url_def Canonicalize_def t del: backtrack.simps(7))
  then have p3: "js_match True short_url ?url = None"
    by (simp only: pattern_skip_prefix(3) [OF assms(1,2)])
  have p4: "js_match True mobile_url ?url = None"
    using mobile_needs_bv [of ?url] p1 by blast
  show e: "extractBilibiliVideoId ?url = None"
    by (simp only: extractBilibiliVideoId_def bilibiliPatterns_def first_match.simps p1 p2 p3 p4
        option.case)
  assume "\<not> occurs False ''youtube.com/'' ?url" "\<not> occurs False ''youtu.be/'' ?url"
  then have y: "js_match False youtubeRegex ?url = None" by (rule youtube_absent)
  from e show "extractVideoId ?url = None"
    by (simp only: extractVideoId_def extractBilibiliVideoId_def y option.case)
qed

lemma av_without_digits:
  assumes "CHR ''b'' \<notin> set pre" "CHR ''B'' \<notin> set pre"
    and "CHR ''b'' \<notin> set tail" "CHR ''B'' \<notin> set tail"
    and "tail = [] \<or> \<not> digit (hd tail)"
  shows "extractBilibiliVideoId (pre @ ''bilibili.com/video/av'' @ tail) = None"
    and "\<not> occurs False ''youtube.com/'' (pre @ ''bilibili.com/video/av'' @ tail) \<Longrightarrow>
         \<not> occurs False ''youtu.be/'' (pre @ ''bilibili.com/video/av'' @ tail) \<Longrightarrow>
         extractVideoId (pre @ ''bilibili.com/video/av'' @ tail) = None"
proof -
  let ?url = "pre @ ''bilibili.com/video/av'' @ tail"
  note t = patterns_absent_in_tail [OF assms(3,4), unfolded bv_format_def av_format_def short_url_def]
  have pl: "backtrack True (Plus digit) tail c k = None" for c and k :: "string \<Rightarrow> string option \<Rightarrow> string option option"
    using assms(5) by (intro plus_fails) auto
  have "js_match True bv_format (''bilibili.com/video/av'' @ tail) = None"
    by (simp add: match_at_def bv_format_def Canonicalize_def t del: backtrack.simps(7))
  then have p1: "js_match True bv_format ?url = None"
    by (simp only: pattern_skip_prefix(1) [OF assms(1,2)])
  have "js_match True av_format (''bilibili.com/video/av'' @ tail) = None"
    by (simp add: match_at_def av_format_def Canonicalize_def pl t del: backtrack.simps(7))
  then have p2: "js_match True av_format ?url = None"
    by (simp only: pattern_skip_prefix(2) [OF assms(1,2)])
  have "js_match True short_url (''bilibili.com/video/av'' @ tail) = None"
    by (simp add: match_at_def short_url_def Canonicalize_def t del: backtrack.simps(7))
  then have p3: "js_match True short_url ?url = None"
    by (simp only: pattern_skip_prefix(3) [OF assms(1,2)])
  have p4: "js_match True mobile_url ?url = None"
    using mobile_needs_bv [of ?url] p1 by blast
  show e: "extractBilibiliVideoId ?url = None"
    by (simp only: extractBilibiliVideoId_def bilibiliPatterns_def first_match.simps p1 p2 p3 p4
        option.case)
  assume "\<not> occurs False ''youtube.com/'' ?url" "\<not> occurs False ''youtu.be/'' ?url"
  then have y: "js_match False youtubeRegex ?url = None" by (rule youtube_absent)
  from e show "extractVideoId ?url = None"
    by (simp only: extractVideoId_def extractBilibiliVideoId_def y option.case)
qed

subsection \<open>The supported URL shapes\<close>

text \<open>
  C4 (as amended).  In each line below \<open>pre\<close> is what precedes the host text and
  \<open>tail\<close> what follows the identifier.  \<open>extractVideoId\<close> returns
  \<^item> the 11 characters \<open>v\<close> (none of them a quote, \<open>&\<close>, \<open>?\<close>, \<open>/\<close> or white space) of
    \<open>pre youtube.com/watch?v=v tail\<close>, \<open>pre youtu.be/v tail\<close> and
    \<open>pre youtube.com/embed/v tail\<close>, when \<open>pre\<close> has no letter \<open>y\<close>
    (\<open>https://www.\<close>, \<open>https://m.\<close>, nothing); the tail of the short shape is
    arbitrary, that of the embed shape has no \<open>/\<close>, and that of the watch shape has no
    \<open>/\<close> and no further \<open>?v=\<close> or \<open>&v=\<close> (as \<open>&t=10s\<close>);
  \<^item> \<open>BV\<close> with the alphanumerics \<open>b\<close> that follow it in
    \<open>pre bilibili.com/video/BVb tail\<close>, \<open>pre m.bilibili.com/video/BVb tail\<close> and
    \<open>pre b23.tv/BVb tail\<close>, and the digits \<open>d\<close> alone of
    \<open>pre bilibili.com/video/avd tail\<close>, when \<open>pre\<close> has no letter \<open>b\<close> or \<open>B\<close>, the
    tail does not go on with a character of the identifier (as \<open>/?spm_id_from=333\<close>,
    \<open>?p=2\<close>), and no pattern tried earlier matches: the URL contains neither
    \<open>youtube.com/\<close> nor \<open>youtu.be/\<close>, the short shape has no \<open>bilibili.com/video/\<close>
    and the av shape no \<open>bilibili.com/video/BV\<close>.
  It returns null
  \<^item> for every URL in which neither \<open>youtube.com/\<close> nor \<open>youtu.be/\<close> occurs and,
    ignoring letter case, neither \<open>bilibili.com/video/\<close> nor \<open>b23.tv/\<close> occurs;
  \<^item> for \<open>pre youtu.be/w\<close> when \<open>w\<close> does not start with 11 identifier characters,
    for \<open>pre bilibili.com/video/BV tail\<close> when no alphanumeric follows \<open>BV\<close> and for
    \<open>pre bilibili.com/video/av tail\<close> when no digit follows \<open>av\<close>, provided no other
    pattern can start in the URL.
\<close>

theorem extractVideoId_supported_shapes:
  "(CHR ''y'' \<notin> set pre \<and> length v = 11 \<and> (\<forall>c \<in> set v. id_char c) \<and>
    CHR ''/'' \<notin> set tail \<and> \<not> occurs False ''?v='' tail \<and> \<not> occurs False ''&v='' tail \<longrightarrow>
      extractVideoId (pre @ ''youtube.com/watch?v='' @ v @ tail) = Some v) \<and>
   (CHR ''y'' \<notin> set pre \<and> length v = 11 \<and> (\<forall>c \<in> set v. id_char c) \<longrightarrow>
      extractVideoId (pre @ ''youtu.be/'' @ v @ tail) = Some v) \<and>
   (CHR ''y'' \<notin> set pre \<and> length v = 11 \<and> (\<forall>c \<in> set v. id_char c) \<and>
    CHR ''/'' \<notin> set tail \<longrightarrow>
      extractVideoId (pre @ ''youtube.com/embed/'' @ v @ tail) = Some v) \<and>
   (CHR ''b'' \<notin> set pre \<and> CHR ''B'' \<notin> set pre \<and> b \<noteq> [] \<and> (\<forall>c \<in> set b. alnum c) \<and>
    (tail = [] \<or> \<not> alnum (hd tail)) \<and>
    no_youtube_text (pre @ ''bilibili.com/video/BV'' @ b @ tail) \<longrightarrow>
      extractVideoId (pre @ ''bilibili.com/video/BV'' @ b @ tail) = Some (''BV'' @ b)) \<and>
   (CHR ''b'' \<notin> set pre \<and> CHR ''B'' \<notin> set pre \<and> b \<noteq> [] \<and> (\<forall>c \<in> set b. alnum c) \<and>
    (tail = [] \<or> \<not> alnum (hd tail)) \<and>
    no_youtube_text (pre @ ''m.bilibili.com/video/BV'' @ b @ tail) \<longrightarrow>
      extractVideoId (pre @ ''m.bilibili.com/video/BV'' @ b @ tail) = Some (''BV'' @ b)) \<and>
   (CHR ''b'' \<notin> set pre \<and> CHR ''B'' \<notin> set pre \<and> b \<noteq> [] \<and> (\<forall>c \<in> set b. alnum c) \<and>
    (tail = [] \<or> \<not> alnum (hd tail)) \<and>
    no_youtube_text (pre @ ''b23.tv/BV'' @ b @ tail) \<and>
    \<not> occurs True ''bilibili.com/video/'' (pre @ ''b23.tv/BV'' @ b @ tail) \<longrightarrow>
      extractVideoId (pre @ ''b23.tv/BV'' @ b @ tail) = Some (''BV'' @ b)) \<and>
   (CHR ''b'' \<notin> set pre \<and> CHR ''B'' \<notin> set pre \<and> d \<noteq> [] \<and> (\<forall>c \<in> set d. digit c) \<and>
    (tail = [] \<or> \<not> digit (hd tail)) \<and>
    no_youtube_text (pre @ ''bilibili.com/video/av'' @ d @ tail) \<and>
    \<not> occurs True ''bilibili.com/video/BV'' (pre @ ''bilibili.com/video/av'' @ d @ tail) \<longrightarrow>
      extractVideoId (pre @ ''bilibili.com/video/av'' @ d @ tail) = Some d) \<and>
   (no_youtube_text url \<and>
    \<not> occurs True ''bilibili.com/video/'' url \<and> \<not> occurs True ''b23.tv/'' url \<longrightarrow>
      extractVideoId url = None) \<and>
   (CHR ''y'' \<notin> set pre \<and> CHR ''y'' \<notin> set w \<and>
    \<not> (11 \<le> length w \<and> (\<forall>c \<in> set (take 11 w). id_char c)) \<and>
    \<not> occurs True ''bilibili.com/video/'' (pre @ ''youtu.be/'' @ w) \<and>
    \<not> occurs True ''b23.tv/'' (pre @ ''youtu.be/'' @ w) \<longrightarrow>
      extractVideoId (pre @ ''youtu.be/'' @ w) = None) \<and>
   (CHR ''b'' \<notin> set pre \<and> CHR ''B'' \<notin> set pre \<and> CHR ''b'' \<notin> set tail \<and> CHR ''B'' \<notin> set tail \<and>
    (tail = [] \<or> \<not> alnum (hd tail)) \<and>
    no_youtube_text (pre @ ''bilibili.com/video/BV'' @ tail) \<longrightarrow>
      extractVideoId (pre @ ''bilibili.com/video/BV'' @ tail) = None) \<and>
   (CHR ''b'' \<notin> set pre \<and> CHR ''B'' \<notin> set pre \<and> CHR ''b'' \<notin> set tail \<and> CHR ''B'' \<notin> set tail \<and>
    (tail = [] \<or> \<not> digit (hd tail)) \<and>
    no_youtube_text (pre @ ''bilibili.com/video/av'' @ tail) \<longrightarrow>
      extractVideoId (pre @ ''bilibili.com/video/av'' @ tail) = None)"
proof -
  have mobile: "pre @ ''m.bilibili.com/video/BV'' @ b @ tail =
      (pre @ ''m.'') @ ''bilibili.com/video/BV'' @ b @ tail"
    by simp
  have y1: "CHR ''y'' \<notin> set pre \<and> length v = 11 \<and> (\<forall>c \<in> set v. id_char c) \<and>
      CHR ''/'' \<notin> set tail \<and> \<not> occurs False ''?v='' tail \<and> \<not> occurs False ''&v='' tail \<longrightarrow>
      extractVideoId (pre @ ''youtube.com/watch?v='' @ v @ tail) = Some v"
    using youtube_watch_shape [of pre v tail] by blast
  have y2: "CHR ''y'' \<notin> set pre \<and> length v = 11 \<and> (\<forall>c \<in> set v. id_char c) \<longrightarrow>
      extractVideoId (pre @ ''youtu.be/'' @ v @ tail) = Some v"
    using youtube_short_shape [of pre v tail] by blast
  have y3: "CHR ''y'' \<notin> set pre \<and> length v = 11 \<and> (\<forall>c \<in> set v. id_char c) \<and>
      CHR ''/'' \<notin> set tail \<longrightarrow>
      extractVideoId (pre @ ''youtube.com/embed/'' @ v @ tail) = Some v"
    using youtube_embed_shape [of pre v tail] by blast
  have b1: "CHR ''b'' \<notin> set pre \<and> CHR ''B'' \<notin> set pre \<and> b \<noteq> [] \<and> (\<forall>c \<in> set b. alnum c) \<and>
      (tail = [] \<or> \<not> alnum (hd tail)) \<and>
      no_youtube_text (pre @ ''bilibili.com/video/BV'' @ b @ tail) \<longrightarrow>
      extractVideoId (pre @ ''bilibili.com/video/BV'' @ b @ tail) = Some (''BV'' @ b)"
    using bv_shape_tail(2) [of pre b tail] by blast
  have b2: "CHR ''b'' \<notin> set pre \<and> CHR ''B'' \<notin> set pre \<and> b \<noteq> [] \<and> (\<forall>c \<in> set b. alnum c) \<and>
      (tail = [] \<or> \<not> alnum (hd tail)) \<and>
      no_youtube_text (pre @ ''m.bilibili.com/video/BV'' @ b @ tail) \<longrightarrow>
      extractVideoId (pre @ ''m.bilibili.com/video/BV'' @ b @ tail) = Some (''BV'' @ b)"
    unfolding mobile using bv_shape_tail(2) [of "pre @ ''m.''" b tail] by simp
  have b3: "CHR ''b'' \<notin> set pre \<and> CHR ''B'' \<notin> set pre \<and> b \<noteq> [] \<and> (\<forall>c \<in> set b. alnum c) \<and>
      (tail = [] \<or> \<not> alnum (hd tail)) \<and>
      no_youtube_text (pre @ ''b23.tv/BV'' @ b @ tail) \<and>
      \<not> occurs True ''bilibili.com/video/'' (pre @ ''b23.tv/BV'' @ b @ tail) \<longrightarrow>
      extractVideoId (pre @ ''b23.tv/BV'' @ b @ tail) = Some (''BV'' @ b)"
    using short_shape_tail(2) [of pre b tail] by blast
  have a: "CHR ''b'' \<notin> set pre \<and> CHR ''B'' \<notin> set pre \<and> d \<noteq> [] \<and> (\<forall>c \<in> set d. digit c) \<and>
      (tail = [] \<or> \<not> digit (hd tail)) \<and>
      no_youtube_text (pre @ ''bilibili.com/video/av'' @ d @ tail) \<and>
      \<not> occurs True ''bilibili.com/video/BV'' (pre @ ''bilibili.com/video/av'' @ d @ tail) \<longrightarrow>
      extractVideoId (pre @ ''bilibili.com/video/av'' @ d @ tail) = Some d"
    using av_shape_tail(2) [of pre d tail] by blast
  have u: "no_youtube_text url \<and>
      \<not> occurs True ''bilibili.com/video/'' url \<and> \<not> occurs True ''b23.tv/'' url \<longrightarrow>
      extractVideoId url = None"
    using no_occurrence(2) [of url] by blast
  have n1: "CHR ''y'' \<notin> set pre \<and> CHR ''y'' \<notin> set w \<and>
      \<not> (11 \<le> length w \<and> (\<forall>c \<in> set (take 11 w). id_char c)) \<and>
      \<not> occurs True ''bilibili.com/video/'' (pre @ ''youtu.be/'' @ w) \<and>
      \<not> occurs True ''b23.tv/'' (pre @ ''youtu.be/'' @ w) \<longrightarrow>
      extractVideoId (pre @ ''youtu.be/'' @ w) = None"
    using youtube_short_malformed [of pre w] by blast
  have n2: "CHR ''b'' \<notin> set pre \<and> CHR ''B'' \<notin> set pre \<and> CHR ''b'' \<notin> set tail \<and> CHR ''B'' \<notin> set tail \<and>
      (tail = [] \<or> \<not> alnum (hd tail)) \<and>
      no_youtube_text (pre @ ''bilibili.com/video/BV'' @ tail) \<longrightarrow>
      extractVideoId (pre @ ''bilibili.com/video/BV'' @ tail) = None"
    by (intro impI, elim conjE, rule bv_without_id(2); assumption)
  have n3: "CHR ''b'' \<notin> set pre \<and> CHR ''B'' \<notin> set pre \<and> CHR ''b'' \<notin> set tail \<and> CHR ''B'' \<notin> set tail \<and>
      (tail = [] \<or> \<not> digit (hd tail)) \<and>
      no_youtube_text (pre @ ''bilibili.com/video/av'' @ tail) \<longrightarrow>
      extractVideoId (pre @ ''bilibili.com/video/av'' @ tail) = None"
    by (intro impI, elim conjE, rule av_without_digits(2); assumption)
  show ?thesis
    by (intro conjI) (fact y1 y2 y3 b1 b2 b3 a u n1 n2 n3)+
qed

theorem extractVideoId_supported_shapes_witness:
  "extractVideoId ''https://m.youtube.com/watch?v=dQw4w9WgXcQ&t=10s'' = Some ''dQw4w9WgXcQ'' \<and>
   extractVideoId ''https://youtu.be/dQw4w9WgXcQ?t=10'' = Some ''dQw4w9WgXcQ'' \<and>
   extractVideoId ''https://www.youtube.com/embed/dQw4w9WgXcQ?start=5'' = Some ''dQw4w9WgXcQ'' \<and>
   extractVideoId ''https://www.bilibili.com/video/BV1xx411c7mD/?spm_id_from=333'' =
     Some ''BV1xx411c7mD'' \<and>
   extractVideoId ''https://m.bilibili.com/video/BV1xx411c7mD'' = Some ''BV1xx411c7mD'' \<and>
   extractVideoId ''https://b23.tv/BV1xx411c7mD'' = Some ''BV1xx411c7mD'' \<and>
   extractVideoId ''https://www.bilibili.com/video/av170001?p=2'' = Some ''170001'' \<and>
   extractVideoId ''https://vimeo.com/12345'' = None \<and>
   extractVideoId ''https://youtu.be/short'' = None \<and>
   extractVideoId ''https://www.bilibili.com/video/BV/'' = None \<and>
   extractVideoId ''https://www.bilibili.com/video/av/'' = None"
proof -
  note defs = id_char_def white_space_def alnum_def digit_def Canonicalize_def
  have y1: "extractVideoId ''https://m.youtube.com/watch?v=dQw4w9WgXcQ&t=10s'' = Some ''dQw4w9WgXcQ''"
    using extractVideoId_supported_shapes [where pre = "''https://m.''" and v = "''dQw4w9WgXcQ''"
        and tail = "''&t=10s''" and b = "[]" and d = "[]" and url = "[]" and w = "[]"]
    by (simp add: defs)
  have y2: "extractVideoId ''https://youtu.be/dQw4w9WgXcQ?t=10'' = Some ''dQw4w9WgXcQ''"
    using extractVideoId_supported_shapes [where pre = "''https://''" and v = "''dQw4w9WgXcQ''"
        and tail = "''?t=10''" and b = "[]" and d = "[]" and url = "[]" and w = "[]"]
    by (simp add: defs)
  have y3: "extractVideoId ''https://www.youtube.com/embed/dQw4w9WgXcQ?start=5'' = Some ''dQw4w9WgXcQ''"
    using extractVideoId_supported_shapes [where pre = "''https://www.''" and v = "''dQw4w9WgXcQ''"
        and tail = "''?start=5''" and b = "[]" and d = "[]" and url = "[]" and w = "[]"]
    by (simp add: defs)
  have b1: "extractVideoId ''https://www.bilibili.com/video/BV1xx411c7mD/?spm_id_from=333'' =
      Some ''BV1xx411c7mD''"
    using extractVideoId_supported_shapes [where pre = "''https://www.''" and v = "[]"
        and tail = "''/?spm_id_from=333''" and b = "''1xx411c7mD''" and d = "[]" and url = "[]"
        and w = "[]"]
    by (simp add: defs)
  have b2: "extractVideoId ''https://m.bilibili.com/video/BV1xx411c7mD'' = Some ''BV1xx411c7mD''"
    using extractVideoId_supported_shapes [where pre = "''https://''" and v = "[]"
        and tail = "[]" and b = "''1xx411c7mD''" and d = "[]" and url = "[]" and w = "[]"]
    by (simp add: defs)
  have b3: "extractVideoId ''https://b23.tv/BV1xx411c7mD'' = Some ''BV1xx411c7mD''"
    using extractVideoId_supported_shapes [where pre = "''https://''" and v = "[]"
        and tail = "[]" and b = "''1xx411c7mD''" and d = "[]" and url = "[]" and w = "[]"]
    by (simp add: defs)
  have a: "extractVideoId ''https://www.bilibili.com/video/av170001?p=2'' = Some ''170001''"
    using extractVideoId_supported_shapes [where pre = "''https://www.''" and v = "[]"
        and tail = "''?p=2''" and b = "[]" and d = "''170001''" and url = "[]" and w = "[]"]
    by (simp add: defs)
  have u: "extractVideoId ''https://vimeo.com/12345'' = None"
    using extractVideoId_supported_shapes [where pre = "[]" and v = "[]"
        and tail = "[]" and b = "[]" and d = "[]" and url = "''https://vimeo.com/12345''"
        and w = "[]"]
    by (simp add: defs)
  have n1: "extractVideoId ''https://youtu.be/short'' = None"
    using extractVideoId_supported_shapes [where pre = "''https://''" and v = "[]"
        and tail = "[]" and b = "[]" and d = "[]" and url = "[]" and w = "''short''"]
    by (simp add: defs)
  have n2: "extractVideoId ''https://www.bilibili.com/video/BV/'' = None"
    using extractVideoId_supported_shapes [where pre = "''https://www.''" and v = "[]"
        and tail = "''/''" and b = "[]" and d = "[]" and url = "[]" and w = "[]"]
    by (simp add: defs)
  have n3: "extractVideoId ''https://www.bilibili.com/video/av/'' = None"
    using extractVideoId_supported_shapes [where pre = "''https://www.''" and v = "[]"
        and tail = "''/''" and b = "[]" and d = "[]" and url = "[]" and w = "[]"]
    by (simp add: defs)
  show ?thesis
    by (intro conjI) (fact y1 y2 y3 b1 b2 b3 a u n1 n2 n3)+
qed

text \<open>
  C4 as stated fails in its second half: the patterns are not anchored at the host, so
  for a URL of another domain that carries \<open>youtu.be/\<close> and an identifier in its query
  the function returns that identifier, not null.
\<close>

theorem unsupported_domain_counterexample:
  "extractVideoId ''https://example.com/?u=youtu.be/dQw4w9WgXcQ'' = Some ''dQw4w9WgXcQ''"
  by (simp add: extractVideoId_def youtubeRegex_def match_at_def class_match_def id_char_def
      white_space_def eval_nat_numeral)

subsection \<open>The identifier of the av shape\<close>

text \<open>
  C10 (as amended).  For a URL \<open>pre bilibili.com/video/avd tail\<close> with digits \<open>d\<close>,
  no letter \<open>b\<close> or \<open>B\<close> in \<open>pre\<close>, a tail that does not go on with a digit and no
  \<open>bilibili.com/video/BV\<close> anywhere (compared without letter case),
  \<open>extractBilibiliVideoId\<close> returns the digits alone, without \<open>av\<close>, and so does
  \<open>extractVideoId\<close> when the URL contains neither \<open>youtube.com/\<close> nor \<open>youtu.be/\<close>.
  For \<open>pre bilibili.com/video/BVb tail\<close> with alphanumerics \<open>b\<close> and a tail that does
  not go on with an alphanumeric, both return the identifier with its \<open>BV\<close>.  When no
  digit follows \<open>av\<close> and no pattern can start in the tail, both return null.
\<close>

theorem av_format_returns_digits_only:
  "(CHR ''b'' \<notin> set pre \<and> CHR ''B'' \<notin> set pre \<and> d \<noteq> [] \<and> (\<forall>c \<in> set d. digit c) \<and>
    (tail = [] \<or> \<not> digit (hd tail)) \<and>
    \<not> occurs True ''bilibili.com/video/BV'' (pre @ ''bilibili.com/video/av'' @ d @ tail) \<longrightarrow>
      extractBilibiliVideoId (pre @ ''bilibili.com/video/av'' @ d @ tail) = Some d \<and>
      (no_youtube_text (pre @ ''bilibili.com/video/av'' @ d @ tail) \<longrightarrow>
         extractVideoId (pre @ ''bilibili.com/video/av'' @ d @ tail) = Some d)) \<and>
   (CHR ''b'' \<notin> set pre \<and> CHR ''B'' \<notin> set pre \<and> b \<noteq> [] \<and> (\<forall>c \<in> set b. alnum c) \<and>
    (tail = [] \<or> \<not> alnum (hd tail)) \<longrightarrow>
      extractBilibiliVideoId (pre @ ''bilibili.com/video/BV'' @ b @ tail) = Some (''BV'' @ b) \<and>
      (no_youtube_text (pre @ ''bilibili.com/video/BV'' @ b @ tail) \<longrightarrow>
         extractVideoId (pre @ ''bilibili.com/video/BV'' @ b @ tail) = Some (''BV'' @ b))) \<and>
   (CHR ''b'' \<notin> set pre \<and> CHR ''B'' \<notin> set pre \<and> CHR ''b'' \<notin> set tail \<and> CHR ''B'' \<notin> set tail \<and>
    (tail = [] \<or> \<not> digit (hd tail)) \<longrightarrow>
      extractBilibiliVideoId (pre @ ''bilibili.com/video/av'' @ tail) = None \<and>
      (no_youtube_text (pre @ ''bilibili.com/video/av'' @ tail) \<longrightarrow>
         extractVideoId (pre @ ''bilibili.com/video/av'' @ tail) = None))"
proof -
  have a: "CHR ''b'' \<notin> set pre \<and> CHR ''B'' \<notin> set pre \<and> d \<noteq> [] \<and> (\<forall>c \<in> set d. digit c) \<and>
      (tail = [] \<or> \<not> digit (hd tail)) \<and>
      \<not> occurs True ''bilibili.com/video/BV'' (pre @ ''bilibili.com/video/av'' @ d @ tail) \<longrightarrow>
      extractBilibiliVideoId (pre @ ''bilibili.com/video/av'' @ d @ tail) = Some d \<and>
      (no_youtube_text (pre @ ''bilibili.com/video/av'' @ d @ tail) \<longrightarrow>
         extractVideoId (pre @ ''bilibili.com/video/av'' @ d @ tail) = Some d)"
    using av_shape_tail [of pre d tail] by blast
  have b: "CHR ''b'' \<notin> set pre \<and> CHR ''B'' \<notin> set pre \<and> b \<noteq> [] \<and> (\<forall>c \<in> set b. alnum c) \<and>
      (tail = [] \<or> \<not> alnum (hd tail)) \<longrightarrow>
      extractBilibiliVideoId (pre @ ''bilibili.com/video/BV'' @ b @ tail) = Some (''BV'' @ b) \<and>
      (no_youtube_text (pre @ ''bilibili.com/video/BV'' @ b @ tail) \<longrightarrow>
         extractVideoId (pre @ ''bilibili.com/video/BV'' @ b @ tail) = Some (''BV'' @ b))"
    using bv_shape_tail [of pre b tail] by blast
  have n: "CHR ''b'' \<notin> set pre \<and> CHR ''B'' \<notin> set pre \<and> CHR ''b'' \<notin> set tail \<and> CHR ''B'' \<notin> set tail \<and>
      (tail = [] \<or> \<not> digit (hd tail)) \<longrightarrow>
      extractBilibiliVideoId (pre @ ''bilibili.com/video/av'' @ tail) = None \<and>
      (no_youtube_text (pre @ ''bilibili.com/video/av'' @ tail) \<longrightarrow>
         extractVideoId (pre @ ''bilibili.com/video/av'' @ tail) = None)"
    by (intro impI conjI; elim conjE;
        (rule av_without_digits(1) | rule av_without_digits(2)); assumption)
  show ?thesis
    by (intro conjI) (fact a b n)+
qed

theorem av_format_returns_digits_only_witness:
  "extractBilibiliVideoId ''https://www.bilibili.com/video/av170001/?p=2'' = Some ''170001'' \<and>
   extractVideoId ''https://www.bilibili.com/video/av170001/?p=2'' = Some ''170001'' \<and>
   extractBilibiliVideoId ''https://m.bilibili.com/video/BV1xx411c7mD?p=2'' = Some ''BV1xx411c7mD'' \<and>
   extractVideoId ''https://m.bilibili.com/video/BV1xx411c7mD?p=2'' = Some ''BV1xx411c7mD'' \<and>
   extractBilibiliVideoId ''https://www.bilibili.com/video/av/'' = None \<and>
   extractVideoId ''https://www.bilibili.com/video/av/'' = None"
proof -
  note defs = alnum_def digit_def Canonicalize_def
  have a: "extractBilibiliVideoId ''https://www.bilibili.com/video/av170001/?p=2'' = Some ''170001'' \<and>
      extractVideoId ''https://www.bilibili.com/video/av170001/?p=2'' = Some ''170001''"
    using av_format_returns_digits_only [where pre = "''https://www.''" and d = "''170001''"
        and tail = "''/?p=2''" and b = "[]"]
    by (simp add: defs)
  have b: "extractBilibiliVideoId ''https://m.bilibili.com/video/BV1xx411c7mD?p=2'' =
        Some ''BV1xx411c7mD'' \<and>
      extractVideoId ''https://m.bilibili.com/video/BV1xx411c7mD?p=2'' = Some ''BV1xx411c7mD''"
    using av_format_returns_digits_only [where pre = "''https://m.''" and d = "[]"
        and tail = "''?p=2''" and b = "''1xx411c7mD''"]
    by (simp add: defs)
  have n: "extractBilibiliVideoId ''https://www.bilibili.com/video/av/'' = None \<and>
      extractVideoId ''https://www.bilibili.com/video/av/'' = None"
    using av_format_returns_digits_only [where pre = "''https://www.''" and d = "[]"
        and tail = "''/''" and b = "[]"]
    by (simp add: defs)
  from a b n show ?thesis by simp
qed

text \<open>
  C10 as stated fails: a URL of the av shape that carries a BV address further on, here
  in its query, matches the BV pattern, which is tried first, and both functions return
  the BV identifier instead of the digits.
\<close>

theorem av_url_with_bv_address_counterexample:
  "extractVideoId
     ''https://www.bilibili.com/video/av170001/?to=bilibili.com/video/BV1xx411c7mD'' =
     Some ''BV1xx411c7mD'' \<and>
   extractBilibiliVideoId
     ''https://www.bilibili.com/video/av170001/?to=bilibili.com/video/BV1xx411c7mD'' =
     Some ''BV1xx411c7mD''"
proof -
  let ?url = "''https://www.bilibili.com/video/av170001/?to=bilibili.com/video/BV1xx411c7mD''"
  have y: "js_match False youtubeRegex ?url = None"
    by (rule youtube_absent) simp_all
  have p: "js_match True bv_format ?url = Some (Some ''BV1xx411c7mD'')"
    by (simp add: match_at_def bv_format_def Canonicalize_def alnum_def)
  have e: "extractBilibiliVideoId ?url = Some ''BV1xx411c7mD''"
    by (simp only: extractBilibiliVideoId_def bilibiliPatterns_def first_match.simps p option.case)
  from e show ?thesis
    by (simp only: extractVideoId_def extractBilibiliVideoId_def y option.case simp_thms)
qed

section \<open>Properties of the transcript endpoint\<close>

lemma convertSubtitlesToTranscript_nth:
  "length (convertSubtitlesToTranscript body) = length body \<and>
   (\<forall>i < length body.
      seg_start (convertSubtitlesToTranscript body ! i) = item_from (body ! i) \<and>
      seg_duration (convertSubtitlesToTranscript body ! i) = item_to (body ! i) - item_from (body ! i) \<and>
      seg_text (convertSubtitlesToTranscript body ! i) = item_content (body ! i))"
  by (simp add: convertSubtitlesToTranscript_def)

lemma transform_converted:
  "transform_segment (as_raw \<lparr>seg_text = c, seg_start = f, seg_duration = t - f\<rparr>) =
     \<lparr>seg_text = c, seg_start = f, seg_duration = (t - f) / 1000\<rparr>"
  by (simp add: transform_segment_def as_raw_def or_string_def or_zero_def)

lemma example_url:
  "detectPlatform ''https://www.bilibili.com/video/BV1xx411c7mD'' = Some bilibili"
  "extractVideoId ''https://www.bilibili.com/video/BV1xx411c7mD'' = Some ''BV1xx411c7mD''"
proof -
  show "detectPlatform ''https://www.bilibili.com/video/BV1xx411c7mD'' = Some bilibili"
    by (simp add: detectPlatform_def js_includes_def)
  from bv_shape_tail(2) [of "''https://www.''" "''1xx411c7mD''" "[]"]
  show "extractVideoId ''https://www.bilibili.com/video/BV1xx411c7mD'' = Some ''BV1xx411c7mD''"
    by (simp add: alnum_def)
qed

text \<open>
  C3 fails on the code.  \<open>convertSubtitlesToTranscript\<close> maps the entry from second 1 to
  second 3 to a segment of duration 2, but the handler then passes every segment through
  its final \<open>map\<close>, which divides \<open>duration\<close> by 1000 as if it were in milliseconds:
  the endpoint answers with duration 0.002.
\<close>

theorem transcript_endpoint_divides_duration:
  "convertSubtitlesToTranscript
      [\<lparr>item_from = 1, item_to = 3, item_content = ''hello'', item_location = 2\<rparr>] =
     [\<lparr>seg_text = ''hello'', seg_start = 1, seg_duration = 2\<rparr>] \<and>
   transcript_handler example_bilibili_api (\<lambda>v. Youtube_throws)
      (Some ''https://www.bilibili.com/video/BV1xx411c7mD'') =
     Transcript_json ''BV1xx411c7mD''
       [\<lparr>seg_text = ''hello'', seg_start = 1, seg_duration = 2 / 1000\<rparr>] bilibili"
  by (simp add: transcript_handler_def example_url example_bilibili_api_def
      getBilibiliVideoInfo_def getBilibiliSubtitles_def fetchSubtitleContent_def
      getPreferredSubtitle_def startsWith_def convertSubtitlesToTranscript_def
      transform_segment_def as_raw_def or_string_def or_zero_def)


section \<open>Properties of the cache-check endpoint\<close>

lemma example_av_url:
  "detectPlatform ''https://www.bilibili.com/video/av170001'' = Some bilibili"
  "extractVideoId ''https://www.bilibili.com/video/av170001'' = Some ''170001''"
proof -
  show "detectPlatform ''https://www.bilibili.com/video/av170001'' = Some bilibili"
    by (simp add: detectPlatform_def js_includes_def)
  from av_shape_tail(2) [of "''https://www.''" "''170001''" "[]"]
  show "extractVideoId ''https://www.bilibili.com/video/av170001'' = Some ''170001''"
    by (simp add: digit_def Canonicalize_def)
qed

lemma example_av_rows:
  "map aid (bilibili_video_analyses (bilibili_db example_av_supabase)) =
     [Some ''170001'', Some ''170001'']"
  "map bvid (bilibili_video_analyses (bilibili_db example_av_supabase)) = [None, None]"
  "map topics (bilibili_video_analyses (bilibili_db example_av_supabase)) =
     [Some (JArr [JStr ''t1'']), Some (JArr [JStr ''t1''])]"
  by (simp_all add: example_av_supabase_def example_av_row_def example_row_def
      migrated_database_is_empty execute_all_def execute_def insert_row_def
      empty_database_def conflicts_def int4_def bilibili_video_analyses_bvid_aid_check_def)

text \<open>
  C9 fails on the code.  The column \<open>aid\<close> has no unique index (\<open>bvid\<close> has one), so
  inserting the analysis of an av video twice stores two rows with the same \<open>aid\<close>,
  both with topics.  The handler's \<open>.single()\<close> then finds two rows, \<open>data\<close> is
  \<open>null\<close>, and the answer is \<open>cached: false\<close>.
\<close>

theorem cache_check_misses_duplicated_aid:
  "map aid (bilibili_video_analyses (bilibili_db example_av_supabase)) =
     [Some ''170001'', Some ''170001''] \<and>
   map topics (bilibili_video_analyses (bilibili_db example_av_supabase)) =
     [Some (JArr [JStr ''t1'']), Some (JArr [JStr ''t1''])] \<and>
   fst (check_video_cache_handler example_av_supabase 3
          (Some ''https://www.bilibili.com/video/av170001'')) =
     Cached_false ''170001'' bilibili"
proof -
  have rows: "filter (\<lambda>r. bvid r = Some ''170001'' \<or> aid r = Some ''170001'')
      (bilibili_video_analyses (bilibili_db example_av_supabase)) =
      bilibili_video_analyses (bilibili_db example_av_supabase)"
    using example_av_rows(1) by (auto simp: filter_id_conv)
  have two: "length (bilibili_video_analyses (bilibili_db example_av_supabase)) = 2"
    using arg_cong [OF example_av_rows(1), of length] by simp
  then obtain r1 r2 where "bilibili_video_analyses (bilibili_db example_av_supabase) = [r1, r2]"
    by (auto simp: length_Suc_conv eval_nat_numeral)
  then have "single (bilibili_video_analyses (bilibili_db example_av_supabase)) = None"
    by (simp add: single_def)
  then show ?thesis
    by (simp add: check_video_cache_handler_def example_av_url rows example_av_rows)
qed


section \<open>Properties of the analyze page\<close>

lemma run_events_append [simp]: "events s' = events s @ es \<Longrightarrow> run_events s s' = es"
  by (simp add: run_events_def)

lemma start_analysis_valid:
  assumes "extractVideoId url = Some vid" "vid \<noteq> []" "detectPlatform url = Some p"
  shows "\<exists>s1. start_analysis c url s = (s1, Next (vid, p)) \<and>
      events s1 = events s @ Abort_cleanup #
        (if user c = None then [Session_setItem ''pendingVideoId'' vid] else []) \<and>
      sessionStorage s1 = (if user c = None then (sessionStorage s)(''pendingVideoId'' \<mapsto> vid)
                           else sessionStorage s) \<and>
      hasRedirectedForLimit s1 = hasRedirectedForLimit s \<and>
      error s1 = [] \<and> isRateLimitError s1 = False \<and> page_topics s1 = [] \<and>
      page_transcript s1 = [] \<and> videoInfo s1 = None \<and> takeawaysContent s1 = None \<and>
      takeawaysError s1 = []"
  using assms
  by (simp add: start_analysis_def storeCurrentVideoForAuth_def setItem_def emit_def Let_def)

lemma check_cache_miss:
  assumes "cache_miss net"
  shows "check_cache net lib c url vid s = (emit (Fetch (Check_video_cache url)) s, Next ())"
  using assms
  by (auto simp: cache_miss_def check_cache_def Let_def
      split: fetched.splits if_splits sum.splits json.splits)


lemma field_truthy: "field data key = Some v \<Longrightarrow> truthy (Some data)"
  by (cases data) simp_all

lemma limit_gate_guest_exhausted:
  assumes "user c = None" "limit_fetch net = Resolves r" "json_body r = Inr data"
    and "field data ''remaining'' = Some (JNum 0)" and "vid \<noteq> []"
  shows "\<exists>s'. limit_gate net c vid s = (s', Return) \<and>
      events s' = events s @ Fetch Check_limit #
        (if hasRedirectedForLimit s then []
         else [Session_setItem ''pendingVideoId'' vid,
               Session_setItem ''limitRedirectMessage'' GUEST_LIMIT_MESSAGE,
               Router_push ''/?auth=limit'']) \<and>
      (\<not> hasRedirectedForLimit s \<longrightarrow> sessionStorage s' ''pendingVideoId'' = Some vid) \<and>
      (hasRedirectedForLimit s \<longrightarrow> sessionStorage s' = sessionStorage s) \<and>
      hasRedirectedForLimit s' \<and> error s' = error s"
proof -
  have g: "GUEST_LIMIT_MESSAGE \<noteq> []" by (simp add: GUEST_LIMIT_MESSAGE_def)
  from assms(4) have t: "truthy (Some data)" by (rule field_truthy)
  show ?thesis
    using assms t g
    by (simp add: limit_gate_def checkRateLimit_def checkGenerationLimit_def remaining_of_def
        latest_remaining_def redirectToAuthForLimit_def storeCurrentVideoForAuth_def
        setItem_def emit_def Let_def split: option.splits)
qed


lemma checkRateLimit_records_limit:
  assumes "limit_fetch net0 = Resolves r0" "json_body r0 = Inr data0"
    and "truthy (field data0 ''isAuthenticated'')"
    and "field data0 ''canGenerate'' = Some (JBool False)"
  shows "authLimitReached (fst (checkRateLimit net0 s0))"
    and "user (fst (checkRateLimit net0 s0)) = user s0"
  using assms
  by (simp_all add: checkRateLimit_def emit_def Let_def split: option.splits)

lemma limit_gate_signed_in_limited:
  assumes "user c = Some u" "authLimitReached c"
  shows "limit_gate net c vid s =
     (emit (Toast_error AUTH_LIMIT_MESSAGE)
        (s\<lparr>isRateLimitError := True, error := AUTH_LIMIT_MESSAGE\<rparr>), Return)"
  using assms by (simp add: limit_gate_def checkGenerationLimit_def Let_def)

lemma processVideo_returns_at_gate:
  assumes "start_analysis s url s = (s1, Next (vid, p))"
    and "check_cache net lib s url vid s1 = (s2, Next ())"
    and "limit_gate net s vid s2 = (s3, Return)"
  shows "processVideo net lib url s =
     s3\<lparr>pageState := IDLE, loadingStage := None, isGeneratingTakeaways := False\<rparr>"
  using assms by (simp add: processVideo_def processVideo_try_def)

subsection \<open>The miss path\<close>

lemma checkRateLimit_frame:
  "events (fst (checkRateLimit net s)) = events s @ [Fetch Check_limit]"
  "snd (checkRateLimit net s) = snd (checkRateLimit net c)"
  by (simp_all add: checkRateLimit_def emit_def Let_def
      split: fetched.splits sum.splits option.splits)

lemma limit_gate_open:
  assumes "under_limit net c"
  shows "limit_gate net c vid s = (if user c = None then fst (checkRateLimit net s) else s, Next ())"
proof (cases "user c")
  case None
  with assms have "case latest_remaining (rateLimitInfo_remaining c) (snd (checkRateLimit net s)) of
      Some n \<Rightarrow> \<not> (n \<noteq> - 1 \<and> n \<le> 0) | None \<Rightarrow> True"
    by (simp add: under_limit_def checkRateLimit_frame(2) [of net s c])
  with None show ?thesis
    by (auto simp: limit_gate_def checkGenerationLimit_def Let_def
        split: prod.splits option.splits)
next
  case (Some u)
  with assms show ?thesis
    by (simp add: limit_gate_def checkGenerationLimit_def under_limit_def Let_def)
qed


lemma processVideo_try_chain:
  assumes "start_analysis c url s = (s1, Next (vid, p))"
    and "check_cache net lib c url vid s1 = (s2, Next ())"
    and "limit_gate net c vid s2 = (s3, Next ())"
    and "fetch_transcript_and_info net lib url s3 = (s4, Next (tr, info))"
  shows "processVideo_try net lib c url s =
        (case generate net c vid tr info s4 of
           (s5, Throw e) \<Rightarrow> (s5, Throw e)
         | (s5, Return) \<Rightarrow> (s5, Return)
         | (s5, Next (topicsData, takeawaysResult)) \<Rightarrow>
             finish_analysis lib vid tr info topicsData takeawaysResult s5)"
  by (simp add: processVideo_try_def assms)

lemma miss_path_reaches_generate:
  assumes "extractVideoId url = Some vid" "vid \<noteq> []" "detectPlatform url = Some p"
    and "cache_miss net" "under_limit net s" "transcript_ok net data"
  shows "\<exists>s4. processVideo_try net lib s url s =
        (case generate net s vid (normalizeTranscript lib (field data ''transcript''))
                (read_videoInfo (videoInfo_fetch net)) s4 of
           (s5, Throw e) \<Rightarrow> (s5, Throw e)
         | (s5, Return) \<Rightarrow> (s5, Return)
         | (s5, Next (topicsData, takeawaysResult)) \<Rightarrow>
             finish_analysis lib vid (normalizeTranscript lib (field data ''transcript''))
               (read_videoInfo (videoInfo_fetch net)) topicsData takeawaysResult s5) \<and>
      events s4 = events s @ Abort_cleanup #
        (if user s = None then [Session_setItem ''pendingVideoId'' vid] else []) @
        Fetch (Check_video_cache url) #
        (if user s = None then [Fetch Check_limit] else []) @
        [Fetch (Transcript url), Fetch (Video_info url)] \<and>
      shown s4 = ([], False, [], None, [], read_videoInfo (videoInfo_fetch net),
                  normalizeTranscript lib (field data ''transcript''))"
proof -
  from assms(6) obtain r where r: "transcript_fetch net = Resolves r" "ok r"
      "json_body r = Inr data" "data \<noteq> JNull"
    by (auto simp: transcript_ok_def split: fetched.splits)
  have start: "start_analysis s url s =
      (let s1 = emit Abort_cleanup s;
           s2 = s1\<lparr>error := [], isRateLimitError := False, page_topics := [],
                   baseTopics := [], page_transcript := [], themes := [],
                   selectedTopic := None, videoInfo := None,
                   takeawaysContent := None, takeawaysError := [],
                   showChatTab := False, cachedSuggestedQuestions := None\<rparr>;
           s3 = storeCurrentVideoForAuth s (Some vid) s2
       in s3\<lparr>videoId := Some vid, platform := p\<rparr>, Next (vid, p))"
    using assms(1-3) by (simp add: start_analysis_def Let_def)
  have fetch: "\<And>s3. fetch_transcript_and_info net lib url s3 =
      (let s1 = s3\<lparr>pageState := ANALYZING_NEW, loadingStage := Some fetching\<rparr>;
           s2 = emit (Fetch (Video_info url)) (emit (Fetch (Transcript url)) s1);
           s3 = s2\<lparr>page_transcript := normalizeTranscript lib (field data ''transcript'')\<rparr>
       in case read_videoInfo (videoInfo_fetch net) of
            None \<Rightarrow> s3
          | Some videoInfoData \<Rightarrow> s3\<lparr>videoInfo := Some videoInfoData\<rparr>,
       Next (normalizeTranscript lib (field data ''transcript''),
             read_videoInfo (videoInfo_fetch net)))"
    using r by (cases data) (simp_all add: fetch_transcript_and_info_def Let_def)
  define s1 where "s1 = fst (start_analysis s url s)"
  define s2 where "s2 = emit (Fetch (Check_video_cache url)) s1"
  define s3 where "s3 = (if user s = None then fst (checkRateLimit net s2) else s2)"
  define s4 where "s4 = fst (fetch_transcript_and_info net lib url s3)"
  have c1: "start_analysis s url s = (s1, Next (vid, p))"
    by (simp add: s1_def start Let_def)
  have c2: "check_cache net lib s url vid s1 = (s2, Next ())"
    unfolding s2_def by (rule check_cache_miss [OF assms(4)])
  have c3: "limit_gate net s vid s2 = (s3, Next ())"
    unfolding s3_def by (rule limit_gate_open [OF assms(5)])
  have c4: "fetch_transcript_and_info net lib url s3 =
      (s4, Next (normalizeTranscript lib (field data ''transcript''),
                 read_videoInfo (videoInfo_fetch net)))"
    by (simp add: s4_def fetch Let_def)
  note eq = processVideo_try_chain [OF c1 c2 c3 c4]
  have e1: "events s1 = events s @ Abort_cleanup #
        (if user s = None then [Session_setItem ''pendingVideoId'' vid] else [])"
    and h1: "shown s1 = ([], False, [], None, [], None, [])"
    using assms(2)
    by (simp_all add: s1_def start shown_def emit_def storeCurrentVideoForAuth_def setItem_def
        Let_def)
  have e3: "events s3 = events s1 @ Fetch (Check_video_cache url) #
        (if user s = None then [Fetch Check_limit] else [])"
    by (simp add: s3_def s2_def checkRateLimit_frame(1) emit_def)
  have h3: "shown s3 = shown s1"
    by (simp add: s3_def s2_def shown_def checkRateLimit_def emit_def Let_def
        split: fetched.splits sum.splits option.splits)
  have e4: "events s4 = events s3 @ [Fetch (Transcript url), Fetch (Video_info url)]"
    by (cases "read_videoInfo (videoInfo_fetch net)")
       (simp_all add: s4_def fetch emit_def Let_def)
  have h4: "shown s4 = (error s3, isRateLimitError s3, page_topics s3, takeawaysContent s3,
      takeawaysError s3, read_videoInfo (videoInfo_fetch net),
      normalizeTranscript lib (field data ''transcript''))"
    using h3 h1
    by (cases "read_videoInfo (videoInfo_fetch net)")
       (simp_all add: s4_def fetch shown_def emit_def Let_def)
  have ev: "events s4 = events s @ Abort_cleanup #
        (if user s = None then [Session_setItem ''pendingVideoId'' vid] else []) @
        Fetch (Check_video_cache url) #
        (if user s = None then [Fetch Check_limit] else []) @
        [Fetch (Transcript url), Fetch (Video_info url)]"
    by (simp add: e4 e3 e1)
  have sh: "shown s4 = ([], False, [], None, [], read_videoInfo (videoInfo_fetch net),
                  normalizeTranscript lib (field data ''transcript''))"
    using h4 h3 h1 by (simp add: shown_def)
  from eq ev sh show ?thesis by blast
qed


lemma normalizeErrorMessage_texts:
  "normalizeErrorMessage (Some TOPICS_ABORTED_MESSAGE) ''An error occurred'' = TOPICS_ABORTED_MESSAGE"
  "normalizeErrorMessage (Some TOPICS_NETWORK_MESSAGE) ''An error occurred'' = TOPICS_NETWORK_MESSAGE"
  "normalizeErrorMessage (Some TRANSCRIPT_TIMEOUT_MESSAGE) ''An error occurred'' =
     TRANSCRIPT_TIMEOUT_MESSAGE"
  "normalizeErrorMessage (Some TRANSCRIPT_NETWORK_MESSAGE) ''An error occurred'' =
     TRANSCRIPT_NETWORK_MESSAGE"
  by code_simp+

lemma normalizeErrorMessage_nonempty:
  "fallback \<noteq> [] \<Longrightarrow> normalizeErrorMessage message fallback \<noteq> []"
  by (auto simp: normalizeErrorMessage_def Let_def UNSUPPORTED_LANGUAGE_MESSAGE_def)

lemma buildApiErrorMessage_nonempty:
  "fallback \<noteq> [] \<Longrightarrow> buildApiErrorMessage errorData fallback \<noteq> []"
  by (cases errorData) (simp_all add: buildApiErrorMessage_def Let_def normalizeErrorMessage_nonempty)


lemma generate_rejected:
  assumes "topics_fetch net = Rejects e"
  shows "\<exists>s5. generate net c vid tr info s4 =
        (s5, Throw (Error (if err_name e = ''AbortError'' then TOPICS_ABORTED_MESSAGE
                           else TOPICS_NETWORK_MESSAGE))) \<and>
      events s5 = events s4 @
        [Fetch (Quick_preview tr info), Fetch (Video_analysis vid info tr False),
         Fetch (Generate_summary vid info tr), Abort ''takeaways''] \<and>
      shown s5 = shown s4"
  using assms by (simp add: generate_def shown_def emit_def Let_def)

lemma generate_ok:
  assumes "topics_ok net topicsData"
  shows "\<exists>s5. generate net c vid tr info s4 = (s5, Next (topicsData, takeaways_fetch net)) \<and>
      events s5 = events s4 @
        [Fetch (Quick_preview tr info), Fetch (Video_analysis vid info tr False),
         Fetch (Generate_summary vid info tr)] \<and>
      shown s5 = shown s4"
proof -
  from assms obtain r where r: "topics_fetch net = Resolves r" "ok r"
      "json_body r = Inr topicsData" "topicsData \<noteq> JNull"
    by (auto simp: topics_ok_def split: fetched.splits)
  then show ?thesis
    by (cases topicsData)
       (simp_all add: generate_def settle_takeaways_def shown_def emit_def Let_def)
qed

lemma finish_analysis_ok:
  assumes "read_summary takeawaysResult = Inr (g, terr)"
    and "topics_readable lib topicsData tr"
  shows "\<exists>s6. finish_analysis lib vid tr info topicsData takeawaysResult s5 = (s6, Next ()) \<and>
      events s6 = events s5 @
        [Fetch Check_limit,
         Fetch (Save_analysis vid
                  (case info of Some i \<Rightarrow> i | None \<Rightarrow> placeholder_videoInfo vid) tr
                  (hydrateTopicsWithTranscript lib (array_field topicsData ''topics'') tr) g),
         Fetch (Suggested_questions tr
                  (hydrateTopicsWithTranscript lib (array_field topicsData ''topics'') tr))] \<and>
      shown s6 =
        (error s5, isRateLimitError s5,
         hydrateTopicsWithTranscript lib (array_field topicsData ''topics'') tr,
         (if truthy g then g else takeawaysContent s5),
         (if \<not> truthy g \<and> terr \<noteq> [] then terr else takeawaysError s5),
         videoInfo s5, page_transcript s5)"
  using assms by (simp add: finish_analysis_def topics_readable_def shown_def emit_def Let_def)

text \<open>A candidate without a quote ends the run in the \<open>catch\<close>, before anything is set.\<close>

lemma finish_analysis_candidate_error:
  assumes "first_candidate_error (array_field topicsData ''topicCandidates'') = Some e"
  shows "finish_analysis lib vid tr info topicsData takeawaysResult s5 = (s5, Throw e)"
  using assms by (simp add: finish_analysis_def Let_def)

lemma processVideo_after_throw:
  assumes "processVideo_try net lib s url s = (s5, Throw err)"
  shows "processVideo net lib url s =
     s5\<lparr>error := normalizeErrorMessage (Some (err_message err)) ''An error occurred'',
        pageState := IDLE, loadingStage := None, isGeneratingTakeaways := False\<rparr>"
  using assms by (simp add: processVideo_def)

lemma processVideo_after_next:
  assumes "processVideo_try net lib s url s = (s6, Next ())"
  shows "processVideo net lib url s =
     s6\<lparr>pageState := IDLE, loadingStage := None, isGeneratingTakeaways := False\<rparr>"
  using assms by (simp add: processVideo_def)

lemma shown_fields:
  "shown s = (a, b, c, d, e, f, g) \<Longrightarrow>
   error s = a \<and> isRateLimitError s = b \<and> page_topics s = c \<and> takeawaysContent s = d \<and>
   takeawaysError s = e \<and> videoInfo s = f \<and> page_transcript s = g"
  by (simp add: shown_def)

text \<open>
  C6.  On the miss path, after the transcript has arrived, a rejected topic request while
  the summary request is in flight: the run ends with the abort of the summary request
  right after the two requests were issued, the aborted request settles as an
  \<open>AbortError\<close>, the error shown is the one made from the rejection of the topic request
  (the text for an aborted request or the text for a network error), and neither a
  summary nor a summary error nor any topic is shown.
\<close>

theorem topic_rejection_aborts_summary:
  assumes "extractVideoId url = Some vid" "vid \<noteq> []" "detectPlatform url = Some p"
    and "cache_miss net" "under_limit net s" "transcript_ok net data"
    and "topics_fetch net = Rejects e" "\<not> takeaways_settled_first net"
  shows "run_events s (processVideo net lib url s) =
        miss_path_events s url vid (normalizeTranscript lib (field data ''transcript''))
          (read_videoInfo (videoInfo_fetch net)) @ [Abort ''takeaways''] \<and>
      settle_takeaways net True = Rejects AbortError \<and>
      error (processVideo net lib url s) =
        (if err_name e = ''AbortError'' then TOPICS_ABORTED_MESSAGE
         else TOPICS_NETWORK_MESSAGE) \<and>
      takeawaysContent (processVideo net lib url s) = None \<and>
      takeawaysError (processVideo net lib url s) = [] \<and>
      page_topics (processVideo net lib url s) = [] \<and>
      pageState (processVideo net lib url s) = IDLE"
proof -
  let ?tr = "normalizeTranscript lib (field data ''transcript'')"
  let ?info = "read_videoInfo (videoInfo_fetch net)"
  from miss_path_reaches_generate [OF assms(1-6), of lib] obtain s4
    where t: "processVideo_try net lib s url s =
        (case generate net s vid ?tr ?info s4 of
           (s5, Throw e) \<Rightarrow> (s5, Throw e)
         | (s5, Return) \<Rightarrow> (s5, Return)
         | (s5, Next (topicsData, takeawaysResult)) \<Rightarrow>
             finish_analysis lib vid ?tr ?info topicsData takeawaysResult s5)"
      and e4: "events s4 = events s @ Abort_cleanup #
        (if user s = None then [Session_setItem ''pendingVideoId'' vid] else []) @
        Fetch (Check_video_cache url) #
        (if user s = None then [Fetch Check_limit] else []) @
        [Fetch (Transcript url), Fetch (Video_info url)]"
      and h4: "shown s4 = ([], False, [], None, [], ?info, ?tr)"
    by blast
  let ?err = "Error (if err_name e = ''AbortError'' then TOPICS_ABORTED_MESSAGE
                     else TOPICS_NETWORK_MESSAGE)"
  from generate_rejected [OF assms(7), of s vid ?tr ?info s4] obtain s5
    where g: "generate net s vid ?tr ?info s4 = (s5, Throw ?err)"
      and e5: "events s5 = events s4 @
        [Fetch (Quick_preview ?tr ?info), Fetch (Video_analysis vid ?info ?tr False),
         Fetch (Generate_summary vid ?info ?tr), Abort ''takeaways'']"
      and h5: "shown s5 = shown s4"
    by blast
  from t g have "processVideo_try net lib s url s = (s5, Throw ?err)" by simp
  note pv = processVideo_after_throw [OF this]
  note f5 = shown_fields [OF h5 [unfolded h4]]
  have ev: "events (processVideo net lib url s) = events s @
      (miss_path_events s url vid ?tr ?info @ [Abort ''takeaways''])"
    by (simp add: pv e5 e4 miss_path_events_def)
  show ?thesis
  proof (intro conjI)
    show "run_events s (processVideo net lib url s) =
        miss_path_events s url vid ?tr ?info @ [Abort ''takeaways'']"
      by (rule run_events_append [OF ev])
    show "settle_takeaways net True = Rejects AbortError"
      using assms(8) by (simp add: settle_takeaways_def)
    show "error (processVideo net lib url s) =
        (if err_name e = ''AbortError'' then TOPICS_ABORTED_MESSAGE
         else TOPICS_NETWORK_MESSAGE)"
      by (simp add: pv Error_def normalizeErrorMessage_texts)
    show "takeawaysContent (processVideo net lib url s) = None"
      using f5 by (simp add: pv)
    show "takeawaysError (processVideo net lib url s) = []"
      using f5 by (simp add: pv)
    show "page_topics (processVideo net lib url s) = []"
      using f5 by (simp add: pv)
    show "pageState (processVideo net lib url s) = IDLE"
      by (simp add: pv)
  qed
qed


lemma example_network_facts:
  "cache_miss example_network"
  "under_limit example_network (initial_page (Some ''u1'') None)"
  "transcript_ok example_network (JObj [(''transcript'', JArr [JObj [(''text'', JStr ''hello'')]])])"
  "topics_ok example_network (JObj [(''topics'', JArr [JStr ''t1''])])"
  "read_videoInfo (videoInfo_fetch example_network) = Some (JObj [(''title'', JStr ''A video'')])"
  "read_summary (takeaways_fetch example_network) = Inr (Some (JStr ''sum''), [])"
  by (simp_all add: cache_miss_def under_limit_def transcript_ok_def topics_ok_def
      read_videoInfo_def read_summary_def example_network_def json_response_def
      initial_page_def)

theorem topic_rejection_aborts_summary_witness:
  "run_events (initial_page (Some ''u1'') None)
      (processVideo example_rejecting_network example_utils
         ''https://www.bilibili.com/video/BV1xx411c7mD'' (initial_page (Some ''u1'') None)) =
     [Abort_cleanup,
      Fetch (Check_video_cache ''https://www.bilibili.com/video/BV1xx411c7mD''),
      Fetch (Transcript ''https://www.bilibili.com/video/BV1xx411c7mD''),
      Fetch (Video_info ''https://www.bilibili.com/video/BV1xx411c7mD''),
      Fetch (Quick_preview [JObj [(''text'', JStr ''hello'')]]
               (Some (JObj [(''title'', JStr ''A video'')]))),
      Fetch (Video_analysis ''BV1xx411c7mD'' (Some (JObj [(''title'', JStr ''A video'')]))
               [JObj [(''text'', JStr ''hello'')]] False),
      Fetch (Generate_summary ''BV1xx411c7mD'' (Some (JObj [(''title'', JStr ''A video'')]))
               [JObj [(''text'', JStr ''hello'')]]),
      Abort ''takeaways''] \<and>
   error (processVideo example_rejecting_network example_utils
            ''https://www.bilibili.com/video/BV1xx411c7mD'' (initial_page (Some ''u1'') None)) =
     TOPICS_NETWORK_MESSAGE \<and>
   takeawaysContent (processVideo example_rejecting_network example_utils
            ''https://www.bilibili.com/video/BV1xx411c7mD'' (initial_page (Some ''u1'') None)) =
     None"
proof -
  have ne: "''BV1xx411c7mD'' \<noteq> []" by simp
  have h: "cache_miss example_rejecting_network"
    "under_limit example_rejecting_network (initial_page (Some ''u1'') None)"
    "transcript_ok example_rejecting_network
       (JObj [(''transcript'', JArr [JObj [(''text'', JStr ''hello'')]])])"
    "topics_fetch example_rejecting_network =
       Rejects \<lparr>err_name = ''TypeError'', err_message = ''Failed to fetch''\<rparr>"
    "\<not> takeaways_settled_first example_rejecting_network"
    by (simp_all add: example_rejecting_network_def cache_miss_def under_limit_def
        transcript_ok_def example_network_def json_response_def initial_page_def)
  have i: "read_videoInfo (videoInfo_fetch example_rejecting_network) =
      Some (JObj [(''title'', JStr ''A video'')])"
    using example_network_facts(5) by (simp add: example_rejecting_network_def)
  from topic_rejection_aborts_summary [OF example_url(2) ne example_url(1) h,
      where lib = example_utils]
  show ?thesis
    by (simp add: i miss_path_events_def initial_page_def example_utils_def)
qed




text \<open>
  A run of the miss path in which the transcript, the topics and the summary arrive and
  the topic data can be read: all requests are made and the topics are shown.
\<close>

lemma miss_path_completes:
  assumes "extractVideoId url = Some vid" "vid \<noteq> []" "detectPlatform url = Some p"
    and "cache_miss net" "under_limit net s" "transcript_ok net data"
    and "topics_ok net topicsData" "read_summary (takeaways_fetch net) = Inr (g, terr)"
    and "topics_readable lib topicsData (normalizeTranscript lib (field data ''transcript''))"
  shows "run_events s (processVideo net lib url s) =
        miss_path_events s url vid (normalizeTranscript lib (field data ''transcript''))
          (read_videoInfo (videoInfo_fetch net)) @
        [Fetch Check_limit,
         Fetch (Save_analysis vid
                  (case read_videoInfo (videoInfo_fetch net) of
                     Some i \<Rightarrow> i | None \<Rightarrow> placeholder_videoInfo vid)
                  (normalizeTranscript lib (field data ''transcript''))
                  (hydrateTopicsWithTranscript lib (array_field topicsData ''topics'')
                     (normalizeTranscript lib (field data ''transcript''))) g),
         Fetch (Suggested_questions (normalizeTranscript lib (field data ''transcript''))
                  (hydrateTopicsWithTranscript lib (array_field topicsData ''topics'')
                     (normalizeTranscript lib (field data ''transcript''))))]"
    and "error (processVideo net lib url s) = []"
    and "videoInfo (processVideo net lib url s) = read_videoInfo (videoInfo_fetch net)"
    and "page_topics (processVideo net lib url s) =
        hydrateTopicsWithTranscript lib (array_field topicsData ''topics'')
          (normalizeTranscript lib (field data ''transcript''))"
    and "pageState (processVideo net lib url s) = IDLE"
    and "\<not> isRateLimitError (processVideo net lib url s)"
proof -
  let ?tr = "normalizeTranscript lib (field data ''transcript'')"
  let ?topics = "hydrateTopicsWithTranscript lib (array_field topicsData ''topics'') ?tr"
  let ?info = "read_videoInfo (videoInfo_fetch net)"
  from miss_path_reaches_generate [OF assms(1-6), of lib] obtain s4
    where t: "processVideo_try net lib s url s =
        (case generate net s vid ?tr ?info s4 of
           (s5, Throw e) \<Rightarrow> (s5, Throw e)
         | (s5, Return) \<Rightarrow> (s5, Return)
         | (s5, Next (topicsData, takeawaysResult)) \<Rightarrow>
             finish_analysis lib vid ?tr ?info topicsData takeawaysResult s5)"
      and e4: "events s4 = events s @ Abort_cleanup #
        (if user s = None then [Session_setItem ''pendingVideoId'' vid] else []) @
        Fetch (Check_video_cache url) #
        (if user s = None then [Fetch Check_limit] else []) @
        [Fetch (Transcript url), Fetch (Video_info url)]"
      and h4: "shown s4 = ([], False, [], None, [], ?info, ?tr)"
    by blast
  from generate_ok [OF assms(7), of s vid ?tr ?info s4] obtain s5
    where g5: "generate net s vid ?tr ?info s4 = (s5, Next (topicsData, takeaways_fetch net))"
      and e5: "events s5 = events s4 @
        [Fetch (Quick_preview ?tr ?info), Fetch (Video_analysis vid ?info ?tr False),
         Fetch (Generate_summary vid ?info ?tr)]"
      and h5: "shown s5 = shown s4"
    by blast
  from finish_analysis_ok [OF assms(8,9), of vid ?info s5] obtain s6
    where f6: "finish_analysis lib vid ?tr ?info topicsData (takeaways_fetch net) s5 = (s6, Next ())"
      and e6: "events s6 = events s5 @
        [Fetch Check_limit,
         Fetch (Save_analysis vid (case ?info of Some i \<Rightarrow> i | None \<Rightarrow> placeholder_videoInfo vid)
                  ?tr ?topics g),
         Fetch (Suggested_questions ?tr ?topics)]"
      and h6: "shown s6 =
        (error s5, isRateLimitError s5, ?topics,
         (if truthy g then g else takeawaysContent s5),
         (if \<not> truthy g \<and> terr \<noteq> [] then terr else takeawaysError s5),
         videoInfo s5, page_transcript s5)"
    by auto
  from t g5 f6 have "processVideo_try net lib s url s = (s6, Next ())" by simp
  note pv = processVideo_after_next [OF this]
  note f5 = shown_fields [OF h5 [unfolded h4]]
  note f6 = shown_fields [OF h6]
  have ev: "events (processVideo net lib url s) = events s @
      (miss_path_events s url vid ?tr ?info @
       [Fetch Check_limit,
        Fetch (Save_analysis vid (case ?info of Some i \<Rightarrow> i | None \<Rightarrow> placeholder_videoInfo vid)
                 ?tr ?topics g),
        Fetch (Suggested_questions ?tr ?topics)])"
    by (simp add: pv e6 e5 e4 miss_path_events_def)
  show "run_events s (processVideo net lib url s) =
        miss_path_events s url vid ?tr ?info @
        [Fetch Check_limit,
         Fetch (Save_analysis vid (case ?info of Some i \<Rightarrow> i | None \<Rightarrow> placeholder_videoInfo vid)
                  ?tr ?topics g),
         Fetch (Suggested_questions ?tr ?topics)]"
    by (rule run_events_append [OF ev])
  show "error (processVideo net lib url s) = []"
    using f6 f5 by (simp add: pv)
  show "videoInfo (processVideo net lib url s) = ?info"
    using f6 f5 by (simp add: pv)
  show "page_topics (processVideo net lib url s) = ?topics"
    using f6 by (simp add: pv)
  show "pageState (processVideo net lib url s) = IDLE"
    by (simp add: pv)
  show "\<not> isRateLimitError (processVideo net lib url s)"
    using f6 f5 by (simp add: pv)
qed

text \<open>
  The same run with a candidate that has no quote: the \<open>TypeError\<close> is shown, no topic
  is shown and nothing is saved.
\<close>

lemma malformed_candidate_ends_run:
  assumes "extractVideoId url = Some vid" "vid \<noteq> []" "detectPlatform url = Some p"
    and "cache_miss net" "under_limit net s" "transcript_ok net data"
    and "topics_ok net topicsData"
    and "first_candidate_error (array_field topicsData ''topicCandidates'') = Some e"
  shows "run_events s (processVideo net lib url s) =
        miss_path_events s url vid (normalizeTranscript lib (field data ''transcript''))
          (read_videoInfo (videoInfo_fetch net))"
    and "error (processVideo net lib url s) =
        normalizeErrorMessage (Some (err_message e)) ''An error occurred''"
    and "page_topics (processVideo net lib url s) = []"
proof -
  let ?tr = "normalizeTranscript lib (field data ''transcript'')"
  let ?info = "read_videoInfo (videoInfo_fetch net)"
  from miss_path_reaches_generate [OF assms(1-6), of lib] obtain s4
    where t: "processVideo_try net lib s url s =
        (case generate net s vid ?tr ?info s4 of
           (s5, Throw e) \<Rightarrow> (s5, Throw e)
         | (s5, Return) \<Rightarrow> (s5, Return)
         | (s5, Next (topicsData, takeawaysResult)) \<Rightarrow>
             finish_analysis lib vid ?tr ?info topicsData takeawaysResult s5)"
      and e4: "events s4 = events s @ Abort_cleanup #
        (if user s = None then [Session_setItem ''pendingVideoId'' vid] else []) @
        Fetch (Check_video_cache url) #
        (if user s = None then [Fetch Check_limit] else []) @
        [Fetch (Transcript url), Fetch (Video_info url)]"
      and h4: "shown s4 = ([], False, [], None, [], ?info, ?tr)"
    by blast
  from generate_ok [OF assms(7), of s vid ?tr ?info s4] obtain s5
    where g5: "generate net s vid ?tr ?info s4 = (s5, Next (topicsData, takeaways_fetch net))"
      and e5: "events s5 = events s4 @
        [Fetch (Quick_preview ?tr ?info), Fetch (Video_analysis vid ?info ?tr False),
         Fetch (Generate_summary vid ?info ?tr)]"
      and h5: "shown s5 = shown s4"
    by blast
  note f6 = finish_analysis_candidate_error [OF assms(8), of lib vid ?tr ?info
      "takeaways_fetch net" s5]
  from t g5 f6 have "processVideo_try net lib s url s = (s5, Throw e)" by simp
  note pv = processVideo_after_throw [OF this]
  note f5 = shown_fields [OF h5 [unfolded h4]]
  have ev: "events (processVideo net lib url s) = events s @
      miss_path_events s url vid ?tr ?info"
    by (simp add: pv e5 e4 miss_path_events_def)
  show "run_events s (processVideo net lib url s) = miss_path_events s url vid ?tr ?info"
    by (rule run_events_append [OF ev])
  show "error (processVideo net lib url s) =
      normalizeErrorMessage (Some (err_message e)) ''An error occurred''"
    by (simp add: pv)
  show "page_topics (processVideo net lib url s) = []"
    using f5 by (simp add: pv)
qed





section \<open>The limit check of the miss path\<close>

text \<open>
  C5.  On the miss path of a valid URL:
  \<^item> for a guest whose fresh answer from \<open>/api/check-limit\<close> has \<open>remaining: 0\<close>, the
    run makes no request for a transcript, for metadata or for generated content, and the
    pending video id is in the session storage; on a page that has not redirected yet,
    the events of the run are exactly: the cleanup, the stored id, the cache check, the
    limit check, the stored id and the stored message, and the push to \<open>/?auth=limit\<close>;
  \<^item> for a signed-in user the run does not ask the server: it reads the
    \<open>authLimitReached\<close> of the render that made the callback.  On a render in which
    that state is still \<open>false\<close> (as on the first one), although the server answers
    \<open>/api/check-limit\<close> with \<open>isAuthenticated\<close> and \<open>canGenerate: false\<close>, the
    limit message is not shown and the transcript, the metadata, the topics and the
    summary are requested: with these answered, the run completes and shows the topics;
  \<^item> only on a render made after \<open>checkRateLimit\<close> has recorded such an answer does
    the run end at the check: its events are the cleanup, the cache check and the toast
    of \<open>AUTH_LIMIT_MESSAGE\<close>, and the page shows that message as a rate-limit error.
\<close>

theorem signed_in_limit_read_from_captured_state:
  assumes "extractVideoId url = Some vid" "vid \<noteq> []" "detectPlatform url = Some p"
    and "cache_miss net"
  shows
    "(user s = None \<and> limit_fetch net = Resolves r \<and> json_body r = Inr data \<and>
      field data ''remaining'' = Some (JNum 0) \<longrightarrow>
        list_all (\<lambda>e. \<not> analysis_request e) (run_events s (processVideo net lib url s)) \<and>
        sessionStorage (processVideo net lib url s) ''pendingVideoId'' = Some vid \<and>
        pageState (processVideo net lib url s) = IDLE \<and>
        (\<not> hasRedirectedForLimit s \<longrightarrow>
           run_events s (processVideo net lib url s) =
             [Abort_cleanup, Session_setItem ''pendingVideoId'' vid,
              Fetch (Check_video_cache url), Fetch Check_limit,
              Session_setItem ''pendingVideoId'' vid,
              Session_setItem ''limitRedirectMessage'' GUEST_LIMIT_MESSAGE,
              Router_push ''/?auth=limit''])) \<and>
     (user s = Some u \<and> \<not> authLimitReached s \<and>
      limit_fetch net = Resolves r \<and> json_body r = Inr data \<and>
      truthy (field data ''isAuthenticated'') \<and>
      field data ''canGenerate'' = Some (JBool False) \<and>
      transcript_ok net transcriptData \<and> topics_ok net topicsData \<and>
      topics_readable lib topicsData
        (normalizeTranscript lib (field transcriptData ''transcript'')) \<and>
      read_summary (takeaways_fetch net) = Inr (g, terr) \<longrightarrow>
        run_events s (processVideo net lib url s) =
          [Abort_cleanup, Fetch (Check_video_cache url), Fetch (Transcript url),
           Fetch (Video_info url),
           Fetch (Quick_preview (normalizeTranscript lib (field transcriptData ''transcript''))
                    (read_videoInfo (videoInfo_fetch net))),
           Fetch (Video_analysis vid (read_videoInfo (videoInfo_fetch net))
                    (normalizeTranscript lib (field transcriptData ''transcript'')) False),
           Fetch (Generate_summary vid (read_videoInfo (videoInfo_fetch net))
                    (normalizeTranscript lib (field transcriptData ''transcript''))),
           Fetch Check_limit,
           Fetch (Save_analysis vid
                    (case read_videoInfo (videoInfo_fetch net) of
                       Some i \<Rightarrow> i | None \<Rightarrow> placeholder_videoInfo vid)
                    (normalizeTranscript lib (field transcriptData ''transcript''))
                    (hydrateTopicsWithTranscript lib (array_field topicsData ''topics'')
                       (normalizeTranscript lib (field transcriptData ''transcript''))) g),
           Fetch (Suggested_questions
                    (normalizeTranscript lib (field transcriptData ''transcript''))
                    (hydrateTopicsWithTranscript lib (array_field topicsData ''topics'')
                       (normalizeTranscript lib (field transcriptData ''transcript''))))] \<and>
        error (processVideo net lib url s) = [] \<and>
        \<not> isRateLimitError (processVideo net lib url s) \<and>
        page_topics (processVideo net lib url s) =
          hydrateTopicsWithTranscript lib (array_field topicsData ''topics'')
            (normalizeTranscript lib (field transcriptData ''transcript''))) \<and>
     (user s0 = Some u \<and> limit_fetch net0 = Resolves r0 \<and> json_body r0 = Inr data0 \<and>
      truthy (field data0 ''isAuthenticated'') \<and>
      field data0 ''canGenerate'' = Some (JBool False) \<longrightarrow>
        run_events (fst (checkRateLimit net0 s0))
            (processVideo net lib url (fst (checkRateLimit net0 s0))) =
          [Abort_cleanup, Fetch (Check_video_cache url), Toast_error AUTH_LIMIT_MESSAGE] \<and>
        error (processVideo net lib url (fst (checkRateLimit net0 s0))) = AUTH_LIMIT_MESSAGE \<and>
        isRateLimitError (processVideo net lib url (fst (checkRateLimit net0 s0))) \<and>
        pageState (processVideo net lib url (fst (checkRateLimit net0 s0))) = IDLE)"
proof (intro conjI impI)
  assume a: "user s = None \<and> limit_fetch net = Resolves r \<and> json_body r = Inr data \<and>
      field data ''remaining'' = Some (JNum 0)"
  from start_analysis_valid [OF assms(1-3), of s s] obtain s1
    where s1: "start_analysis s url s = (s1, Next (vid, p))"
      and e1: "events s1 = events s @ [Abort_cleanup, Session_setItem ''pendingVideoId'' vid]"
      and st1: "sessionStorage s1 = (sessionStorage s)(''pendingVideoId'' \<mapsto> vid)"
      and f1: "hasRedirectedForLimit s1 = hasRedirectedForLimit s"
    using a by auto
  let ?s2 = "emit (Fetch (Check_video_cache url)) s1"
  have s2: "check_cache net lib s url vid s1 = (?s2, Next ())"
    by (rule check_cache_miss [OF assms(4)])
  from a have a1: "user s = None" and a2: "limit_fetch net = Resolves r"
    and a3: "json_body r = Inr data" and a4: "field data ''remaining'' = Some (JNum 0)"
    by simp_all
  from limit_gate_guest_exhausted [OF a1 a2 a3 a4 assms(2), of ?s2] obtain s3
    where s3: "limit_gate net s vid ?s2 = (s3, Return)"
      and e3: "events s3 = events ?s2 @ Fetch Check_limit #
        (if hasRedirectedForLimit ?s2 then []
         else [Session_setItem ''pendingVideoId'' vid,
               Session_setItem ''limitRedirectMessage'' GUEST_LIMIT_MESSAGE,
               Router_push ''/?auth=limit''])"
      and st3: "\<not> hasRedirectedForLimit ?s2 \<longrightarrow> sessionStorage s3 ''pendingVideoId'' = Some vid"
        "hasRedirectedForLimit ?s2 \<longrightarrow> sessionStorage s3 = sessionStorage ?s2"
    by blast
  note pv = processVideo_returns_at_gate [OF s1 s2 s3]
  have ev: "events (processVideo net lib url s) = events s @
      [Abort_cleanup, Session_setItem ''pendingVideoId'' vid, Fetch (Check_video_cache url),
       Fetch Check_limit] @
      (if hasRedirectedForLimit s then []
       else [Session_setItem ''pendingVideoId'' vid,
             Session_setItem ''limitRedirectMessage'' GUEST_LIMIT_MESSAGE,
             Router_push ''/?auth=limit''])"
    by (simp add: pv e3 e1 f1 emit_def)
  show "list_all (\<lambda>e. \<not> analysis_request e) (run_events s (processVideo net lib url s))"
    by (simp add: run_events_append [OF ev])
  show "sessionStorage (processVideo net lib url s) ''pendingVideoId'' = Some vid"
    using st3 by (cases "hasRedirectedForLimit s") (simp_all add: pv f1 st1 emit_def)
  show "pageState (processVideo net lib url s) = IDLE"
    by (simp add: pv)
  assume "\<not> hasRedirectedForLimit s"
  then show "run_events s (processVideo net lib url s) =
      [Abort_cleanup, Session_setItem ''pendingVideoId'' vid,
       Fetch (Check_video_cache url), Fetch Check_limit,
       Session_setItem ''pendingVideoId'' vid,
       Session_setItem ''limitRedirectMessage'' GUEST_LIMIT_MESSAGE,
       Router_push ''/?auth=limit'']"
    by (simp add: run_events_append [OF ev])
next
  assume c: "user s = Some u \<and> \<not> authLimitReached s \<and>
      limit_fetch net = Resolves r \<and> json_body r = Inr data \<and>
      truthy (field data ''isAuthenticated'') \<and>
      field data ''canGenerate'' = Some (JBool False) \<and>
      transcript_ok net transcriptData \<and> topics_ok net topicsData \<and>
      topics_readable lib topicsData
        (normalizeTranscript lib (field transcriptData ''transcript'')) \<and>
      read_summary (takeaways_fetch net) = Inr (g, terr)"
  then have u: "user s = Some u" and open_gate: "under_limit net s"
    and h: "transcript_ok net transcriptData" "topics_ok net topicsData"
      "read_summary (takeaways_fetch net) = Inr (g, terr)"
      "topics_readable lib topicsData
        (normalizeTranscript lib (field transcriptData ''transcript''))"
    by (simp_all add: under_limit_def)
  note d = miss_path_completes [OF assms open_gate h]
  show "run_events s (processVideo net lib url s) =
          [Abort_cleanup, Fetch (Check_video_cache url), Fetch (Transcript url),
           Fetch (Video_info url),
           Fetch (Quick_preview (normalizeTranscript lib (field transcriptData ''transcript''))
                    (read_videoInfo (videoInfo_fetch net))),
           Fetch (Video_analysis vid (read_videoInfo (videoInfo_fetch net))
                    (normalizeTranscript lib (field transcriptData ''transcript'')) False),
           Fetch (Generate_summary vid (read_videoInfo (videoInfo_fetch net))
                    (normalizeTranscript lib (field transcriptData ''transcript''))),
           Fetch Check_limit,
           Fetch (Save_analysis vid
                    (case read_videoInfo (videoInfo_fetch net) of
                       Some i \<Rightarrow> i | None \<Rightarrow> placeholder_videoInfo vid)
                    (normalizeTranscript lib (field transcriptData ''transcript''))
                    (hydrateTopicsWithTranscript lib (array_field topicsData ''topics'')
                       (normalizeTranscript lib (field transcriptData ''transcript''))) g),
           Fetch (Suggested_questions
                    (normalizeTranscript lib (field transcriptData ''transcript''))
                    (hydrateTopicsWithTranscript lib (array_field topicsData ''topics'')
                       (normalizeTranscript lib (field transcriptData ''transcript''))))]"
    unfolding d(1) by (simp add: miss_path_events_def u)
  show "error (processVideo net lib url s) = []" by (rule d(2))
  show "\<not> isRateLimitError (processVideo net lib url s)" by (rule d(6))
  show "page_topics (processVideo net lib url s) =
          hydrateTopicsWithTranscript lib (array_field topicsData ''topics'')
            (normalizeTranscript lib (field transcriptData ''transcript''))"
    by (rule d(4))
next
  assume b: "user s0 = Some u \<and> limit_fetch net0 = Resolves r0 \<and> json_body r0 = Inr data0 \<and>
      truthy (field data0 ''isAuthenticated'') \<and>
      field data0 ''canGenerate'' = Some (JBool False)"
  let ?s = "fst (checkRateLimit net0 s0)"
  from b have lim: "authLimitReached ?s" and u: "user ?s = Some u"
    using checkRateLimit_records_limit [of net0 r0 data0 s0] by simp_all
  from start_analysis_valid [OF assms(1-3), of ?s ?s] obtain s1
    where s1: "start_analysis ?s url ?s = (s1, Next (vid, p))"
      and e1: "events s1 = events ?s @ [Abort_cleanup]"
    using u by auto
  let ?s2 = "emit (Fetch (Check_video_cache url)) s1"
  have s2: "check_cache net lib ?s url vid s1 = (?s2, Next ())"
    by (rule check_cache_miss [OF assms(4)])
  note s3 = limit_gate_signed_in_limited [OF u lim, of net vid ?s2]
  note pv = processVideo_returns_at_gate [OF s1 s2 s3]
  have ev: "events (processVideo net lib url ?s) = events ?s @
      [Abort_cleanup, Fetch (Check_video_cache url), Toast_error AUTH_LIMIT_MESSAGE]"
    by (simp add: pv e1 emit_def)
  show "run_events ?s (processVideo net lib url ?s) =
      [Abort_cleanup, Fetch (Check_video_cache url), Toast_error AUTH_LIMIT_MESSAGE]"
    by (rule run_events_append [OF ev])
  show "error (processVideo net lib url ?s) = AUTH_LIMIT_MESSAGE"
    by (simp add: pv emit_def)
  show "isRateLimitError (processVideo net lib url ?s)"
    by (simp add: pv emit_def)
  show "pageState (processVideo net lib url ?s) = IDLE"
    by (simp add: pv)
qed

text \<open>
  The run that C5 excludes: a signed-in user opens the page, the server would answer
  \<open>canGenerate: false\<close>, and the first render requests the transcript and the content.
\<close>

theorem signed_in_limit_read_from_captured_state_witness:
  "user (initial_page (Some ''u1'') None) = Some ''u1'' \<and>
   limit_fetch example_limited_network =
     json_response True 200
       (JObj [(''isAuthenticated'', JBool True), (''canGenerate'', JBool False)]) \<and>
   run_events (initial_page (Some ''u1'') None)
      (processVideo example_limited_network example_utils
         ''https://www.bilibili.com/video/BV1xx411c7mD'' (initial_page (Some ''u1'') None)) =
     [Abort_cleanup,
      Fetch (Check_video_cache ''https://www.bilibili.com/video/BV1xx411c7mD''),
      Fetch (Transcript ''https://www.bilibili.com/video/BV1xx411c7mD''),
      Fetch (Video_info ''https://www.bilibili.com/video/BV1xx411c7mD''),
      Fetch (Quick_preview [JObj [(''text'', JStr ''hello'')]]
               (Some (JObj [(''title'', JStr ''A video'')]))),
      Fetch (Video_analysis ''BV1xx411c7mD'' (Some (JObj [(''title'', JStr ''A video'')]))
               [JObj [(''text'', JStr ''hello'')]] False),
      Fetch (Generate_summary ''BV1xx411c7mD'' (Some (JObj [(''title'', JStr ''A video'')]))
               [JObj [(''text'', JStr ''hello'')]]),
      Fetch Check_limit,
      Fetch (Save_analysis ''BV1xx411c7mD'' (JObj [(''title'', JStr ''A video'')])
               [JObj [(''text'', JStr ''hello'')]] [JStr ''t1''] (Some (JStr ''sum''))),
      Fetch (Suggested_questions [JObj [(''text'', JStr ''hello'')]] [JStr ''t1''])] \<and>
   error (processVideo example_limited_network example_utils
            ''https://www.bilibili.com/video/BV1xx411c7mD'' (initial_page (Some ''u1'') None)) =
     [] \<and>
   page_topics (processVideo example_limited_network example_utils
            ''https://www.bilibili.com/video/BV1xx411c7mD'' (initial_page (Some ''u1'') None)) =
     [JStr ''t1'']"
proof -
  let ?url = "''https://www.bilibili.com/video/BV1xx411c7mD''"
  let ?s = "initial_page (Some ''u1'') None"
  let ?limit = "JObj [(''isAuthenticated'', JBool True), (''canGenerate'', JBool False)]"
  let ?td = "JObj [(''transcript'', JArr [JObj [(''text'', JStr ''hello'')]])]"
  let ?topics = "JObj [(''topics'', JArr [JStr ''t1''])]"
  have miss: "cache_miss example_limited_network"
    by (simp add: cache_miss_def example_limited_network_def example_network_def
        json_response_def)
  have ne: "''BV1xx411c7mD'' \<noteq> []" by simp
  have lim: "limit_fetch example_limited_network = json_response True 200 ?limit"
    by (simp add: example_limited_network_def)
  have h: "user ?s = Some ''u1''" "\<not> authLimitReached ?s"
    "limit_fetch example_limited_network =
       Resolves \<lparr>ok = True, status = 200, json_body = Inr ?limit\<rparr>"
    "json_body \<lparr>ok = True, status = 200, json_body = Inr ?limit\<rparr> = Inr ?limit"
    "truthy (field ?limit ''isAuthenticated'')"
    "field ?limit ''canGenerate'' = Some (JBool False)"
    "transcript_ok example_limited_network ?td"
    "topics_ok example_limited_network ?topics"
    "topics_readable example_utils ?topics
       (normalizeTranscript example_utils (field ?td ''transcript''))"
    "read_summary (takeaways_fetch example_limited_network) = Inr (Some (JStr ''sum''), [])"
    by (simp_all add: initial_page_def example_limited_network_def example_network_def
        json_response_def transcript_ok_def topics_ok_def read_summary_def
        topics_readable_def first_candidate_error_def null_topic_error_def array_field_def
        map_filter_simps example_utils_def)
  have info: "read_videoInfo (videoInfo_fetch example_limited_network) =
      Some (JObj [(''title'', JStr ''A video'')])"
    by (simp add: read_videoInfo_def example_limited_network_def example_network_def
        json_response_def)
  note w = signed_in_limit_read_from_captured_state [OF example_url(2) ne example_url(1) miss,
      where s = ?s and lib = example_utils and u = "''u1''"
        and r = "\<lparr>ok = True, status = 200, json_body = Inr ?limit\<rparr>" and data = ?limit
        and transcriptData = ?td and topicsData = ?topics
        and g = "Some (JStr ''sum'')" and terr = "[]"]
  note w2 = w [THEN conjunct2, THEN conjunct1, THEN mp,
      OF conjI [OF h(1) conjI [OF h(2) conjI [OF h(3) conjI [OF h(4) conjI [OF h(5)
         conjI [OF h(6) conjI [OF h(7) conjI [OF h(8) conjI [OF h(9) h(10)]]]]]]]]]]
  have tr: "normalizeTranscript example_utils (field ?td ''transcript'') =
      [JObj [(''text'', JStr ''hello'')]]"
    by (simp add: example_utils_def)
  have tp: "hydrateTopicsWithTranscript example_utils (array_field ?topics ''topics'')
      [JObj [(''text'', JStr ''hello'')]] = [JStr ''t1'']"
    by (simp add: example_utils_def array_field_def)
  note w3 = w2 [unfolded info tr tp option.case]
  from w3 h(1) lim show ?thesis by (simp only: simp_thms)
qed

section \<open>Failure of the transcript request and of the metadata request\<close>






section \<open>Properties of the theme selector\<close>











subsection \<open>Two selections in a row\<close>







end
